theory Spec2Isabelle
  imports Main "HOL-Library.Word" "HOL-Library.Signed_Division" "HOL-Library.Monad_Syntax"
begin

unbundle bit_operations_syntax

section \<open>HP 9845 display controllers (src/mame/drivers/hp9845.cpp)\<close>

text \<open>
  A shallow embedding of the video part of the driver: the monochrome controller
  (class \<open>hp9845b_state\<close>) and the colour controller (classes \<open>hp9845ct_state\<close> and
  \<open>hp9845c_state\<close>). Every C++ member function becomes a function from the device state
  to the device state; the classes become records that extend each other the way the
  classes derive from each other. Member functions that may loop forever return an
  \<open>option\<close>, with \<open>None\<close> standing for "does not return".
\<close>

subsection \<open>Constants\<close>

abbreviation (input) MAX_WORD_PER_ROW :: nat where "MAX_WORD_PER_ROW \<equiv> 220"
abbreviation (input) VIDEO_CHAR_HEIGHT :: nat where "VIDEO_CHAR_HEIGHT \<equiv> 15"
abbreviation (input) VIDEO_TOT_HPIXELS :: nat where "VIDEO_TOT_HPIXELS \<equiv> 720"
abbreviation (input) VIDEO_HBSTART :: nat where "VIDEO_HBSTART \<equiv> 720"
abbreviation (input) VIDEO_ACTIVE_SCANLINES :: nat where "VIDEO_ACTIVE_SCANLINES \<equiv> 375"
abbreviation (input) GVIDEO_HCNT_OFF :: nat where "GVIDEO_HCNT_OFF \<equiv> 1"
abbreviation (input) GVIDEO_HBEND :: nat where "GVIDEO_HBEND \<equiv> 68"
abbreviation (input) GVIDEO_HPIXELS :: nat where "GVIDEO_HPIXELS \<equiv> 560"
abbreviation (input) GVIDEO_VCNT_OFF :: nat where "GVIDEO_VCNT_OFF \<equiv> 34"
abbreviation (input) GVIDEO_VBEND :: nat where "GVIDEO_VBEND \<equiv> 16"
abbreviation (input) GVIDEO_VPIXELS :: nat where "GVIDEO_VPIXELS \<equiv> 455"
abbreviation (input) GVIDEO_VBSTART :: nat where "GVIDEO_VBSTART \<equiv> 471"
abbreviation (input) GVIDEO_PA :: "8 word" where "GVIDEO_PA \<equiv> 13"
abbreviation (input) VIDEO_770_VBEND :: nat where "VIDEO_770_VBEND \<equiv> 0"
abbreviation (input) VIDEO_770_VBSTART :: nat where "VIDEO_770_VBSTART \<equiv> 455"
abbreviation (input) VIDEO_770_ALPHA_L_LIM :: nat where "VIDEO_770_ALPHA_L_LIM \<equiv> 80"
abbreviation (input) VIDEO_770_ALPHA_R_LIM :: nat where "VIDEO_770_ALPHA_R_LIM \<equiv> 640"
abbreviation (input) PEN_BLACK :: nat where "PEN_BLACK \<equiv> 0"
abbreviation (input) PEN_GRAPHIC :: nat where "PEN_GRAPHIC \<equiv> 1"
abbreviation (input) PEN_ALPHA :: nat where "PEN_ALPHA \<equiv> 2"
abbreviation (input) PEN_CURSOR :: nat where "PEN_CURSOR \<equiv> 3"

definition GVIDEO_ADDR_MASK :: "16 word" where
  "GVIDEO_ADDR_MASK = 0x3fff"

definition VIDEO_BUFFER_BASE_LOW :: "32 word" where
  "VIDEO_BUFFER_BASE_LOW = 0x16000"

definition VIDEO_BUFFER_BASE_HIGH :: "32 word" where
  "VIDEO_BUFFER_BASE_HIGH = 0x17000"

text \<open>
  Modelled from the spec: the enumeration \<open>gv_fsm_state_t\<close> is declared in
  includes/hp9845.h, which is not part of the sources at hand. The enumerators are numbered
  in the order of the spec's FsmState list; \<open>GV_STAT_RESET\<close> and \<open>GV_STAT_WAIT_DS_0\<close>
  are one value, as the comment at hp9845.cpp:2231 says ("same as GV_STAT_RESET") and as
  the two \<open>switch\<close> statements, which have no \<open>case GV_STAT_RESET\<close>, require. The state
  variable is kept as a number so that values outside the enumeration can be written down.
\<close>

abbreviation (input) GV_STAT_RESET :: nat where "GV_STAT_RESET \<equiv> 0"
abbreviation (input) GV_STAT_WAIT_DS_0 :: nat where "GV_STAT_WAIT_DS_0 \<equiv> 0"
abbreviation (input) GV_STAT_WAIT_TRIG_0 :: nat where "GV_STAT_WAIT_TRIG_0 \<equiv> 1"
abbreviation (input) GV_STAT_WAIT_MEM_0 :: nat where "GV_STAT_WAIT_MEM_0 \<equiv> 2"
abbreviation (input) GV_STAT_WAIT_DS_1 :: nat where "GV_STAT_WAIT_DS_1 \<equiv> 3"
abbreviation (input) GV_STAT_WAIT_DS_2 :: nat where "GV_STAT_WAIT_DS_2 \<equiv> 4"
abbreviation (input) GV_STAT_WAIT_TRIG_1 :: nat where "GV_STAT_WAIT_TRIG_1 \<equiv> 5"
abbreviation (input) GV_STAT_WAIT_MEM_1 :: nat where "GV_STAT_WAIT_MEM_1 \<equiv> 6"
abbreviation (input) GV_STAT_WAIT_MEM_2 :: nat where "GV_STAT_WAIT_MEM_2 \<equiv> 7"

definition gv_state_valid :: "nat \<Rightarrow> bool" where
  "gv_state_valid st = (st < 8)"

definition m_line_type :: "nat \<Rightarrow> 16 word" where
  "m_line_type i = [0xffff, 0xaaaa, 0xff00, 0xfff0, 0xfffa, 0xfff6, 0xffb6, 0x0000] ! i"

definition m_area_fill :: "nat \<Rightarrow> 16 word" where
  "m_area_fill i = [0xffff, 0xefff, 0xefbf, 0xefaf, 0xafaf, 0xadaf, 0xada7, 0xada5,
                    0xa5a5, 0xa4a5, 0xa4a1, 0xa4a0, 0xa0a0, 0x80a0, 0x8020, 0x8000] ! i"

subsection \<open>What the device sees of the rest of the machine\<close>

text \<open>
  The collaborators of the driver, as values that are fixed during one call: the beam
  position, the time until the next horizontal blanking (the value of
  \<open>m_screen->time_until_pos(m_screen->vpos(), 628)\<close>), the frame counter, the PPU's
  program space, the two character generator ROMs and the light-pen ports.
\<close>

record env =
  screen_hpos :: int
  screen_time_until_pos :: nat
  screen_frame_number :: nat
  prog_read_word :: "32 word \<Rightarrow> 16 word"
  chargen :: "nat \<Rightarrow> 8 word"
  optional_chargen :: "nat \<Rightarrow> 8 word"
  lightpen_x :: "32 word"
  lightpen_y :: "32 word"
  lightpen_sw :: "32 word"

subsection \<open>Device state\<close>

datatype log_msg =
    Invalid_state_reached nat
  | Unknown_98770A_command "8 word" "16 word"
  | GS_changed bool
  | Writing_to_unmapped_LP_register "8 word"
  | Reading_from_unmapped_LP_register "8 word"

record video_buffer_t =
  chars :: "nat \<Rightarrow> 8 word"
  attrs :: "nat \<Rightarrow> 8 word"
  full :: bool

text \<open>
  Class \<open>hp9845_base_state\<close>. Its member declarations are in the absent header; the types
  are the ones the uses in hp9845.cpp fix (16-bit data registers and counters, 8-bit
  command and pending masks). \<open>m_bitmap\<close> holds palette indexes (row, then column).
  \<open>m_gv_timer\<close> is the one-shot timer: \<open>Some d\<close> when \<open>adjust(d)\<close> has armed it and it
  has not fired. The \<open>ppu_*\<close> fields are the input lines of the PPU that the driver
  drives, and \<open>logerror\<close> appends to \<open>errlog\<close>.
\<close>

record hp9845_base_state =
  m_bitmap :: "nat \<Rightarrow> nat \<Rightarrow> nat"
  m_video_mar :: "32 word"
  m_video_word :: "16 word"
  m_video_load_mar :: bool
  m_video_first_mar :: bool
  m_video_byte_idx :: bool
  m_video_buff_idx :: bool
  m_video_blanked :: bool
  m_video_buff :: "bool \<Rightarrow> video_buffer_t"
  m_graphic_sel :: bool
  m_gv_fsm_state :: nat
  m_gv_int_en :: bool
  m_gv_dma_en :: bool
  m_gv_cmd :: "8 word"
  m_gv_data_w :: "16 word"
  m_gv_data_r :: "16 word"
  m_gv_io_counter :: "16 word"
  m_gv_cursor_x :: "16 word"
  m_gv_cursor_y :: "16 word"
  m_gv_cursor_gc :: bool
  m_gv_cursor_fs :: bool
  m_irl_pending :: "8 word"
  m_irh_pending :: "8 word"
  m_pa :: "8 word"
  m_flg_status :: "16 word"
  m_sts_status :: "16 word"
  m_gv_timer :: "nat option"
  ppu_irl :: bool
  ppu_irh :: bool
  ppu_status :: bool
  ppu_flag :: bool
  ppu_dmar :: bool
  ppu_halt :: bool
  errlog :: "log_msg list"

text \<open>Class \<open>hp9845b_state\<close> (98750A, one plane).\<close>

record hp9845b_state = hp9845_base_state +
  m_video_attr :: "8 word"
  m_gv_cursor_w :: "16 word"
  m_graphic_mem_b :: "nat \<Rightarrow> 16 word"

text \<open>Class \<open>hp9845ct_state\<close> (common to 98770A and 98780A).\<close>

record hp9845ct_state = hp9845_base_state +
  m_alpha_sel :: bool
  m_gv_sk_en :: bool
  m_gv_gr_en :: bool
  m_gv_opt_en :: bool
  m_gv_dsa_en :: bool
  m_gv_lp_status :: bool
  m_gv_sk_status :: bool
  m_gv_lp_cursor_x :: "16 word"
  m_gv_lp_cursor_y :: "16 word"
  m_gv_lp_cursor_fs :: bool
  m_gv_lp_en :: bool
  m_gv_last_cmd :: "8 word"
  m_gv_word_x_position :: "16 word"
  m_gv_word_y_position :: "16 word"
  m_gv_memory_control :: "16 word"
  m_gv_line_type_area_fill :: "16 word"
  m_gv_line_type_mask :: "16 word"
  m_gv_repeat_count :: "8 word"
  m_gv_xpt :: "16 word"
  m_gv_ypt :: "16 word"
  m_gv_last_xpt :: "16 word"
  m_gv_last_ypt :: "16 word"
  m_gv_lp_data :: "nat \<Rightarrow> 16 word"
  m_gv_lp_selftest :: bool
  m_gv_lp_xwindow :: bool
  m_gv_lp_ywindow :: bool
  m_gv_lp_interlace :: bool
  m_gv_lp_vblank :: bool
  m_gv_lp_1sthit :: bool
  m_gv_lp_vbint :: bool
  m_gv_lp_fullbright :: bool
  m_gv_lp_threshold :: bool
  m_gv_lp_x :: "16 word"
  m_gv_lp_y :: "16 word"
  m_gv_lp_sw :: bool
  m_gv_lp_reg_cnt :: "8 word"
  m_gv_lp_int_en :: bool

text \<open>Class \<open>hp9845c_state\<close> (98770A, three planes: \<open>m_graphic_mem\<close> plane, then address).\<close>

record hp9845c_state = hp9845ct_state +
  m_graphic_mem :: "nat \<Rightarrow> nat \<Rightarrow> 16 word"
  m_gv_music_memory :: "16 word"
  m_gv_cursor_color :: "8 word"
  m_gv_plane :: "8 word"
  m_gv_plane_wrap :: bool

subsection \<open>hp9845\_base\_state\<close>

definition logerror :: "log_msg \<Rightarrow> 'a hp9845_base_state_scheme \<Rightarrow> 'a hp9845_base_state_scheme" where
  "logerror m s = s\<lparr>errlog := errlog s @ [m]\<rparr>"

text \<open>\<open>BIT_SET(w, n)\<close> and \<open>BIT_CLR(w, n)\<close> under a condition, as the setters use them.\<close>

definition bit_assign :: "nat \<Rightarrow> bool \<Rightarrow> 'w::len word \<Rightarrow> 'w word" where
  "bit_assign n state w = (if state then set_bit n w else unset_bit n w)"

text \<open>
  \<open>time_to_gv_mem_availability\<close>: 0 is \<open>attotime::zero\<close>.
\<close>

definition time_to_gv_mem_availability :: "env \<Rightarrow> 'a hp9845_base_state_scheme \<Rightarrow> nat" where
  "time_to_gv_mem_availability e s =
     (if m_graphic_sel s then
        (let hpos = screen_hpos e in
         if hpos < 34 - int GVIDEO_HCNT_OFF \<or> hpos \<ge> 628 - int GVIDEO_HCNT_OFF then 0
         else screen_time_until_pos e)
      else 0)"

definition update_irq :: "'a hp9845_base_state_scheme \<Rightarrow> 'a hp9845_base_state_scheme" where
  "update_irq s = s\<lparr>ppu_irl := (m_irl_pending s \<noteq> 0), ppu_irh := (m_irh_pending s \<noteq> 0)\<rparr>"

definition irq_w :: "8 word \<Rightarrow> bool \<Rightarrow> 'a hp9845_base_state_scheme \<Rightarrow> 'a hp9845_base_state_scheme" where
  "irq_w sc state s =
     (let bit_n = unat sc mod 8 in
      update_irq
        (if sc < 8 then s\<lparr>m_irl_pending := bit_assign bit_n state (m_irl_pending s)\<rparr>
         else s\<lparr>m_irh_pending := bit_assign bit_n state (m_irh_pending s)\<rparr>))"

definition update_flg_sts :: "'a hp9845_base_state_scheme \<Rightarrow> 'a hp9845_base_state_scheme" where
  "update_flg_sts s =
     (let sts = bit (m_sts_status s) (unat (m_pa s));
          flg = bit (m_flg_status s) (unat (m_pa s))
      in s\<lparr>ppu_status := sts, ppu_flag := flg\<rparr>)"

definition sts_w :: "8 word \<Rightarrow> bool \<Rightarrow> 'a hp9845_base_state_scheme \<Rightarrow> 'a hp9845_base_state_scheme" where
  "sts_w sc state s =
     (let s1 = s\<lparr>m_sts_status := bit_assign (unat sc) state (m_sts_status s)\<rparr>
      in if sc = m_pa s1 then update_flg_sts s1 else s1)"

definition flg_w :: "8 word \<Rightarrow> bool \<Rightarrow> 'a hp9845_base_state_scheme \<Rightarrow> 'a hp9845_base_state_scheme" where
  "flg_w sc state s =
     (let s1 = s\<lparr>m_flg_status := bit_assign (unat sc) state (m_flg_status s)\<rparr>
      in if sc = m_pa s1 then update_flg_sts s1 else s1)"

text \<open>
  The part of \<open>hp9845_base_state::machine_reset\<close> that sets video and graphic state ("Some
  sensible defaults" onwards); the CPU halt lines, the I/O slot handlers, the keyboard and
  the beeper are left out.
\<close>

definition base_machine_reset :: "'a hp9845_base_state_scheme \<Rightarrow> 'a hp9845_base_state_scheme" where
  "base_machine_reset s =
     sts_w GVIDEO_PA True
       (s\<lparr>m_video_load_mar := False, m_video_first_mar := False, m_video_byte_idx := False,
          m_video_buff_idx := False, m_video_blanked := False, m_graphic_sel := False,
          m_gv_fsm_state := GV_STAT_RESET, m_gv_int_en := False, m_gv_dma_en := False,
          m_irl_pending := 0, m_irh_pending := 0, m_pa := 0\<rparr>)"

subsection \<open>hp9845ct\_state: vector generator\<close>

definition get_gv_mem_addr :: "32 word \<Rightarrow> 32 word \<Rightarrow> 16 word" where
  "get_gv_mem_addr x y = ucast ((x + y * 35) AND ucast GVIDEO_ADDR_MASK)"

definition update_line_pattern :: "'a hp9845ct_state_scheme \<Rightarrow> 'a hp9845ct_state_scheme" where
  "update_line_pattern s =
     (let s1 = s\<lparr>m_gv_repeat_count := m_gv_repeat_count s + 1\<rparr> in
      if unat (m_gv_repeat_count s1) > unat (drop_bit 5 (m_gv_line_type_area_fill s1) AND 0xf) then
        (let save_bit = bit (m_gv_line_type_mask s1) 15 in
         s1\<lparr>m_gv_line_type_mask := (if save_bit then 1 else 0) OR push_bit 1 (m_gv_line_type_mask s1),
            m_gv_repeat_count := 0\<rparr>)
      else s1)"

text \<open>
  \<open>draw_line\<close>. \<open>plot\<close> is pure virtual in \<open>hp9845ct_state\<close>, so it is a parameter here.
  The locals are C \<open>int\<close>s; the end points are \<open>unsigned\<close>, so that the comparisons of
  \<open>x\<close> with \<open>x1\<close> and of \<open>y\<close> with \<open>y1\<close> are made on 32-bit unsigned values, and the
  call of \<open>plot\<close> truncates \<open>x\<close> and \<open>y\<close> to 16 bits. The \<open>for(;;)\<close> loop returns
  \<open>None\<close> when it never reaches the end point.
\<close>

type_synonym 's plot_fn = "16 word \<Rightarrow> 16 word \<Rightarrow> bool \<Rightarrow> 's \<Rightarrow> 's"

partial_function (option) draw_line_loop ::
  "'a hp9845ct_state_scheme plot_fn \<Rightarrow> 32 word \<Rightarrow> 32 word \<Rightarrow> int \<Rightarrow> int \<Rightarrow> int \<Rightarrow> int \<Rightarrow>
   int \<Rightarrow> int \<Rightarrow> int \<Rightarrow> 'a hp9845ct_state_scheme \<Rightarrow> 'a hp9845ct_state_scheme option" where
  "draw_line_loop plotf x1 y1 dx dy sx sy x y err s =
     (let s1 = plotf (word_of_int x) (word_of_int y) (bit (m_gv_line_type_mask s) 15) s;
          s2 = update_line_pattern s1
      in if (word_of_int x :: 32 word) = x1 \<and> (word_of_int y :: 32 word) = y1 then Some s2
         else
           (let e2 = err;
                err1 = (if e2 > - dx then err - dy else err);
                x' = (if e2 > - dx then x + sx else x);
                err2 = (if e2 < dy then err1 + dx else err1);
                y' = (if e2 < dy then y + sy else y)
            in draw_line_loop plotf x1 y1 dx dy sx sy x' y' err2 s2))"

definition draw_line ::
  "'a hp9845ct_state_scheme plot_fn \<Rightarrow> 32 word \<Rightarrow> 32 word \<Rightarrow> 32 word \<Rightarrow> 32 word \<Rightarrow>
   'a hp9845ct_state_scheme \<Rightarrow> 'a hp9845ct_state_scheme option" where
  "draw_line plotf x0 y0 x1 y1 s =
     (let x = sint x0;
          y = sint y0;
          dx = \<bar>sint x1 - x\<bar>;
          sx = (if x0 < x1 then 1 else - 1);
          dy = \<bar>sint y1 - y\<bar>;
          sy = (if y0 < y1 then 1 else - 1);
          err = (if dx > dy then dx else - dy) sdiv 2
      in draw_line_loop plotf x1 y1 dx dy sx sy x y err s)"

subsection \<open>hp9845c\_state: plot and area fill\<close>

text \<open>
  One of the three per-plane blocks of \<open>hp9845c_state::plot\<close>: \<open>act\<close> is the number of the
  plane's active bit in \<open>m_gv_memory_control\<close>, \<open>setb\<close> the number of its set bit.
\<close>

definition plot_plane ::
  "nat \<Rightarrow> nat \<Rightarrow> nat \<Rightarrow> 16 word \<Rightarrow> 16 word \<Rightarrow> bool \<Rightarrow> bool \<Rightarrow>
   'a hp9845c_state_scheme \<Rightarrow> 'a hp9845c_state_scheme" where
  "plot_plane act setb plane addr pixel_mask dominance draw_erase s =
     (if bit (m_gv_memory_control s) act then
        (let do_erase = dominance;
             do_draw = draw_erase;
             do_erase' = (if \<not> bit (m_gv_memory_control s) setb \<and> draw_erase then True else do_erase);
             do_draw' = (if \<not> bit (m_gv_memory_control s) setb \<and> draw_erase then False else do_draw);
             w = m_graphic_mem s plane (unat addr)
         in if do_draw' then
              s\<lparr>m_graphic_mem := (m_graphic_mem s)(plane := (m_graphic_mem s plane)(unat addr := w OR pixel_mask))\<rparr>
            else if do_erase' then
              s\<lparr>m_graphic_mem := (m_graphic_mem s)(plane := (m_graphic_mem s plane)(unat addr := w AND NOT pixel_mask))\<rparr>
            else s)
      else s)"

definition plot :: "'a hp9845c_state_scheme plot_fn" where
  "plot x y draw_erase s =
     (let pixel_mask = drop_bit (unat (x AND 0xf)) (0x8000 :: 16 word);
          addr = get_gv_mem_addr (ucast (drop_bit 4 x)) (ucast y);
          dominance = bit (m_gv_memory_control s) 6;
          s0 = plot_plane 0 3 0 addr pixel_mask dominance draw_erase s;
          s1 = plot_plane 1 4 1 addr pixel_mask dominance draw_erase s0;
          s2 = plot_plane 2 5 2 addr pixel_mask dominance draw_erase s1
      in s2)"

text \<open>
  \<open>pattern_fill\<close>: the two \<open>for\<close> loops, on the 16-bit counters \<open>x\<close> and \<open>y\<close>. The inner
  loop starts from the current value of \<open>x\<close> and gives the value it stops at back to the
  outer loop, as the source, whose \<open>for (;x <= xmax; x++)\<close> has no initialiser, does.
\<close>

partial_function (option) pattern_fill_cols ::
  "'a hp9845ct_state_scheme plot_fn \<Rightarrow> 16 word \<Rightarrow> 16 word \<Rightarrow> 16 word \<Rightarrow> 16 word \<Rightarrow>
   'a hp9845ct_state_scheme \<Rightarrow> (16 word \<times> 'a hp9845ct_state_scheme) option" where
  "pattern_fill_cols plotf fill_mask xmax y x s =
     (if x \<le> xmax then
        (let pixel_mask = drop_bit (unat x mod 16) (0x8000 :: 16 word)
         in pattern_fill_cols plotf fill_mask xmax y (x + 1)
              (plotf x y ((pixel_mask AND fill_mask) \<noteq> 0) s))
      else Some (x, s))"

definition fill_mask_of :: "16 word \<Rightarrow> 16 word \<Rightarrow> 16 word" where
  "fill_mask_of line_type_area_fill y =
     (let fill_mask = (ucast (push_bit ((unat y mod 4) * 4)
                         (ucast (m_area_fill (unat (line_type_area_fill AND 0xf))) :: 32 word)
                       AND 0xf000) :: 16 word)
      in fill_mask OR (drop_bit 4 fill_mask OR drop_bit 8 fill_mask OR drop_bit 12 fill_mask))"

partial_function (option) pattern_fill_rows ::
  "'a hp9845ct_state_scheme plot_fn \<Rightarrow> 16 word \<Rightarrow> 16 word \<Rightarrow> 16 word \<Rightarrow> 16 word \<Rightarrow>
   'a hp9845ct_state_scheme \<Rightarrow> 'a hp9845ct_state_scheme option" where
  "pattern_fill_rows plotf xmax ymax y x s =
     (if y \<le> ymax then
        (let fill_mask = fill_mask_of (m_gv_line_type_area_fill s) y
         in case pattern_fill_cols plotf fill_mask xmax y x s of
              None \<Rightarrow> None
            | Some (x', s') \<Rightarrow> pattern_fill_rows plotf xmax ymax (y + 1) x' s')
      else Some s)"

definition pattern_fill ::
  "'a hp9845ct_state_scheme plot_fn \<Rightarrow> 16 word \<Rightarrow> 16 word \<Rightarrow> 16 word \<Rightarrow> 16 word \<Rightarrow>
   'a hp9845ct_state_scheme \<Rightarrow> 'a hp9845ct_state_scheme option" where
  "pattern_fill plotf x0 y0 x1 y1 s =
     (let x = min x0 x1;
          xmax = max x0 x1;
          y = min y0 y1;
          ymax = max y0 y1
      in pattern_fill_rows plotf xmax ymax y x s)"

text \<open>
  The test \<open>word & mask\<close> of \<open>graphic_video_render\<close> (hp9845.cpp:2112) at the word and mask
  that \<open>plot\<close> addresses: the bit of \<open>plane\<close> at \<open>(x, y)\<close>.
\<close>

definition gv_pixel :: "'a hp9845c_state_scheme \<Rightarrow> nat \<Rightarrow> 16 word \<Rightarrow> 16 word \<Rightarrow> bool" where
  "gv_pixel s plane x y =
     (m_graphic_mem s plane (unat (get_gv_mem_addr (ucast (drop_bit 4 x)) (ucast y)))
        AND drop_bit (unat (x AND 0xf)) 0x8000 \<noteq> 0)"

subsection \<open>hp9845ct\_state: ready, interrupt and DMA request lines\<close>

definition update_graphic_bits :: "'a hp9845ct_state_scheme \<Rightarrow> 'a hp9845ct_state_scheme" where
  "update_graphic_bits s =
     (let gv_ready0 = (m_gv_lp_int_en s \<and> m_gv_lp_status s);
          gv_ready = (if m_gv_gr_en s \<and> \<not> gv_ready0 then
                        (m_gv_fsm_state s = GV_STAT_WAIT_DS_0 \<or>
                         m_gv_fsm_state s = GV_STAT_WAIT_TRIG_0 \<or>
                         m_gv_fsm_state s = GV_STAT_WAIT_DS_1 \<or>
                         m_gv_fsm_state s = GV_STAT_WAIT_DS_2 \<or>
                         m_gv_fsm_state s = GV_STAT_WAIT_TRIG_1)
                      else gv_ready0);
          s1 = flg_w GVIDEO_PA gv_ready s;
          irq = (m_gv_int_en s1 \<and> \<not> m_gv_dma_en s1 \<and> gv_ready);
          s2 = irq_w GVIDEO_PA irq s1;
          dmar = (gv_ready \<and> m_gv_dma_en s2)
      in s2\<lparr>ppu_dmar := dmar\<rparr>)"

subsection \<open>hp9845ct\_state: light pen\<close>

definition lp_r4_w :: "16 word \<Rightarrow> 'a hp9845ct_state_scheme \<Rightarrow> 'a hp9845ct_state_scheme" where
  "lp_r4_w data s =
     (if m_gv_lp_en s then
        (if m_gv_lp_reg_cnt s = 2 then
           s\<lparr>m_gv_lp_cursor_y := drop_bit 6 (NOT data) AND 0x1ff,
              m_gv_lp_fullbright := bit data 1,
              m_gv_lp_threshold := bit data 3,
              m_gv_lp_interlace := (\<not> bit data 4),
              m_gv_lp_vbint := (\<not> bit data 5),
              m_gv_lp_reg_cnt := m_gv_lp_reg_cnt s - 1\<rparr>
         else if m_gv_lp_reg_cnt s = 3 then
           s\<lparr>m_gv_lp_cursor_x := (drop_bit 6 data AND 0x3ff) + 1,
              m_gv_lp_cursor_fs := (\<not> bit data 0),
              m_gv_lp_reg_cnt := m_gv_lp_reg_cnt s - 1\<rparr>
         else logerror (Writing_to_unmapped_LP_register (m_gv_lp_reg_cnt s)) s)
      else s)"

definition lp_r4_r :: "'a hp9845ct_state_scheme \<Rightarrow> 16 word \<times> 'a hp9845ct_state_scheme" where
  "lp_r4_r s =
     (if m_gv_lp_en s then
        (if m_gv_lp_reg_cnt s = 4 then
           (m_gv_lp_data s 2,
            update_graphic_bits
              (s\<lparr>m_gv_lp_reg_cnt := m_gv_lp_reg_cnt s - 1, m_gv_lp_status := False,
                 m_gv_lp_1sthit := False\<rparr>))
         else if m_gv_lp_reg_cnt s = 5 then
           (m_gv_lp_data s 1, s\<lparr>m_gv_lp_reg_cnt := m_gv_lp_reg_cnt s - 1\<rparr>)
         else if m_gv_lp_reg_cnt s = 6 then
           (let res = m_gv_lp_data s 0;
                res1 = (if \<not> m_gv_lp_vblank s then set_bit 12 res else res);
                res2 = (if m_gv_lp_sw s then set_bit 14 res1 else res1);
                res3 = (if m_gv_lp_1sthit s then set_bit 15 res2 else res2)
            in (res3, s\<lparr>m_gv_lp_reg_cnt := m_gv_lp_reg_cnt s - 1\<rparr>))
         else (0, logerror (Reading_from_unmapped_LP_register (m_gv_lp_reg_cnt s)) s))
      else (0, s))"

definition lp_r5_w :: "16 word \<Rightarrow> 'a hp9845ct_state_scheme \<Rightarrow> 'a hp9845ct_state_scheme" where
  "lp_r5_w data s =
     (let reg_cnt = (ucast (data AND 7) :: 8 word);
          lp_en = (data AND 0x700 = 0x400);
          lp_int_en = (data AND 0x500 = 0x400)
      in update_graphic_bits
           (s\<lparr>m_gv_lp_reg_cnt := reg_cnt, m_gv_lp_en := lp_en, m_gv_lp_int_en := lp_int_en,
              m_gv_lp_selftest := (lp_en \<and> reg_cnt = 7)\<rparr>))"

text \<open>
  \<open>(uint16_t)sqrt(n)\<close> for the small non-negative integers \<open>compute_lp_data\<close> passes
  (at most 81): the number of \<open>k \<ge> 1\<close> with \<open>k * k \<le> n\<close>.
\<close>

definition floor_sqrt :: "int \<Rightarrow> int" where
  "floor_sqrt n = int (length (filter (\<lambda>k. int k * int k \<le> n) [1..<10]))"

text \<open>
  \<open>compute_lp_data\<close>. The arithmetic on the 16-bit members is done on C \<open>int\<close>s (integer
  promotion) and truncated where the result is stored in a \<open>uint16_t\<close>.
\<close>

definition compute_lp_data :: "'a hp9845ct_state_scheme \<Rightarrow> 'a hp9845ct_state_scheme" where
  "compute_lp_data s0 =
     (let s = s0\<lparr>m_gv_lp_status := True\<rparr>;
          s1 =
            (if m_gv_lp_selftest s then
               (let offset = 57 - int VIDEO_770_ALPHA_L_LIM;
                    d0 = (word_of_int (NOT (uint (m_gv_lp_cursor_y s) + 16) AND 0x1ff) :: 16 word);
                    d1 = (word_of_int (NOT (uint (m_gv_lp_cursor_x s) + offset) AND 0x3ff) :: 16 word);
                    d2 = (word_of_int (NOT (uint (m_gv_lp_cursor_y s) + 32) AND 0x1ff) :: 16 word)
                in s\<lparr>m_gv_lp_xwindow := True, m_gv_lp_ywindow := True,
                      m_gv_lp_data := (m_gv_lp_data s)(0 := d0, 1 := d1, 2 := d2)\<rparr>)
             else
               (let fov = (9 :: int);
                    xp = uint (m_gv_lp_x s);
                    yp = uint (m_gv_lp_y s);
                    xc = uint (m_gv_lp_cursor_x s + 1);
                    yc = uint (m_gv_lp_cursor_y s + 24);
                    xoffset = (14 :: int);
                    dy = (if \<bar>xc - xp\<bar> \<le> fov
                          then uint (word_of_int (floor_sqrt (fov * fov - (xc - xp) * (xc - xp))) :: 16 word)
                          else fov);
                    dx = (if \<bar>yc - yp\<bar> \<le> fov
                          then uint (word_of_int (floor_sqrt (fov * fov - (yc - yp) * (yc - yp))) :: 16 word)
                          else 0);
                    inwin = (yp + dy \<ge> yc - 24 \<and> yp - dy \<le> yc - 24);
                    yhi = (word_of_int
                             (if inwin then
                                (if yp - dy > yc - 24 \<or> \<not> m_gv_lp_interlace s then yp - dy else yc - 24)
                              else yp - fov) :: 16 word);
                    ylo = (word_of_int
                             (if inwin then
                                (if yp + dy < yc + 24 \<or> \<not> m_gv_lp_interlace s then yp + dy else yc + 24)
                              else yp + fov) :: 16 word);
                    xleft = (word_of_int
                               (if xp + dx \<ge> xc - 24 \<and> xp - dx \<le> xc + 24 then
                                  (if xp - dx > xc - 24 then xp - dx - fov + xoffset
                                   else xp + dx - fov + xoffset)
                                else xp - fov + xoffset) :: 16 word);
                    d0 = NOT yhi AND 0x1ff;
                    d1 = NOT xleft AND 0x3ff;
                    d2 = NOT ylo AND 0x1ff;
                    xwindow = (if m_gv_lp_interlace s then xp > xc - 24 \<and> xp < xc + 24 else False);
                    ywindow = (if m_gv_lp_interlace s then yp > yc - 24 \<and> yp < yc + 24 else False)
                in s\<lparr>m_gv_lp_data := (m_gv_lp_data s)(0 := d0, 1 := d1, 2 := d2),
                      m_gv_lp_xwindow := xwindow, m_gv_lp_ywindow := ywindow\<rparr>));
          s2 = (if \<not> m_gv_lp_xwindow s1 then
                  s1\<lparr>m_gv_lp_data := (m_gv_lp_data s1)
                        (0 := set_bit 13 (m_gv_lp_data s1 0),
                         1 := set_bit 13 (m_gv_lp_data s1 1),
                         2 := set_bit 13 (m_gv_lp_data s1 2))\<rparr>
                else s1);
          s3 = (if \<not> m_gv_lp_ywindow s2 then
                  s2\<lparr>m_gv_lp_data := (m_gv_lp_data s2)
                        (1 := set_bit 14 (m_gv_lp_data s2 1),
                         2 := set_bit 14 (m_gv_lp_data s2 2))\<rparr>
                else s2);
          s4 = (if \<not> m_gv_lp_status s3 then
                  s3\<lparr>m_gv_lp_data := (m_gv_lp_data s3)
                        (0 := set_bit 11 (m_gv_lp_data s3 0),
                         1 := set_bit 11 (m_gv_lp_data s3 1),
                         2 := set_bit 11 (m_gv_lp_data s3 2))\<rparr>
                else s3)
      in s4\<lparr>m_gv_lp_1sthit := True\<rparr>)"

subsection \<open>hp9845ct\_state: alpha buffer fetch\<close>

definition set_video_mar :: "16 word \<Rightarrow> 'a hp9845ct_state_scheme \<Rightarrow> 'a hp9845ct_state_scheme" where
  "set_video_mar mar s = s\<lparr>m_video_mar := ucast (mar AND 0x1fff) OR VIDEO_BUFFER_BASE_LOW\<rparr>"

text \<open>\<open>hp9845c_state::set_graphic_mode\<close>, the only override of the pure virtual one.\<close>

definition set_graphic_mode :: "bool \<Rightarrow> bool \<Rightarrow> 'a hp9845ct_state_scheme \<Rightarrow> 'a hp9845ct_state_scheme" where
  "set_graphic_mode graphic alpha s = s\<lparr>m_graphic_sel := graphic, m_alpha_sel := alpha\<rparr>"

text \<open>
  The two \<open>memset\<close> calls and the assignment at an end-of-line: cells \<open>char_idx\<close> to 79
  become a space with attribute \<open>attr\<close>, and the buffer is full.
\<close>

definition fill_rest :: "nat \<Rightarrow> 8 word \<Rightarrow> video_buffer_t \<Rightarrow> video_buffer_t" where
  "fill_rest char_idx attr b =
     b\<lparr>chars := (\<lambda>i. if char_idx \<le> i \<and> i < 80 then 0x20 else chars b i),
       attrs := (\<lambda>i. if char_idx \<le> i \<and> i < 80 then attr else attrs b i),
       full := True\<rparr>"

definition put_cell :: "nat \<Rightarrow> 8 word \<Rightarrow> 8 word \<Rightarrow> video_buffer_t \<Rightarrow> video_buffer_t" where
  "put_cell char_idx c a b = b\<lparr>chars := (chars b)(char_idx := c), attrs := (attrs b)(char_idx := a)\<rparr>"

definition upd_buff ::
  "bool \<Rightarrow> (video_buffer_t \<Rightarrow> video_buffer_t) \<Rightarrow> 'a hp9845_base_state_scheme \<Rightarrow> 'a hp9845_base_state_scheme" where
  "upd_buff buff_idx f s = s\<lparr>m_video_buff := (m_video_buff s)(buff_idx := f (m_video_buff s buff_idx))\<rparr>"

text \<open>
  One pass through the body of the \<open>while (1)\<close> loop of
  \<open>hp9845ct_state::video_fill_buff\<close>, with its locals \<open>char_idx\<close> and \<open>iters\<close>: the
  state and the locals after the pass, and whether the loop is left (by \<open>break\<close>).
  \<open>iters++ >= MAX_WORD_PER_ROW\<close> increments \<open>iters\<close> also when it breaks out of the loop.
\<close>

definition video_fill_step ::
  "env \<Rightarrow> bool \<Rightarrow> nat \<Rightarrow> nat \<Rightarrow> 'a hp9845ct_state_scheme \<Rightarrow>
   ('a hp9845ct_state_scheme \<times> nat \<times> nat) \<times> bool" where
  "video_fill_step e buff_idx char_idx iters s =
     (if m_video_mar s AND 0x1fff > 0x1dff then ((s, char_idx, iters), True)
      else if iters \<ge> MAX_WORD_PER_ROW then ((s, char_idx, iters + 1), True)
      else
        (let s1 = s\<lparr>m_video_word := prog_read_word e (push_bit 1 (m_video_mar s))\<rparr> in
         if m_video_load_mar s1 then
           (let s2 = (if m_video_first_mar s1 then
                        (set_graphic_mode (bit (m_video_word s1) 15) (bit (m_video_word s1) 14) s1)
                          \<lparr>m_video_first_mar := False\<rparr>
                      else s1);
                s3 = set_video_mar (NOT (m_video_word s2)) s2;
                s4 = s3\<lparr>m_video_load_mar := False\<rparr>
            in ((s4, char_idx, iters + 1), False))
         else
           (let s2 = set_video_mar (ucast (m_video_mar s1 + 1)) s1;
                w = m_video_word s2
            in if w = 0x8020 then
                 ((upd_buff buff_idx (fill_rest char_idx 0) s2, char_idx, iters + 1), True)
               else if w AND 0xc020 = 0x8000 then
                 ((s2\<lparr>m_video_load_mar := True\<rparr>, char_idx, iters + 1), False)
               else if w AND 0xc000 = 0xc000 then
                 ((s2, char_idx, iters + 1), False)
               else
                 (let s3 = upd_buff buff_idx (put_cell char_idx (ucast (w AND 0xff)) (ucast (drop_bit 8 w))) s2;
                      char_idx' = char_idx + 1
                  in if char_idx' = 80 then
                       ((upd_buff buff_idx (\<lambda>b. b\<lparr>full := True\<rparr>) s3, char_idx', iters + 1), True)
                     else ((s3, char_idx', iters + 1), False)))))"

text \<open>The loop: passes are made until one leaves it. The final values of the locals are returned with the state.\<close>

function video_fill_loop ::
  "env \<Rightarrow> bool \<Rightarrow> nat \<Rightarrow> nat \<Rightarrow> 'a hp9845ct_state_scheme \<Rightarrow> 'a hp9845ct_state_scheme \<times> nat \<times> nat" where
  "video_fill_loop e buff_idx char_idx iters s =
     (case video_fill_step e buff_idx char_idx iters s of
        ((s', char_idx', iters'), brk) \<Rightarrow>
          if brk then (s', char_idx', iters') else video_fill_loop e buff_idx char_idx' iters' s')"
  by pat_completeness auto
termination
  by (relation "measure (\<lambda>(e, buff_idx, char_idx, iters, s). Suc MAX_WORD_PER_ROW - iters)")
     (auto simp add: video_fill_step_def Let_def split: if_splits)

declare video_fill_loop.simps [simp del]

definition video_fill_buff :: "env \<Rightarrow> bool \<Rightarrow> 'a hp9845ct_state_scheme \<Rightarrow> 'a hp9845ct_state_scheme" where
  "video_fill_buff e buff_idx s =
     fst (video_fill_loop e buff_idx 0 0 (upd_buff buff_idx (\<lambda>b. b\<lparr>full := False\<rparr>) s))"

text \<open>
  \<open>hp9845ct_state::vblank_w\<close>. An I/O port read is a 32-bit value; the switch becomes a
  \<open>bool\<close>, the coordinates 16-bit values.
\<close>

definition vblank_w :: "env \<Rightarrow> bool \<Rightarrow> 'a hp9845ct_state_scheme \<Rightarrow> 'a hp9845ct_state_scheme" where
  "vblank_w e state s0 =
     (let s = s0\<lparr>ppu_halt := state\<rparr> in
      if state then
        (let s1 = set_video_mar 0 s;
             s2 = s1\<lparr>m_video_load_mar := True, m_video_first_mar := True, m_video_blanked := False,
                     m_video_buff_idx := (\<not> m_video_buff_idx s1)\<rparr>;
             s3 = video_fill_buff e (\<not> m_video_buff_idx s2) s2;
             s4 = s3\<lparr>m_gv_lp_vblank := True, m_gv_lp_xwindow := False, m_gv_lp_ywindow := False,
                     m_gv_lp_sw := (lightpen_sw e \<noteq> 0),
                     m_gv_lp_x := ucast (lightpen_x e)\<rparr>;
             s5 = (if unat (m_gv_lp_x s4) > VIDEO_TOT_HPIXELS - 1
                   then s4\<lparr>m_gv_lp_x := of_nat (VIDEO_TOT_HPIXELS - 1)\<rparr> else s4);
             s6 = s5\<lparr>m_gv_lp_y := ucast (lightpen_y e)\<rparr>;
             s7 = (if unat (m_gv_lp_y s6) > GVIDEO_VPIXELS - 1
                   then s6\<lparr>m_gv_lp_y := of_nat (GVIDEO_VPIXELS - 1)\<rparr> else s6);
             s8 = compute_lp_data s7;
             s9 = (if m_gv_lp_vbint s8 then s8\<lparr>m_gv_lp_status := True\<rparr> else s8)
         in update_graphic_bits s9)
      else s\<lparr>m_gv_lp_vblank := False\<rparr>)"

subsection \<open>hp9845c\_state: scanline rendering\<close>

definition pen_graphic :: "nat \<Rightarrow> nat" where "pen_graphic rgb = rgb"
definition pen_alpha :: "nat \<Rightarrow> nat" where "pen_alpha rgb = 8 + rgb"
definition pen_cursor :: "nat \<Rightarrow> nat" where "pen_cursor rgb = 16 + rgb"

text \<open>\<open>m_bitmap.pix32(y, x) = pen[v]\<close>; the bitmap holds the palette index \<open>v\<close>.\<close>

definition set_pix :: "nat \<Rightarrow> nat \<Rightarrow> nat \<Rightarrow> 'a hp9845_base_state_scheme \<Rightarrow> 'a hp9845_base_state_scheme" where
  "set_pix y x v s = s\<lparr>m_bitmap := (m_bitmap s)(y := (m_bitmap s y)(x := v))\<rparr>"

text \<open>One cell of the \<open>else\<close> branch of \<open>hp9845c_state::video_render_buff\<close> (the body of the loop on \<open>i\<close>).\<close>

definition render_cell ::
  "env \<Rightarrow> nat \<Rightarrow> nat \<Rightarrow> bool \<Rightarrow> nat \<Rightarrow> 'a hp9845ct_state_scheme \<Rightarrow> 'a hp9845ct_state_scheme" where
  "render_cell e video_scanline line_in_row buff_idx i s =
     (let cursor_line = (line_in_row = 12);
          ul_line = (line_in_row = 14);
          video_frame = screen_frame_number e;
          cursor_blink = bit video_frame 3;
          char_blink = bit video_frame 4;
          ch = chars (m_video_buff s buff_idx) i;
          charcode = ch AND 0x7f;
          attrs = attrs (m_video_buff s buff_idx) i;
          chrgen_addr = (push_bit 4 (ucast (charcode XOR 0x7f)) OR of_nat line_in_row :: 16 word);
          pixels0 = (if (ul_line \<and> bit attrs 3) \<or> (cursor_line \<and> cursor_blink \<and> bit attrs 0) then NOT 0
                     else if char_blink \<and> bit attrs 2 then 0
                     else if bit ch 7 then push_bit 1 (ucast (optional_chargen e (unat chrgen_addr) AND 0x7f))
                     else push_bit 1 (ucast (chargen e (unat chrgen_addr) AND 0x7f)) :: 16 word);
          pixels = (if bit attrs 1 then NOT pixels0 else pixels0);
          colour = pen_alpha (unat (drop_bit 4 attrs AND 7))
      in fold (\<lambda>j s.
                 let pixel = bit pixels j;
                     x = i * 9 + j
                 in if m_graphic_sel s \<and> x \<ge> VIDEO_770_ALPHA_L_LIM \<and> x < VIDEO_770_ALPHA_R_LIM then
                      (if pixel then set_pix video_scanline x colour s else s)
                    else set_pix video_scanline x (if pixel then colour else pen_alpha 0) s)
           [0..<9] s)"

definition video_render_buff ::
  "env \<Rightarrow> nat \<Rightarrow> nat \<Rightarrow> bool \<Rightarrow> 'a hp9845ct_state_scheme \<Rightarrow> 'a hp9845ct_state_scheme" where
  "video_render_buff e video_scanline line_in_row buff_idx s0 =
     (let s = (if \<not> full (m_video_buff s0 buff_idx) then s0\<lparr>m_video_blanked := True\<rparr> else s0) in
      if m_video_blanked s \<or> \<not> m_alpha_sel s then
        (let s1 = fold (\<lambda>i. set_pix video_scanline i (pen_alpha 0)) [0..<VIDEO_770_ALPHA_L_LIM] s;
             s2 = (if \<not> m_graphic_sel s1 then
                     fold (\<lambda>i. set_pix video_scanline i (pen_alpha 0))
                       [VIDEO_770_ALPHA_L_LIM..<VIDEO_770_ALPHA_R_LIM] s1
                   else s1)
         in fold (\<lambda>i. set_pix video_scanline i (pen_alpha 0)) [VIDEO_770_ALPHA_R_LIM..<VIDEO_TOT_HPIXELS] s2)
      else fold (render_cell e video_scanline line_in_row buff_idx) [0..<80] s)"

text \<open>
  \<open>hp9845c_state::graphic_video_render\<close>. The scanline and the column are \<open>unsigned\<close>
  and stay far below \<open>2^32\<close>, so they are natural numbers here; the 16-bit members
  they are compared with are read with \<open>unat\<close>.
\<close>

definition graphic_video_render ::
  "env \<Rightarrow> nat \<Rightarrow> 'a hp9845c_state_scheme \<Rightarrow> 'a hp9845c_state_scheme" where
  "graphic_video_render e video_scanline s =
     (let mm = m_gv_music_memory s;
          pen0 = (ucast ((mm AND 0x001) OR drop_bit 2 (mm AND 0x008) OR drop_bit 4 (mm AND 0x040)) :: 8 word);
          pen1 = (ucast (drop_bit 1 (mm AND 0x002) OR drop_bit 3 (mm AND 0x010) OR drop_bit 5 (mm AND 0x080)) :: 8 word);
          pen2 = (ucast (drop_bit 2 (mm AND 0x004) OR drop_bit 4 (mm AND 0x020) OR drop_bit 6 (mm AND 0x100)) :: 8 word);
          lp_cursor = (unat (m_gv_lp_cursor_x s) < VIDEO_TOT_HPIXELS \<and> unat (m_gv_lp_cursor_y s) < GVIDEO_VPIXELS);
          yc = (if lp_cursor then video_scanline = unat (m_gv_lp_cursor_y s) + 24
                else video_scanline + 42 = unat (m_gv_cursor_y s));
          yw = (if lp_cursor then
                  (if m_gv_lp_cursor_fs s then True
                   else video_scanline \<ge> unat (m_gv_lp_cursor_y s) \<and>
                        video_scanline \<le> unat (m_gv_lp_cursor_y s) + 49)
                else if m_gv_cursor_fs s then True
                else (video_scanline + 50 > unat (m_gv_cursor_y s) \<and>
                      video_scanline + 50 < unat (m_gv_cursor_y s) + 7) \<or>
                     (video_scanline + 50 > unat (m_gv_cursor_y s) + 9 \<and>
                      video_scanline + 50 < unat (m_gv_cursor_y s) + 16));
          blink = (if lp_cursor then True
                   else if m_gv_cursor_fs s then True
                   else if m_gv_cursor_gc s then True
                   else bit (screen_frame_number e) 3);
          mem_idx = unat (get_gv_mem_addr 0 (of_nat video_scanline))
      in fold (\<lambda>n s.
           let word0 = m_graphic_mem s 0 (mem_idx + n);
               word1 = m_graphic_mem s 1 (mem_idx + n);
               word2 = m_graphic_mem s 2 (mem_idx + n)
           in fold (\<lambda>k s.
                let mask = drop_bit k (0x8000 :: 16 word);
                    x = 16 * n + k;
                    xc = (if lp_cursor then x + VIDEO_770_ALPHA_L_LIM = unat (m_gv_lp_cursor_x s)
                          else if m_gv_cursor_gc s then x + 61 = unat (m_gv_cursor_x s)
                          else False);
                    xw = (if lp_cursor then
                            m_gv_lp_cursor_fs s \<or>
                            (x + 24 + VIDEO_770_ALPHA_L_LIM \<ge> unat (m_gv_lp_cursor_x s) \<and>
                             x + VIDEO_770_ALPHA_L_LIM - 25 \<le> unat (m_gv_lp_cursor_x s))
                          else if m_gv_cursor_gc s then
                            m_gv_cursor_fs s \<or>
                            (x + 69 > unat (m_gv_cursor_x s) \<and> x + 53 < unat (m_gv_cursor_x s) \<and>
                             (x + 62 < unat (m_gv_cursor_x s) \<or> x + 60 > unat (m_gv_cursor_x s)))
                          else False);
                    pixel = (if blink \<and> ((xw \<and> yc) \<or> (yw \<and> xc \<and> (m_gv_cursor_gc s \<or> lp_cursor))) then
                               (if lp_cursor then pen_cursor 7 else pen_cursor (unat (m_gv_cursor_color s)))
                             else
                               pen_graphic (unat ((if word0 AND mask \<noteq> 0 then pen0 else 0) OR
                                                  (if word1 AND mask \<noteq> 0 then pen1 else 0) OR
                                                  (if word2 AND mask \<noteq> 0 then pen2 else 0))))
                in set_pix video_scanline (VIDEO_770_ALPHA_L_LIM + x) pixel s)
              [0..<16] s)
         [0..<GVIDEO_HPIXELS div 16] s)"

definition scanline_timer :: "env \<Rightarrow> nat \<Rightarrow> 'a hp9845c_state_scheme \<Rightarrow> 'a hp9845c_state_scheme" where
  "scanline_timer e video_scanline s =
     (let s1 = (if m_graphic_sel s then
                  (if video_scanline \<ge> VIDEO_770_VBEND \<and> video_scanline < VIDEO_770_VBSTART then
                     graphic_video_render e (video_scanline - VIDEO_770_VBEND) s
                   else s)
                else s)
      in if video_scanline \<ge> VIDEO_770_VBEND \<and> video_scanline < VIDEO_770_VBSTART then
           (let row = (video_scanline - VIDEO_770_VBEND) div VIDEO_CHAR_HEIGHT;
                line_in_row = (video_scanline - VIDEO_770_VBEND) - row * VIDEO_CHAR_HEIGHT;
                s2 = (if line_in_row = 0 then
                        (let s' = s1\<lparr>m_video_buff_idx := (\<not> m_video_buff_idx s1)\<rparr>
                         in video_fill_buff e (\<not> m_video_buff_idx s') s')
                      else s1)
            in video_render_buff e video_scanline line_in_row (m_video_buff_idx s2) s2)
         else s1)"

subsection \<open>hp9845c\_state: I/O counter\<close>

definition check_io_counter_restore :: "'a hp9845c_state_scheme \<Rightarrow> 'a hp9845c_state_scheme" where
  "check_io_counter_restore s =
     (if m_gv_last_cmd s \<noteq> m_gv_cmd s then
        (let s1 = s\<lparr>m_gv_io_counter :=
                      get_gv_mem_addr (ucast (m_gv_word_x_position s)) (ucast (m_gv_word_y_position s))\<rparr>;
             s2 = (if m_gv_plane_wrap s1 then s1\<lparr>m_gv_plane := 2\<rparr>
                   else if m_gv_plane s1 > 0 then s1\<lparr>m_gv_plane := m_gv_plane s1 - 1\<rparr>
                   else s1)
         in s2\<lparr>m_gv_last_cmd := m_gv_cmd s2\<rparr>)
      else s)"

definition advance_io_counter :: "'a hp9845c_state_scheme \<Rightarrow> 'a hp9845c_state_scheme" where
  "advance_io_counter s =
     (let s1 = s\<lparr>m_gv_plane := m_gv_plane s + 1\<rparr> in
      if m_gv_plane s1 > 2 then
        (let s2 = (if m_gv_io_counter s1 < GVIDEO_ADDR_MASK then
                     s1\<lparr>m_gv_plane := 0, m_gv_io_counter := m_gv_io_counter s1 + 1\<rparr>
                   else s1\<lparr>m_gv_plane := 2\<rparr>)
         in s2\<lparr>m_gv_plane_wrap := True\<rparr>)
      else s1)"

subsection \<open>hp9845c\_state: command state machine\<close>

text \<open>The \<open>switch (m_gv_cmd)\<close> of state \<open>GV_STAT_WAIT_TRIG_0\<close>.\<close>

definition gv_load_param :: "'a hp9845c_state_scheme \<Rightarrow> 'a hp9845c_state_scheme" where
  "gv_load_param s =
     (let cmd = m_gv_cmd s; dw = m_gv_data_w s in
      if cmd = 0x8 then
        (let s1 = s\<lparr>m_gv_word_x_position := NOT dw AND 0x3f\<rparr>
         in s1\<lparr>m_gv_io_counter :=
                  get_gv_mem_addr (ucast (m_gv_word_x_position s1)) (ucast (m_gv_word_y_position s1)),
                m_gv_plane := 0, m_gv_plane_wrap := False\<rparr>)
      else if cmd = 0x9 then
        (let s1 = s\<lparr>m_gv_word_y_position := NOT dw AND 0x1ff\<rparr>
         in s1\<lparr>m_gv_io_counter :=
                  get_gv_mem_addr (ucast (m_gv_word_x_position s1)) (ucast (m_gv_word_y_position s1)),
                m_gv_plane := 0, m_gv_plane_wrap := False\<rparr>)
      else if cmd = 0xa then s\<lparr>m_gv_memory_control := dw AND 0x7f\<rparr>
      else if cmd = 0xb then
        (let s1 = s\<lparr>m_gv_line_type_area_fill := dw AND 0x1ff\<rparr>
         in if bit (m_gv_line_type_area_fill s1) 4 then
              s1\<lparr>m_gv_line_type_mask := m_line_type (unat (m_gv_line_type_area_fill s1 AND 0x7)),
                 m_gv_repeat_count := 0\<rparr>
            else s1)
      else if cmd = 0xc then s\<lparr>m_gv_music_memory := dw AND 0x1ff\<rparr>
      else if cmd = 0xd then s\<lparr>m_gv_ypt := NOT dw AND 0x1ff\<rparr>
      else if cmd = 0xe then
        (let s1 = s\<lparr>m_gv_cursor_color := ucast (NOT dw AND 0x7), m_gv_cursor_y := 1073 - drop_bit 6 dw\<rparr>
         in if m_gv_cursor_fs s1 then s1\<lparr>m_gv_cursor_y := m_gv_cursor_y s1 - 8\<rparr> else s1)
      else if cmd = 0xf then
        (let s1 = s\<lparr>m_gv_cursor_fs := bit dw 0\<rparr>;
             s2 = s1\<lparr>m_gv_cursor_gc := (bit dw 1 \<or> m_gv_cursor_fs s1),
                     m_gv_cursor_x := (drop_bit 6 dw AND 0x3ff) - 42\<rparr>
         in if m_gv_cursor_fs s2 then s2\<lparr>m_gv_cursor_x := m_gv_cursor_x s2 - 8\<rparr> else s2)
      else logerror (Unknown_98770A_command cmd dw) s)"

text \<open>
  The call of the vector generator in state \<open>GV_STAT_WAIT_MEM_2\<close>: a line between the
  normalized end points, or an area fill.
\<close>

definition gv_vector_call :: "'a hp9845c_state_scheme \<Rightarrow> 'a hp9845c_state_scheme option" where
  "gv_vector_call s =
     (if bit (m_gv_line_type_area_fill s) 4 then
        (if m_gv_xpt s > m_gv_last_xpt s then
           draw_line plot (ucast (m_gv_last_xpt s)) (ucast (m_gv_last_ypt s))
             (ucast (m_gv_xpt s)) (ucast (m_gv_ypt s)) s
         else
           draw_line plot (ucast (m_gv_xpt s)) (ucast (m_gv_ypt s))
             (ucast (m_gv_last_xpt s)) (ucast (m_gv_last_ypt s)) s)
      else pattern_fill plot (m_gv_xpt s) (m_gv_ypt s) (m_gv_last_xpt s) (m_gv_last_ypt s) s)"

text \<open>
  One pass through the body of the \<open>do ... while (!get_out)\<close> loop of
  \<open>hp9845c_state::advance_gv_fsm\<close>: the new state and the value of \<open>get_out\<close>.
  \<open>None\<close> when the vector generator does not return.
\<close>

definition gv_fsm_step ::
  "env \<Rightarrow> bool \<Rightarrow> bool \<Rightarrow> 'a hp9845c_state_scheme \<Rightarrow> ('a hp9845c_state_scheme \<times> bool) option" where
  "gv_fsm_step e ds trigger s =
     (let act_trig = (trigger \<or> m_gv_int_en s \<or> \<not> bit (m_gv_cmd s) 0);
          st = m_gv_fsm_state s
      in
      if st = GV_STAT_WAIT_DS_0 then
        (if m_gv_cmd s = 0x1 then
           (let s1 = check_io_counter_restore s
            in Some (s1\<lparr>m_gv_fsm_state := GV_STAT_WAIT_MEM_0, m_gv_last_cmd := m_gv_cmd s1\<rparr>, False))
         else if ds then
           (if m_gv_cmd s = 0x0 \<or> m_gv_cmd s = 0x2 then
              (let s1 = check_io_counter_restore s
               in Some (s1\<lparr>m_gv_fsm_state := GV_STAT_WAIT_TRIG_1, m_gv_last_cmd := m_gv_cmd s1\<rparr>, False))
            else Some (s\<lparr>m_gv_fsm_state := GV_STAT_WAIT_TRIG_0, m_gv_last_cmd := m_gv_cmd s\<rparr>, False))
         else Some (s, True))
      else if st = GV_STAT_WAIT_TRIG_0 then
        (if act_trig then
           (let s1 = gv_load_param s
            in if m_gv_cmd s1 = 0xd then Some (s1\<lparr>m_gv_fsm_state := GV_STAT_WAIT_DS_2\<rparr>, False)
               else Some (s1\<lparr>m_gv_fsm_state := GV_STAT_WAIT_DS_0\<rparr>, True))
         else Some (s, True))
      else if st = GV_STAT_WAIT_MEM_0 then
        (let time_mem_av = time_to_gv_mem_availability e s
         in if time_mem_av = 0 then
              (let s1 = s\<lparr>m_gv_data_r := m_graphic_mem s (unat (m_gv_plane s)) (unat (m_gv_io_counter s))\<rparr>;
                   s2 = advance_io_counter s1
               in Some (s2\<lparr>m_gv_fsm_state := GV_STAT_WAIT_DS_1\<rparr>, False))
            else Some (s\<lparr>m_gv_timer := Some time_mem_av\<rparr>, True))
      else if st = GV_STAT_WAIT_DS_1 then
        (if ds then Some (s\<lparr>m_gv_fsm_state := GV_STAT_WAIT_MEM_0\<rparr>, False) else Some (s, True))
      else if st = GV_STAT_WAIT_DS_2 then
        (if ds then Some (s\<lparr>m_gv_fsm_state := GV_STAT_WAIT_TRIG_1\<rparr>, False) else Some (s, True))
      else if st = GV_STAT_WAIT_TRIG_1 then
        (if act_trig then
           (if m_gv_cmd s = 0xd then
              (let s1 = s\<lparr>m_gv_xpt := NOT (m_gv_data_w s) AND 0x3ff\<rparr>
               in if bit (m_gv_data_w s1) 10 then Some (s1\<lparr>m_gv_fsm_state := GV_STAT_WAIT_MEM_2\<rparr>, False)
                  else Some (s1\<lparr>m_gv_last_xpt := m_gv_xpt s1, m_gv_last_ypt := m_gv_ypt s1,
                                m_gv_fsm_state := GV_STAT_WAIT_DS_0\<rparr>, False))
            else if m_gv_cmd s = 0x2 then
              Some (s\<lparr>m_gv_data_w := (if bit (m_gv_memory_control s) (unat (m_gv_plane s) + 3) then 0xffff else 0),
                      m_gv_fsm_state := GV_STAT_WAIT_MEM_1\<rparr>, False)
            else if m_gv_cmd s = 0x0 then Some (s\<lparr>m_gv_fsm_state := GV_STAT_WAIT_MEM_1\<rparr>, False)
            else Some (s, False))
         else Some (s, True))
      else if st = GV_STAT_WAIT_MEM_1 then
        (let time_mem_av = time_to_gv_mem_availability e s
         in if time_mem_av = 0 then
              (let s1 = (if m_gv_cmd s = 0x0 \<or> bit (m_gv_memory_control s) (unat (m_gv_plane s)) then
                           s\<lparr>m_graphic_mem := (m_graphic_mem s)
                                (unat (m_gv_plane s) :=
                                   (m_graphic_mem s (unat (m_gv_plane s)))
                                     (unat (m_gv_io_counter s) := m_gv_data_w s))\<rparr>
                         else s);
                   s2 = advance_io_counter s1
               in Some (s2\<lparr>m_gv_fsm_state := GV_STAT_WAIT_DS_2\<rparr>, False))
            else Some (s\<lparr>m_gv_timer := Some time_mem_av\<rparr>, True))
      else if st = GV_STAT_WAIT_MEM_2 then
        (let time_mem_av = time_to_gv_mem_availability e s
         in if time_mem_av = 0 then
              (case gv_vector_call s of
                 None \<Rightarrow> None
               | Some s1 \<Rightarrow>
                   Some (s1\<lparr>m_gv_last_xpt := m_gv_xpt s1, m_gv_last_ypt := m_gv_ypt s1,
                           m_gv_fsm_state := GV_STAT_WAIT_DS_0\<rparr>, False))
            else Some (s\<lparr>m_gv_timer := Some time_mem_av\<rparr>, True))
      else Some ((logerror (Invalid_state_reached st) s)\<lparr>m_gv_fsm_state := GV_STAT_RESET\<rparr>, False))"

partial_function (option) gv_fsm_loop ::
  "env \<Rightarrow> bool \<Rightarrow> bool \<Rightarrow> 'a hp9845c_state_scheme \<Rightarrow> 'a hp9845c_state_scheme option" where
  "gv_fsm_loop e ds trigger s =
     (case gv_fsm_step e ds trigger s of
        None \<Rightarrow> None
      | Some (s', get_out) \<Rightarrow> if get_out then Some s' else gv_fsm_loop e False False s')"

definition advance_gv_fsm ::
  "env \<Rightarrow> bool \<Rightarrow> bool \<Rightarrow> 'a hp9845c_state_scheme \<Rightarrow> 'a hp9845c_state_scheme option" where
  "advance_gv_fsm e ds trigger s =
     (if \<not> m_gv_gr_en s then Some s
      else case gv_fsm_loop e ds trigger s of
             None \<Rightarrow> None
           | Some s' \<Rightarrow> Some (update_graphic_bits s'))"

text \<open>
  The timer callback \<open>gv_timer\<close>, for the colour controller: the one-shot timer has
  expired and is no longer pending when its callback runs.
\<close>

definition gv_timer :: "env \<Rightarrow> 'a hp9845c_state_scheme \<Rightarrow> 'a hp9845c_state_scheme option" where
  "gv_timer e s = advance_gv_fsm e False False (s\<lparr>m_gv_timer := None\<rparr>)"

subsection \<open>hp9845c\_state: registers and reset\<close>

definition graphic_r ::
  "env \<Rightarrow> nat \<Rightarrow> 'a hp9845c_state_scheme \<Rightarrow> (16 word \<times> 'a hp9845c_state_scheme) option" where
  "graphic_r e offset s =
     (if offset = 0 then
        (let (res, s1) = (if m_gv_lp_en s then lp_r4_r s else (m_gv_data_r s, s))
         in map_option (Pair res) (advance_gv_fsm e True False s1))
      else if offset = 1 then
        (let res0 = (0 :: 16 word);
             res1 = (if m_gv_int_en s then set_bit 7 res0 else res0);
             res2 = (if m_gv_dma_en s then set_bit 6 res1 else res1);
             res3 = (if m_gv_lp_status s \<and> m_gv_lp_int_en s then set_bit 0 res2 else res2);
             res4 = (if m_gv_sk_status s then set_bit 1 res3 else res3);
             s1 = (if m_gv_sk_status s then s\<lparr>m_gv_sk_status := False\<rparr> else s);
             res5 = set_bit 11 res4
         in Some (res5, update_graphic_bits s1))
      else if offset = 2 then
        (let s0 = s\<lparr>m_gv_dma_en := False\<rparr>;
             (res, s1) = (if m_gv_lp_en s0 then lp_r4_r s0 else (m_gv_data_r s0, s0))
         in map_option (Pair res) (advance_gv_fsm e True False s1))
      else Some (0, s))"

definition graphic_w ::
  "env \<Rightarrow> nat \<Rightarrow> 16 word \<Rightarrow> 'a hp9845c_state_scheme \<Rightarrow> 'a hp9845c_state_scheme option" where
  "graphic_w e offset data s =
     (if offset = 0 then
        map_option (lp_r4_w data) (advance_gv_fsm e True False (s\<lparr>m_gv_data_w := data\<rparr>))
      else if offset = 1 then
        (let s1 = s\<lparr>m_gv_cmd := ucast (data AND 0xf),
                     m_gv_dma_en := bit data 6,
                     m_gv_int_en := bit data 7,
                     m_gv_gr_en := bit data 8,
                     m_gv_sk_en := bit data 9,
                     m_gv_opt_en := bit data 11,
                     m_gv_dsa_en := bit data 12\<rparr>;
             s2 = (if bit data 5 then s1\<lparr>m_gv_fsm_state := GV_STAT_RESET\<rparr> else s1)
         in map_option (lp_r5_w data) (advance_gv_fsm e False False s2))
      else if offset = 2 then
        map_option (lp_r4_w data) (advance_gv_fsm e True False (s\<lparr>m_gv_dma_en := False, m_gv_data_w := data\<rparr>))
      else if offset = 3 then advance_gv_fsm e False True s
      else Some s)"

definition ct_machine_reset :: "'a hp9845ct_state_scheme \<Rightarrow> 'a hp9845ct_state_scheme" where
  "ct_machine_reset s =
     update_graphic_bits
       ((base_machine_reset s)
          \<lparr>m_alpha_sel := True, m_gv_sk_en := False, m_gv_gr_en := False, m_gv_opt_en := False,
           m_gv_dsa_en := False, m_gv_lp_status := False, m_gv_sk_status := False,
           m_gv_lp_cursor_x := 944, m_gv_lp_cursor_y := 50, m_gv_lp_cursor_fs := False,
           m_gv_lp_en := False, m_gv_last_cmd := 0, m_gv_word_x_position := 0,
           m_gv_word_y_position := 0, m_gv_memory_control := 0, m_gv_line_type_area_fill := 0,
           m_gv_line_type_mask := 0xffff, m_gv_repeat_count := 0, m_gv_xpt := 0, m_gv_ypt := 0,
           m_gv_last_xpt := 0, m_gv_last_ypt := 0, m_gv_lp_selftest := False,
           m_gv_lp_xwindow := False, m_gv_lp_ywindow := False, m_gv_lp_interlace := False,
           m_gv_lp_vblank := False, m_gv_lp_1sthit := False, m_gv_lp_vbint := False,
           m_gv_lp_fullbright := False, m_gv_lp_threshold := False, m_gv_lp_x := 0,
           m_gv_lp_y := 0, m_gv_lp_sw := False, m_gv_lp_int_en := False\<rparr>)"

definition machine_reset :: "'a hp9845c_state_scheme \<Rightarrow> 'a hp9845c_state_scheme" where
  "machine_reset s =
     (set_video_mar 0 (ct_machine_reset s))
       \<lparr>m_gv_music_memory := 0x1 OR push_bit 3 0x2 OR push_bit 6 0x4,
        m_gv_cursor_color := 7, m_gv_plane := 0, m_gv_plane_wrap := False\<rparr>"

subsection \<open>hp9845b\_state\<close>

definition update_graphic_bits_b :: "'a hp9845b_state_scheme \<Rightarrow> 'a hp9845b_state_scheme" where
  "update_graphic_bits_b s =
     (let gv_ready = (m_gv_fsm_state s = GV_STAT_WAIT_DS_0 \<or>
                      m_gv_fsm_state s = GV_STAT_WAIT_DS_1 \<or>
                      m_gv_fsm_state s = GV_STAT_WAIT_DS_2);
          s1 = flg_w GVIDEO_PA gv_ready s;
          irq = (m_gv_int_en s1 \<and> \<not> m_gv_dma_en s1 \<and> gv_ready);
          s2 = irq_w GVIDEO_PA irq s1;
          dmar = (gv_ready \<and> m_gv_dma_en s2)
      in s2\<lparr>ppu_dmar := dmar\<rparr>)"

definition set_video_mar_b :: "16 word \<Rightarrow> 'a hp9845b_state_scheme \<Rightarrow> 'a hp9845b_state_scheme" where
  "set_video_mar_b mar s = s\<lparr>m_video_mar := ucast (mar AND 0xfff) OR VIDEO_BUFFER_BASE_HIGH\<rparr>"

text \<open>\<open>hp9845b_state::set_graphic_mode\<close>; the reconfiguration of the screen device is left out.\<close>

definition set_graphic_mode_b :: "bool \<Rightarrow> 'a hp9845b_state_scheme \<Rightarrow> 'a hp9845b_state_scheme" where
  "set_graphic_mode_b graphic s =
     (if graphic \<noteq> m_graphic_sel s then logerror (GS_changed graphic) (s\<lparr>m_graphic_sel := graphic\<rparr>)
      else s)"

text \<open>
  The \<open>while (1)\<close> loop of \<open>hp9845b_state::video_fill_buff\<close>, which parses the two bytes
  of each word in turn: \<open>video_parse_byte_b\<close> is the part of the body that parses a byte
  (the new state, the new \<open>char_idx\<close> and whether the loop is left by \<open>break\<close>),
  \<open>video_fill_step_b\<close> is one pass through the body (the state and the locals after
  the pass, and whether the loop is left), \<open>video_fill_loop_b\<close> the loop.
\<close>

definition video_parse_byte_b ::
  "bool \<Rightarrow> 8 word \<Rightarrow> nat \<Rightarrow> 'a hp9845b_state_scheme \<Rightarrow> 'a hp9845b_state_scheme \<times> nat \<times> bool" where
  "video_parse_byte_b buff_idx byte char_idx s =
     (if byte AND 0xc0 = 0x80 then (s\<lparr>m_video_attr := byte AND 0x1f\<rparr>, char_idx, False)
      else if byte AND 0xc1 = 0xc0 then
        (s\<lparr>m_video_load_mar := True, m_video_byte_idx := False\<rparr>, char_idx, False)
      else if byte AND 0xc1 = 0xc1 then
        (upd_buff buff_idx (fill_rest char_idx (m_video_attr s)) s, char_idx, True)
      else
        (let s1 = upd_buff buff_idx (put_cell char_idx byte (m_video_attr s)) s;
             char_idx' = char_idx + 1
         in if char_idx' = 80 then (upd_buff buff_idx (\<lambda>b. b\<lparr>full := True\<rparr>) s1, char_idx', True)
            else (s1, char_idx', False)))"

definition video_fill_step_b ::
  "env \<Rightarrow> bool \<Rightarrow> nat \<Rightarrow> nat \<Rightarrow> 'a hp9845b_state_scheme \<Rightarrow>
   ('a hp9845b_state_scheme \<times> nat \<times> nat) \<times> bool" where
  "video_fill_step_b e buff_idx char_idx iters s =
     (if \<not> m_video_byte_idx s then
        (if iters \<ge> MAX_WORD_PER_ROW then ((s, char_idx, iters + 1), True)
         else
           (let s1 = s\<lparr>m_video_word := prog_read_word e (push_bit 1 (m_video_mar s))\<rparr> in
            if m_video_load_mar s1 then
              (let s2 = (if m_video_first_mar s1 then
                           (set_graphic_mode_b (\<not> bit (m_video_word s1) 15) s1)\<lparr>m_video_first_mar := False\<rparr>
                         else s1);
                   s3 = set_video_mar_b (NOT (m_video_word s2)) s2;
                   s4 = s3\<lparr>m_video_load_mar := False\<rparr>
               in ((s4, char_idx, iters + 1), False))
            else
              (let s2 = set_video_mar_b (ucast (m_video_mar s1 + 1)) s1;
                   byte = (ucast (drop_bit 8 (m_video_word s2)) :: 8 word);
                   s3 = s2\<lparr>m_video_byte_idx := True\<rparr>
               in case video_parse_byte_b buff_idx byte char_idx s3 of
                    (s4, char_idx', brk) \<Rightarrow> ((s4, char_idx', iters + 1), brk))))
      else
        (let byte = (ucast (m_video_word s AND 0xff) :: 8 word);
             s1 = s\<lparr>m_video_byte_idx := False\<rparr>
         in case video_parse_byte_b buff_idx byte char_idx s1 of
              (s2, char_idx', brk) \<Rightarrow> ((s2, char_idx', iters), brk)))"

function video_fill_loop_b ::
  "env \<Rightarrow> bool \<Rightarrow> nat \<Rightarrow> nat \<Rightarrow> 'a hp9845b_state_scheme \<Rightarrow> 'a hp9845b_state_scheme \<times> nat \<times> nat" where
  "video_fill_loop_b e buff_idx char_idx iters s =
     (case video_fill_step_b e buff_idx char_idx iters s of
        ((s', char_idx', iters'), brk) \<Rightarrow>
          if brk then (s', char_idx', iters') else video_fill_loop_b e buff_idx char_idx' iters' s')"
  by pat_completeness auto
termination
  by (relation "measure (\<lambda>(e, buff_idx, char_idx, iters, s).
        2 * (Suc MAX_WORD_PER_ROW - iters) + (if m_video_byte_idx s then 1 else 0))")
     (auto simp add: video_fill_step_b_def video_parse_byte_b_def upd_buff_def Let_def split: if_splits)

declare video_fill_loop_b.simps [simp del]

definition video_fill_buff_b :: "env \<Rightarrow> bool \<Rightarrow> 'a hp9845b_state_scheme \<Rightarrow> 'a hp9845b_state_scheme" where
  "video_fill_buff_b e buff_idx s =
     fst (video_fill_loop_b e buff_idx 0 0 (upd_buff buff_idx (\<lambda>b. b\<lparr>full := False\<rparr>) s))"

text \<open>One cell of the \<open>else\<close> branch of \<open>hp9845b_state::video_render_buff\<close>.\<close>

definition render_cell_b ::
  "env \<Rightarrow> nat \<Rightarrow> nat \<Rightarrow> bool \<Rightarrow> nat \<Rightarrow> 'a hp9845b_state_scheme \<Rightarrow> 'a hp9845b_state_scheme" where
  "render_cell_b e video_scanline line_in_row buff_idx i s =
     (let cursor_line = (line_in_row = 12);
          ul_line = (line_in_row = 14);
          video_frame = screen_frame_number e;
          cursor_blink = bit video_frame 3;
          char_blink = bit video_frame 4;
          charcode = chars (m_video_buff s buff_idx) i;
          attrs = attrs (m_video_buff s buff_idx) i;
          chrgen_addr = (push_bit 4 (ucast (charcode XOR 0x7f)) OR of_nat line_in_row :: 16 word);
          pixels0 = (if (ul_line \<and> bit attrs 3) \<or> (cursor_line \<and> cursor_blink \<and> bit attrs 0) then NOT 0
                     else if char_blink \<and> bit attrs 2 then 0
                     else if bit attrs 4 then push_bit 1 (ucast (optional_chargen e (unat chrgen_addr) AND 0x7f))
                     else push_bit 1 (ucast (chargen e (unat chrgen_addr) AND 0x7f)) :: 16 word);
          pixels = (if bit attrs 1 then NOT pixels0 else pixels0)
      in fold (\<lambda>j. set_pix video_scanline (i * 9 + j) (if bit pixels j then PEN_ALPHA else PEN_BLACK))
           [0..<9] s)"

definition video_render_buff_b ::
  "env \<Rightarrow> nat \<Rightarrow> nat \<Rightarrow> bool \<Rightarrow> 'a hp9845b_state_scheme \<Rightarrow> 'a hp9845b_state_scheme" where
  "video_render_buff_b e video_scanline line_in_row buff_idx s0 =
     (let s = (if \<not> full (m_video_buff s0 buff_idx) then s0\<lparr>m_video_blanked := True\<rparr> else s0) in
      if m_video_blanked s then
        fold (\<lambda>i. set_pix video_scanline i PEN_BLACK) [0..<VIDEO_HBSTART] s
      else fold (render_cell_b e video_scanline line_in_row buff_idx) [0..<80] s)"

text \<open>
  \<open>hp9845b_state::graphic_video_render\<close>; it is only called with
  \<open>GVIDEO_VBEND \<le> video_scanline\<close>, so that the subtractions do not wrap.
\<close>

definition graphic_video_render_b ::
  "env \<Rightarrow> nat \<Rightarrow> 'a hp9845b_state_scheme \<Rightarrow> 'a hp9845b_state_scheme" where
  "graphic_video_render_b e video_scanline s =
     (let yc = (video_scanline + GVIDEO_VCNT_OFF = unat (m_gv_cursor_y s) + 6);
          yw = (if m_gv_cursor_fs s then True
                else video_scanline + GVIDEO_VCNT_OFF \<ge> unat (m_gv_cursor_y s) + 2 \<and>
                     video_scanline + GVIDEO_VCNT_OFF \<le> unat (m_gv_cursor_y s) + 10);
          blink = (if m_gv_cursor_fs s then True else bit (screen_frame_number e) 3);
          mem_idx = 36 * (video_scanline - GVIDEO_VBEND)
      in fold (\<lambda>n s.
           let word = m_graphic_mem_b s (mem_idx + n)
           in fold (\<lambda>k s.
                let mask = drop_bit k (0x8000 :: 16 word);
                    x = 16 * n + k;
                    cnt_h = x + GVIDEO_HBEND + GVIDEO_HCNT_OFF;
                    xc = (cnt_h = unat (m_gv_cursor_x s) + 6);
                    xw = (m_gv_cursor_fs s \<or>
                          (cnt_h \<ge> unat (m_gv_cursor_x s) + 2 \<and> cnt_h \<le> unat (m_gv_cursor_x s) + 10));
                    pixel = (if blink \<and> ((xw \<and> yc) \<or> (yw \<and> xc \<and> m_gv_cursor_gc s)) then PEN_CURSOR
                             else if word AND mask \<noteq> 0 then PEN_GRAPHIC else PEN_BLACK)
                in set_pix (video_scanline - GVIDEO_VBEND) x pixel s)
              [0..<16] s)
         [0..<GVIDEO_HPIXELS div 16] s)"

definition scanline_timer_b :: "env \<Rightarrow> nat \<Rightarrow> 'a hp9845b_state_scheme \<Rightarrow> 'a hp9845b_state_scheme" where
  "scanline_timer_b e video_scanline s =
     (if m_graphic_sel s then
        (if video_scanline \<ge> GVIDEO_VBEND \<and> video_scanline < GVIDEO_VBSTART then
           graphic_video_render_b e video_scanline s
         else s)
      else if video_scanline < VIDEO_ACTIVE_SCANLINES then
        (let row = video_scanline div VIDEO_CHAR_HEIGHT;
             line_in_row = video_scanline - row * VIDEO_CHAR_HEIGHT;
             s1 = (if line_in_row = 0 then
                     (let s' = s\<lparr>m_video_buff_idx := (\<not> m_video_buff_idx s)\<rparr>
                      in video_fill_buff_b e (\<not> m_video_buff_idx s') s')
                   else s)
         in video_render_buff_b e video_scanline line_in_row (m_video_buff_idx s1) s1)
      else s)"

definition vblank_w_b :: "env \<Rightarrow> bool \<Rightarrow> 'a hp9845b_state_scheme \<Rightarrow> 'a hp9845b_state_scheme" where
  "vblank_w_b e state s0 =
     (let s = s0\<lparr>ppu_halt := state\<rparr> in
      if state then
        (let s1 = set_video_mar_b 0 s;
             s2 = s1\<lparr>m_video_load_mar := True, m_video_first_mar := True, m_video_byte_idx := False,
                     m_video_blanked := False, m_video_buff_idx := (\<not> m_video_buff_idx s1)\<rparr>
         in video_fill_buff_b e (\<not> m_video_buff_idx s2) s2)
      else s)"

text \<open>
  One pass through the body of the \<open>do ... while (!get_out)\<close> loop of
  \<open>hp9845b_state::advance_gv_fsm\<close>: the new state and the value of \<open>get_out\<close>.
\<close>

definition gv_fsm_step_b ::
  "env \<Rightarrow> bool \<Rightarrow> bool \<Rightarrow> 'a hp9845b_state_scheme \<Rightarrow> 'a hp9845b_state_scheme \<times> bool" where
  "gv_fsm_step_b e ds trigger s =
     (let act_trig = (trigger \<or> m_gv_dma_en s \<or> \<not> bit (m_gv_cmd s) 2);
          st = m_gv_fsm_state s
      in
      if st = GV_STAT_WAIT_DS_0 then
        (if m_gv_cmd s AND 0xc = 0xc then (s\<lparr>m_gv_fsm_state := GV_STAT_WAIT_MEM_0\<rparr>, False)
         else if ds then (s\<lparr>m_gv_fsm_state := GV_STAT_WAIT_TRIG_0\<rparr>, False)
         else (s, True))
      else if st = GV_STAT_WAIT_TRIG_0 then
        (if act_trig then
           (if bit (m_gv_cmd s) 3 then
              (s\<lparr>m_gv_io_counter := NOT (m_gv_data_w s) AND GVIDEO_ADDR_MASK,
                 m_gv_fsm_state := GV_STAT_WAIT_DS_2\<rparr>, False)
            else
              (let s1 = (if bit (m_gv_cmd s) 2 then
                           s\<lparr>m_gv_cursor_x := drop_bit 6 (NOT (m_gv_cursor_w s)) AND 0x3ff\<rparr>
                         else
                           s\<lparr>m_gv_cursor_y := drop_bit 6 (NOT (m_gv_cursor_w s)) AND 0x1ff,
                              m_gv_cursor_gc := (\<not> bit (m_gv_cmd s) 1),
                              m_gv_cursor_fs := bit (m_gv_cmd s) 0\<rparr>)
               in (s1\<lparr>m_gv_fsm_state := GV_STAT_WAIT_DS_0\<rparr>, False)))
         else (s, True))
      else if st = GV_STAT_WAIT_MEM_0 then
        (let time_mem_av = time_to_gv_mem_availability e s
         in if time_mem_av = 0 then
              (s\<lparr>m_gv_data_r := m_graphic_mem_b s (unat (m_gv_io_counter s)),
                 m_gv_io_counter := (m_gv_io_counter s + 1) AND GVIDEO_ADDR_MASK,
                 m_gv_fsm_state := GV_STAT_WAIT_DS_1\<rparr>, False)
            else (s\<lparr>m_gv_timer := Some time_mem_av\<rparr>, True))
      else if st = GV_STAT_WAIT_DS_1 then
        (if ds then (s\<lparr>m_gv_fsm_state := GV_STAT_WAIT_MEM_0\<rparr>, False) else (s, True))
      else if st = GV_STAT_WAIT_DS_2 then
        (if ds then (s\<lparr>m_gv_fsm_state := GV_STAT_WAIT_TRIG_1\<rparr>, False) else (s, True))
      else if st = GV_STAT_WAIT_TRIG_1 then
        (if act_trig then
           (if bit (m_gv_cmd s) 1 then (s\<lparr>m_gv_data_w := 0, m_gv_fsm_state := GV_STAT_WAIT_MEM_1\<rparr>, False)
            else if bit (m_gv_cmd s) 0 then (s\<lparr>m_gv_fsm_state := GV_STAT_WAIT_MEM_2\<rparr>, False)
            else (s\<lparr>m_gv_fsm_state := GV_STAT_WAIT_MEM_1\<rparr>, False))
         else (s, True))
      else if st = GV_STAT_WAIT_MEM_1 then
        (let time_mem_av = time_to_gv_mem_availability e s
         in if time_mem_av = 0 then
              (s\<lparr>m_graphic_mem_b := (m_graphic_mem_b s)(unat (m_gv_io_counter s) := m_gv_data_w s),
                 m_gv_io_counter := (m_gv_io_counter s + 1) AND GVIDEO_ADDR_MASK,
                 m_gv_fsm_state := GV_STAT_WAIT_DS_2\<rparr>, False)
            else (s\<lparr>m_gv_timer := Some time_mem_av\<rparr>, True))
      else if st = GV_STAT_WAIT_MEM_2 then
        (let time_mem_av = time_to_gv_mem_availability e s
         in if time_mem_av = 0 then
              (let mask = drop_bit (unat (m_gv_data_w s AND 0xf)) (0x8000 :: 16 word);
                   a = unat (m_gv_io_counter s);
                   w = m_graphic_mem_b s a;
                   w' = (if bit (m_gv_data_w s) 15 then w OR mask else w AND NOT mask)
               in (s\<lparr>m_graphic_mem_b := (m_graphic_mem_b s)(a := w'),
                     m_gv_io_counter := (m_gv_io_counter s + 1) AND GVIDEO_ADDR_MASK,
                     m_gv_fsm_state := GV_STAT_WAIT_DS_0\<rparr>, False))
            else (s\<lparr>m_gv_timer := Some time_mem_av\<rparr>, True))
      else ((logerror (Invalid_state_reached st) s)\<lparr>m_gv_fsm_state := GV_STAT_RESET\<rparr>, False))"

partial_function (option) gv_fsm_loop_b ::
  "env \<Rightarrow> bool \<Rightarrow> bool \<Rightarrow> 'a hp9845b_state_scheme \<Rightarrow> 'a hp9845b_state_scheme option" where
  "gv_fsm_loop_b e ds trigger s =
     (case gv_fsm_step_b e ds trigger s of
        (s', get_out) \<Rightarrow> if get_out then Some s' else gv_fsm_loop_b e False False s')"

definition advance_gv_fsm_b ::
  "env \<Rightarrow> bool \<Rightarrow> bool \<Rightarrow> 'a hp9845b_state_scheme \<Rightarrow> 'a hp9845b_state_scheme option" where
  "advance_gv_fsm_b e ds trigger s = map_option update_graphic_bits_b (gv_fsm_loop_b e ds trigger s)"

definition gv_timer_b :: "env \<Rightarrow> 'a hp9845b_state_scheme \<Rightarrow> 'a hp9845b_state_scheme option" where
  "gv_timer_b e s = advance_gv_fsm_b e False False (s\<lparr>m_gv_timer := None\<rparr>)"

definition graphic_r_b ::
  "env \<Rightarrow> nat \<Rightarrow> 'a hp9845b_state_scheme \<Rightarrow> (16 word \<times> 'a hp9845b_state_scheme) option" where
  "graphic_r_b e offset s =
     (if offset = 0 then map_option (Pair (m_gv_data_r s)) (advance_gv_fsm_b e True False s)
      else if offset = 1 then
        (let res0 = (0 :: 16 word);
             res1 = (if m_gv_int_en s then set_bit 7 res0 else res0);
             res2 = (if m_gv_dma_en s then set_bit 6 res1 else res1)
         in Some (set_bit 5 res2, s))
      else if offset = 2 then
        (let s0 = s\<lparr>m_gv_dma_en := False\<rparr>
         in map_option (Pair (m_gv_data_r s0)) (advance_gv_fsm_b e True False s0))
      else Some (0, s))"

definition graphic_w_b ::
  "env \<Rightarrow> nat \<Rightarrow> 16 word \<Rightarrow> 'a hp9845b_state_scheme \<Rightarrow> 'a hp9845b_state_scheme option" where
  "graphic_w_b e offset data s =
     (if offset = 0 then advance_gv_fsm_b e True False (s\<lparr>m_gv_data_w := data, m_gv_cursor_w := data\<rparr>)
      else if offset = 1 then
        (let s1 = s\<lparr>m_gv_cmd := ucast (data AND 0xf), m_gv_dma_en := bit data 6, m_gv_int_en := bit data 7\<rparr>;
             s2 = (if bit data 5 then s1\<lparr>m_gv_fsm_state := GV_STAT_RESET\<rparr> else s1)
         in advance_gv_fsm_b e False False s2)
      else if offset = 2 then
        advance_gv_fsm_b e True False (s\<lparr>m_gv_dma_en := False, m_gv_data_w := data, m_gv_cursor_w := data\<rparr>)
      else if offset = 3 then advance_gv_fsm_b e False True s
      else Some s)"

definition machine_reset_b :: "'a hp9845b_state_scheme \<Rightarrow> 'a hp9845b_state_scheme" where
  "machine_reset_b s =
     update_graphic_bits_b ((set_video_mar_b 0 (base_machine_reset s))\<lparr>m_video_attr := 0\<rparr>)"

subsection \<open>Devices as allocated\<close>

text \<open>
  A device object with every member zero, which is how the objects are allocated before
  the first reset; the states of the worked examples below are updates of these.
\<close>

definition zero_b :: hp9845b_state where
  "zero_b =
     \<lparr>m_bitmap = (\<lambda>_ _. 0), m_video_mar = 0, m_video_word = 0,
      m_video_load_mar = False, m_video_first_mar = False, m_video_byte_idx = False,
      m_video_buff_idx = False, m_video_blanked = False,
      m_video_buff = (\<lambda>_. \<lparr>chars = (\<lambda>_. 0), attrs = (\<lambda>_. 0), full = False\<rparr>),
      m_graphic_sel = False, m_gv_fsm_state = 0, m_gv_int_en = False, m_gv_dma_en = False,
      m_gv_cmd = 0, m_gv_data_w = 0, m_gv_data_r = 0, m_gv_io_counter = 0, m_gv_cursor_x = 0,
      m_gv_cursor_y = 0, m_gv_cursor_gc = False, m_gv_cursor_fs = False, m_irl_pending = 0,
      m_irh_pending = 0, m_pa = 0, m_flg_status = 0, m_sts_status = 0, m_gv_timer = None,
      ppu_irl = False, ppu_irh = False, ppu_status = False, ppu_flag = False, ppu_dmar = False,
      ppu_halt = False, errlog = [], m_video_attr = 0, m_gv_cursor_w = 0,
      m_graphic_mem_b = (\<lambda>_. 0)\<rparr>"

definition zero_c :: hp9845c_state where
  "zero_c =
     \<lparr>m_bitmap = (\<lambda>_ _. 0), m_video_mar = 0, m_video_word = 0,
      m_video_load_mar = False, m_video_first_mar = False, m_video_byte_idx = False,
      m_video_buff_idx = False, m_video_blanked = False,
      m_video_buff = (\<lambda>_. \<lparr>chars = (\<lambda>_. 0), attrs = (\<lambda>_. 0), full = False\<rparr>),
      m_graphic_sel = False, m_gv_fsm_state = 0, m_gv_int_en = False, m_gv_dma_en = False,
      m_gv_cmd = 0, m_gv_data_w = 0, m_gv_data_r = 0, m_gv_io_counter = 0, m_gv_cursor_x = 0,
      m_gv_cursor_y = 0, m_gv_cursor_gc = False, m_gv_cursor_fs = False, m_irl_pending = 0,
      m_irh_pending = 0, m_pa = 0, m_flg_status = 0, m_sts_status = 0, m_gv_timer = None,
      ppu_irl = False, ppu_irh = False, ppu_status = False, ppu_flag = False, ppu_dmar = False,
      ppu_halt = False, errlog = [], m_alpha_sel = False, m_gv_sk_en = False, m_gv_gr_en = False,
      m_gv_opt_en = False, m_gv_dsa_en = False, m_gv_lp_status = False, m_gv_sk_status = False,
      m_gv_lp_cursor_x = 0, m_gv_lp_cursor_y = 0, m_gv_lp_cursor_fs = False, m_gv_lp_en = False,
      m_gv_last_cmd = 0, m_gv_word_x_position = 0, m_gv_word_y_position = 0,
      m_gv_memory_control = 0, m_gv_line_type_area_fill = 0, m_gv_line_type_mask = 0,
      m_gv_repeat_count = 0, m_gv_xpt = 0, m_gv_ypt = 0, m_gv_last_xpt = 0, m_gv_last_ypt = 0,
      m_gv_lp_data = (\<lambda>_. 0), m_gv_lp_selftest = False, m_gv_lp_xwindow = False,
      m_gv_lp_ywindow = False, m_gv_lp_interlace = False, m_gv_lp_vblank = False,
      m_gv_lp_1sthit = False, m_gv_lp_vbint = False, m_gv_lp_fullbright = False,
      m_gv_lp_threshold = False, m_gv_lp_x = 0, m_gv_lp_y = 0, m_gv_lp_sw = False,
      m_gv_lp_reg_cnt = 0, m_gv_lp_int_en = False, m_graphic_mem = (\<lambda>_ _. 0), m_gv_music_memory = 0,
      m_gv_cursor_color = 0, m_gv_plane = 0, m_gv_plane_wrap = False\<rparr>"

text \<open>
  An environment whose program memory holds the word \<open>w\<close> at every address, with the
  beam at column \<open>hpos\<close> and 5 time units before the next horizontal blanking.
\<close>

definition const_env :: "16 word \<Rightarrow> int \<Rightarrow> env" where
  "const_env w hpos =
     \<lparr>screen_hpos = hpos, screen_time_until_pos = 5, screen_frame_number = 0,
      prog_read_word = (\<lambda>_. w), chargen = (\<lambda>_. 0), optional_chargen = (\<lambda>_. 0),
      lightpen_x = 0, lightpen_y = 0, lightpen_sw = 0\<rparr>"

text \<open>
  Two states of the colour controller used in the examples: a write transfer that waits
  for the memory, once with a light-pen service request pending and enabled, once with
  the wake-up timer armed.
\<close>

definition lp_request_pending :: hp9845c_state where
  "lp_request_pending =
     zero_c\<lparr>m_graphic_sel := True, m_gv_fsm_state := GV_STAT_WAIT_MEM_1, m_gv_gr_en := True,
            m_gv_lp_status := True, m_gv_lp_int_en := True\<rparr>"

definition write_waiting_for_memory :: hp9845c_state where
  "write_waiting_for_memory =
     zero_c\<lparr>m_graphic_sel := True, m_gv_fsm_state := GV_STAT_WAIT_MEM_1, m_gv_gr_en := True,
            m_gv_timer := Some 5\<rparr>"

text \<open>The I/O cursor on the last word of the third plane, with the load X command selected.\<close>

definition io_counter_at_end :: hp9845c_state where
  "io_counter_at_end = zero_c\<lparr>m_gv_cmd := 8, m_gv_io_counter := 0x3fff, m_gv_plane := 2\<rparr>"

subsection \<open>Predicates used to state the properties\<close>

text \<open>The invariant of the colour controller's I/O cursor.\<close>

definition io_counter_ok :: "'a hp9845c_state_scheme \<Rightarrow> bool" where
  "io_counter_ok s = (m_gv_plane s \<le> 2 \<and> m_gv_io_counter s \<le> GVIDEO_ADDR_MASK)"

text \<open>
  Row \<open>y\<close> of bitmap \<open>bm'\<close> shows no alpha pixel: every column holds the black alpha pen,
  except that the columns of the graphics zone keep what \<open>bm\<close> had there when graphics
  is selected (\<open>gsel\<close>).
\<close>

definition alpha_blank_line :: "(nat \<Rightarrow> nat \<Rightarrow> nat) \<Rightarrow> bool \<Rightarrow> (nat \<Rightarrow> nat \<Rightarrow> nat) \<Rightarrow> nat \<Rightarrow> bool" where
  "alpha_blank_line bm gsel bm' y =
     list_all (\<lambda>x. bm' y x =
                 (if gsel \<and> VIDEO_770_ALPHA_L_LIM \<le> x \<and> x < VIDEO_770_ALPHA_R_LIM then bm y x
                  else pen_alpha 0))
       [0..<VIDEO_TOT_HPIXELS]"

text \<open>
  A run of scanline timer events without a vertical blank in between, each with the
  environment it sees: every displayed scanline comes out without alpha pixels, the
  graphics zone showing what \<open>graphic_video_render\<close> drew when graphics is selected.
\<close>

fun blank_until_vblank :: "(env \<times> nat) list \<Rightarrow> 'a hp9845c_state_scheme \<Rightarrow> bool" where
  "blank_until_vblank [] s = True"
| "blank_until_vblank ((e, v) # evs) s =
     (let s' = scanline_timer e v s
      in (v < VIDEO_770_VBSTART \<longrightarrow>
            alpha_blank_line (m_bitmap (if m_graphic_sel s then graphic_video_render e v s else s))
              (m_graphic_sel s') (m_bitmap s') v) \<and>
         blank_until_vblank evs s')"

section \<open>Properties\<close>

subsection \<open>plot: the dominance truth table\<close>

lemma pixel_mask_nonzero: "drop_bit (unat (x AND 0xf)) (0x8000 :: 16 word) \<noteq> 0" for x :: "16 word"
proof -
  have "unat (x AND (0xf :: 16 word)) \<le> 15"
    using word_and_le1 [of x "0xf :: 16 word"] by (simp add: word_le_nat_alt)
  then have "bit (drop_bit (unat (x AND 0xf)) (0x8000 :: 16 word)) (15 - unat (x AND 0xf))"
    by (simp add: bit_drop_bit_eq)
  then show ?thesis by (metis bit_0_eq bot_apply bot_bool_def)
qed

lemma or_and_mask: "(w OR m) AND m = m" for w m :: "16 word"
  by (simp add: bit.conj_disj_distrib2)

lemma andnot_and_mask: "(w AND NOT m) AND m = 0" for w m :: "16 word"
  by (simp add: and.assoc)

lemma plot_plane_memory_control [simp]:
  "m_gv_memory_control (plot_plane a b p addr m d e s) = m_gv_memory_control s"
  by (simp add: plot_plane_def Let_def)

lemma plot_plane_mem:
  "m_graphic_mem (plot_plane a b p addr m d e s) q n =
     (if q = p \<and> n = unat addr \<and> bit (m_gv_memory_control s) a then
        (if e \<and> bit (m_gv_memory_control s) b then m_graphic_mem s q n OR m
         else if d \<or> e then m_graphic_mem s q n AND NOT m
         else m_graphic_mem s q n)
      else m_graphic_mem s q n)"
  by (auto simp add: plot_plane_def Let_def)

text \<open>
  C1. For every coordinate \<open>(x, y)\<close>, every memory-control word and each of the planes
  0, 1 and 2: after \<open>plot(x, y, draw_erase)\<close> the addressed bit of the plane is unchanged
  when the plane is not active (bit \<open>p\<close> clear); on an active plane it is set when a draw
  is requested and the plane's set flag (bit \<open>p + 3\<close>) is on, cleared when the call is
  not such a set and either dominance (bit 6) is on or a draw was requested, and
  unchanged on an erase without dominance.
\<close>

theorem plot_dominance_truth_table:
  assumes "p < 3"
  shows "gv_pixel (plot x y draw_erase s) p x y =
     (if \<not> bit (m_gv_memory_control s) p then gv_pixel s p x y
      else if draw_erase \<and> bit (m_gv_memory_control s) (p + 3) then True
      else if bit (m_gv_memory_control s) 6 \<or> draw_erase then False
      else gv_pixel s p x y)"
proof -
  from assms consider "p = 0" | "p = 1" | "p = 2" by linarith
  then show ?thesis
    by cases
      (simp_all add: gv_pixel_def plot_def Let_def plot_plane_mem
         or_and_mask pixel_mask_nonzero andnot_and_mask)
qed

theorem plot_dominance_truth_table_witness:
  "(0::nat) < 3 \<and> gv_pixel (plot 5 7 True (zero_c\<lparr>m_gv_memory_control := 0x49\<rparr>)) 0 5 7
     \<and> \<not> gv_pixel (zero_c\<lparr>m_gv_memory_control := 0x49\<rparr>) 0 5 7"
  using plot_dominance_truth_table [of 0 5 7 True "zero_c\<lparr>m_gv_memory_control := 0x49\<rparr>"]
  by (simp add: zero_c_def gv_pixel_def)

subsection \<open>pattern\_fill\<close>

lemma pattern_fill_cols_done:
  "\<not> x \<le> xmax \<Longrightarrow> pattern_fill_cols plotf fill_mask xmax y x s = Some (x, s)"
  by (subst pattern_fill_cols.simps) simp

lemma pattern_fill_cols_next:
  "x \<le> xmax \<Longrightarrow>
   pattern_fill_cols plotf fill_mask xmax y x s =
     pattern_fill_cols plotf fill_mask xmax y (x + 1)
       (plotf x y ((drop_bit (unat x mod 16) 0x8000 AND fill_mask) \<noteq> 0) s)"
  by (subst pattern_fill_cols.simps) (simp add: Let_def)

lemma pattern_fill_rows_done:
  "\<not> y \<le> ymax \<Longrightarrow> pattern_fill_rows plotf xmax ymax y x s = Some s"
  by (subst pattern_fill_rows.simps) simp

lemma pattern_fill_rows_next:
  "y \<le> ymax \<Longrightarrow>
   pattern_fill_rows plotf xmax ymax y x s =
     (case pattern_fill_cols plotf (fill_mask_of (m_gv_line_type_area_fill s) y) xmax y x s of
        None \<Rightarrow> None
      | Some (x', s') \<Rightarrow> pattern_fill_rows plotf xmax ymax (y + 1) x' s')"
  by (subst pattern_fill_rows.simps) (simp add: Let_def)

text \<open>
  C2. The area fill of the box with corners \<open>(0, 0)\<close> and \<open>(1, 1)\<close>, for any \<open>plot\<close>
  and from any state: \<open>plot\<close> is called at \<open>(0, 0)\<close> and at \<open>(1, 0)\<close>, with the draw flag
  that the tile of row 0 gives, and at no point of row 1. The column counter is not set
  back to \<open>min(x0, x1)\<close> when a row is finished, so that only the first row of a box is
  filled.
\<close>

theorem pattern_fill_two_rows:
  "pattern_fill plotf 0 0 1 1 s =
     (let fill_mask = fill_mask_of (m_gv_line_type_area_fill s) 0
      in Some (plotf 1 0 (0x4000 AND fill_mask \<noteq> 0) (plotf 0 0 (0x8000 AND fill_mask \<noteq> 0) s)))"
  by (simp add: pattern_fill_def pattern_fill_rows_next pattern_fill_rows_done
        pattern_fill_cols_next pattern_fill_cols_done Let_def word_le_nat_alt)

subsection \<open>draw\_line\<close>





subsection \<open>The ready, interrupt and DMA request lines\<close>

lemmas line_defs = flg_w_def irq_w_def sts_w_def update_flg_sts_def update_irq_def Let_def

lemma bit_assign_bit:
  "n < LENGTH('w::len) \<Longrightarrow> bit (bit_assign n b (w :: 'w word)) m = (if m = n then b else bit w m)"
  by (auto simp add: bit_assign_def bit_set_bit_iff bit_unset_bit_iff dest: bit_imp_le_length)

lemma update_graphic_bits_b_fields [simp]:
  "m_gv_fsm_state (update_graphic_bits_b s) = m_gv_fsm_state s"
  "m_gv_int_en (update_graphic_bits_b s) = m_gv_int_en s"
  "m_gv_dma_en (update_graphic_bits_b s) = m_gv_dma_en s"
  "m_gv_timer (update_graphic_bits_b s) = m_gv_timer s"
  "m_graphic_mem_b (update_graphic_bits_b s) = m_graphic_mem_b s"
  by (simp_all add: update_graphic_bits_b_def line_defs)

lemma update_graphic_bits_b_ready:
  "bit (m_flg_status (update_graphic_bits_b s)) 13 =
     (m_gv_fsm_state s = GV_STAT_WAIT_DS_0 \<or> m_gv_fsm_state s = GV_STAT_WAIT_DS_1 \<or>
      m_gv_fsm_state s = GV_STAT_WAIT_DS_2)"
  by (simp add: update_graphic_bits_b_def line_defs bit_assign_bit)

lemma update_graphic_bits_b_irq:
  "bit (m_irh_pending (update_graphic_bits_b s)) 5 =
     (bit (m_flg_status (update_graphic_bits_b s)) 13 \<and> m_gv_int_en s \<and> \<not> m_gv_dma_en s)"
  by (simp add: update_graphic_bits_b_def line_defs bit_assign_bit word_less_nat_alt) blast

lemma update_graphic_bits_fields [simp]:
  "m_gv_fsm_state (update_graphic_bits s) = m_gv_fsm_state s"
  "m_gv_int_en (update_graphic_bits s) = m_gv_int_en s"
  "m_gv_dma_en (update_graphic_bits s) = m_gv_dma_en s"
  "m_gv_timer (update_graphic_bits s) = m_gv_timer s"
  "m_gv_gr_en (update_graphic_bits s) = m_gv_gr_en s"
  "m_gv_lp_int_en (update_graphic_bits s) = m_gv_lp_int_en s"
  "m_gv_lp_status (update_graphic_bits s) = m_gv_lp_status s"
  "m_gv_lp_data (update_graphic_bits s) = m_gv_lp_data s"
  "m_gv_cmd (update_graphic_bits s) = m_gv_cmd s"
  "m_gv_io_counter (update_graphic_bits s) = m_gv_io_counter s"
  "m_video_blanked (update_graphic_bits s) = m_video_blanked s"
  "hp9845ct_state.more (update_graphic_bits s) = hp9845ct_state.more s"
  by (simp_all add: update_graphic_bits_def line_defs)

lemma update_graphic_bits_ready:
  "bit (m_flg_status (update_graphic_bits s)) 13 =
     ((m_gv_lp_int_en s \<and> m_gv_lp_status s) \<or>
      (m_gv_gr_en s \<and>
       (m_gv_fsm_state s = GV_STAT_WAIT_DS_0 \<or> m_gv_fsm_state s = GV_STAT_WAIT_TRIG_0 \<or>
        m_gv_fsm_state s = GV_STAT_WAIT_DS_1 \<or> m_gv_fsm_state s = GV_STAT_WAIT_DS_2 \<or>
        m_gv_fsm_state s = GV_STAT_WAIT_TRIG_1)))"
  by (simp add: update_graphic_bits_def line_defs bit_assign_bit) blast

lemma update_graphic_bits_irq:
  "bit (m_irh_pending (update_graphic_bits s)) 5 =
     (bit (m_flg_status (update_graphic_bits s)) 13 \<and> m_gv_int_en s \<and> \<not> m_gv_dma_en s)"
  by (simp add: update_graphic_bits_def line_defs bit_assign_bit word_less_nat_alt) blast

lemma c_more: "m_gv_plane (update_graphic_bits s) = m_gv_plane s"
  "m_graphic_mem (update_graphic_bits s) = m_graphic_mem s"
  by (simp_all add: update_graphic_bits_def line_defs)

subsection \<open>The command state machine of the monochrome controller\<close>

lemma gv_state_cases:
  fixes st :: nat
  obtains "st = 0" | "st = 1" | "st = 2" | "st = 3" | "st = 4" | "st = 5" | "st = 6" | "st = 7"
    | "\<not> gv_state_valid st"
  unfolding gv_state_valid_def by (cases "st < 8") (auto, linarith)

lemma gv_fsm_loop_b_out:
  "gv_fsm_step_b e ds t s = (s', True) \<Longrightarrow> gv_fsm_loop_b e ds t s = Some s'"
  by (subst gv_fsm_loop_b.simps) simp

lemma gv_fsm_loop_b_next:
  "gv_fsm_step_b e ds t s = (s', False) \<Longrightarrow> gv_fsm_loop_b e ds t s = gv_fsm_loop_b e False False s'"
  by (subst gv_fsm_loop_b.simps) simp

lemma gv_fsm_step_b_invalid:
  "\<not> gv_state_valid (m_gv_fsm_state s) \<Longrightarrow>
   gv_fsm_step_b e ds t s =
     ((logerror (Invalid_state_reached (m_gv_fsm_state s)) s)\<lparr>m_gv_fsm_state := GV_STAT_RESET\<rparr>, False)"
  by (simp add: gv_fsm_step_b_def gv_state_valid_def Let_def)

text \<open>What a pass of the monochrome loop can do to the state variable.\<close>

lemma gv_fsm_step_b_state:
  assumes "gv_fsm_step_b e ds t s = (s1, go)"
  shows "if go then m_gv_fsm_state s1 = m_gv_fsm_state s \<and> gv_state_valid (m_gv_fsm_state s)
         else (m_gv_fsm_state s = 0 \<longrightarrow> m_gv_fsm_state s1 = 2 \<or> (ds \<and> m_gv_fsm_state s1 = 1)) \<and>
              (m_gv_fsm_state s = 1 \<longrightarrow> m_gv_fsm_state s1 = 4 \<or> m_gv_fsm_state s1 = 0) \<and>
              (m_gv_fsm_state s = 2 \<longrightarrow> m_gv_fsm_state s1 = 3) \<and>
              (m_gv_fsm_state s = 3 \<longrightarrow> ds \<and> m_gv_fsm_state s1 = 2) \<and>
              (m_gv_fsm_state s = 4 \<longrightarrow> ds \<and> m_gv_fsm_state s1 = 5) \<and>
              (m_gv_fsm_state s = 5 \<longrightarrow> m_gv_fsm_state s1 = 6 \<or> m_gv_fsm_state s1 = 7) \<and>
              (m_gv_fsm_state s = 6 \<longrightarrow> m_gv_fsm_state s1 = 4) \<and>
              (m_gv_fsm_state s = 7 \<longrightarrow> m_gv_fsm_state s1 = 0) \<and>
              (\<not> gv_state_valid (m_gv_fsm_state s) \<longrightarrow> m_gv_fsm_state s1 = 0)"
proof (cases "m_gv_fsm_state s" rule: gv_state_cases)
  case 9
  with assms show ?thesis by (auto simp add: gv_fsm_step_b_invalid gv_state_valid_def)
qed (use assms in \<open>auto simp add: gv_fsm_step_b_def Let_def gv_state_valid_def split: if_splits\<close>)


lemma gv_fsm_loop_b_last_step:
  assumes "gv_fsm_loop_b e ds t s = Some s'"
  shows "\<exists>ds0 t0 s0. gv_fsm_step_b e ds0 t0 s0 = (s', True)"
  using assms
proof (induction e ds t s s' rule: gv_fsm_loop_b.raw_induct [rotated 1, consumes 1])
  case (1 loop e ds t s s')
  show ?case
  proof (cases "gv_fsm_step_b e ds t s")
    case (Pair s1 go)
    show ?thesis
    proof (cases go)
      case True
      with Pair 1(2) show ?thesis by auto
    next
      case False
      with Pair 1(2) have "loop e False False s1 = Some s'" by simp
      then show ?thesis by (rule 1(1))
    qed
  qed
qed

lemma gv_fsm_loop_b_valid:
  assumes "gv_fsm_loop_b e ds t s = Some s'"
  shows "gv_state_valid (m_gv_fsm_state s')"
proof -
  from gv_fsm_loop_b_last_step [OF assms] obtain ds0 t0 s0
    where "gv_fsm_step_b e ds0 t0 s0 = (s', True)" by blast
  from gv_fsm_step_b_state [OF this] show ?thesis by simp
qed

lemma gv_fsm_loop_b_stepI:
  assumes "\<And>s1. gv_fsm_step_b e ds t s = (s1, False) \<Longrightarrow> \<exists>s'. gv_fsm_loop_b e False False s1 = Some s'"
  shows "\<exists>s'. gv_fsm_loop_b e ds t s = Some s'"
proof (cases "gv_fsm_step_b e ds t s")
  case (Pair s1 go)
  show ?thesis
  proof (cases go)
    case True
    with Pair show ?thesis by (auto intro: gv_fsm_loop_b_out)
  next
    case False
    with Pair assms [of s1] show ?thesis by (simp add: gv_fsm_loop_b_next)
  qed
qed

lemma loop_b_from_ds12:
  assumes "m_gv_fsm_state s = 3 \<or> m_gv_fsm_state s = 4"
  shows "\<exists>s'. gv_fsm_loop_b e False False s = Some s'"
proof (rule gv_fsm_loop_b_stepI)
  fix s1 assume "gv_fsm_step_b e False False s = (s1, False)"
  from gv_fsm_step_b_state [OF this] assms show "\<exists>s'. gv_fsm_loop_b e False False s1 = Some s'"
    by auto
qed

lemma loop_b_from_mem01:
  assumes "m_gv_fsm_state s = 2 \<or> m_gv_fsm_state s = 6"
  shows "\<exists>s'. gv_fsm_loop_b e False False s = Some s'"
proof (rule gv_fsm_loop_b_stepI)
  fix s1 assume "gv_fsm_step_b e False False s = (s1, False)"
  from gv_fsm_step_b_state [OF this] assms have "m_gv_fsm_state s1 = 3 \<or> m_gv_fsm_state s1 = 4"
    by auto
  then show "\<exists>s'. gv_fsm_loop_b e False False s1 = Some s'" by (rule loop_b_from_ds12)
qed

lemma loop_b_from_ds0:
  assumes "m_gv_fsm_state s = 0"
  shows "\<exists>s'. gv_fsm_loop_b e False False s = Some s'"
proof (rule gv_fsm_loop_b_stepI)
  fix s1 assume "gv_fsm_step_b e False False s = (s1, False)"
  from gv_fsm_step_b_state [OF this] assms have "m_gv_fsm_state s1 = 2 \<or> m_gv_fsm_state s1 = 6"
    by auto
  then show "\<exists>s'. gv_fsm_loop_b e False False s1 = Some s'" by (rule loop_b_from_mem01)
qed

lemma loop_b_from_mem2:
  assumes "m_gv_fsm_state s = 7"
  shows "\<exists>s'. gv_fsm_loop_b e False False s = Some s'"
proof (rule gv_fsm_loop_b_stepI)
  fix s1 assume "gv_fsm_step_b e False False s = (s1, False)"
  from gv_fsm_step_b_state [OF this] assms have "m_gv_fsm_state s1 = 0"
    by auto
  then show "\<exists>s'. gv_fsm_loop_b e False False s1 = Some s'" by (rule loop_b_from_ds0)
qed

lemma loop_b_from_any:
  "\<exists>s'. gv_fsm_loop_b e False False s = Some s'"
proof (rule gv_fsm_loop_b_stepI)
  fix s1 assume "gv_fsm_step_b e False False s = (s1, False)"
  from gv_fsm_step_b_state [OF this]
  have "m_gv_fsm_state s1 = 0 \<or> (m_gv_fsm_state s1 = 2 \<or> m_gv_fsm_state s1 = 6) \<or>
        (m_gv_fsm_state s1 = 3 \<or> m_gv_fsm_state s1 = 4) \<or> m_gv_fsm_state s1 = 7"
    by (cases "m_gv_fsm_state s" rule: gv_state_cases) auto
  then show "\<exists>s'. gv_fsm_loop_b e False False s1 = Some s'"
    using loop_b_from_ds0 loop_b_from_mem01 loop_b_from_ds12 loop_b_from_mem2 by blast
qed

lemma gv_fsm_loop_b_terminates:
  "\<exists>s'. gv_fsm_loop_b e ds t s = Some s'"
  by (rule gv_fsm_loop_b_stepI) (rule loop_b_from_any)

lemma advance_gv_fsm_b_total:
  "\<exists>s'. advance_gv_fsm_b e ds t s = Some s' \<and> gv_state_valid (m_gv_fsm_state s')"
proof -
  obtain s1 where s1: "gv_fsm_loop_b e ds t s = Some s1"
    using gv_fsm_loop_b_terminates by blast
  with gv_fsm_loop_b_valid [OF s1] show ?thesis
    by (simp add: advance_gv_fsm_b_def)
qed

subsection \<open>The command state machine of the colour controller\<close>

lemma gv_fsm_loop_out:
  "gv_fsm_step e ds t s = Some (s', True) \<Longrightarrow> gv_fsm_loop e ds t s = Some s'"
  by (subst gv_fsm_loop.simps) simp

lemma gv_fsm_loop_next:
  "gv_fsm_step e ds t s = Some (s', False) \<Longrightarrow> gv_fsm_loop e ds t s = gv_fsm_loop e False False s'"
  by (subst gv_fsm_loop.simps) simp

lemma gv_fsm_loop_None:
  "gv_fsm_step e ds t s = None \<Longrightarrow> gv_fsm_loop e ds t s = None"
  by (subst gv_fsm_loop.simps) simp

lemma gv_fsm_step_invalid:
  "\<not> gv_state_valid (m_gv_fsm_state s) \<Longrightarrow>
   gv_fsm_step e ds t s =
     Some ((logerror (Invalid_state_reached (m_gv_fsm_state s)) s)\<lparr>m_gv_fsm_state := GV_STAT_RESET\<rparr>, False)"
  by (simp add: gv_fsm_step_def gv_state_valid_def Let_def)

lemma check_io_counter_restore_fields [simp]:
  "m_gv_fsm_state (check_io_counter_restore s) = m_gv_fsm_state s"
  "m_gv_gr_en (check_io_counter_restore s) = m_gv_gr_en s"
  "m_gv_cmd (check_io_counter_restore s) = m_gv_cmd s"
  "m_graphic_mem (check_io_counter_restore s) = m_graphic_mem s"
  "m_gv_timer (check_io_counter_restore s) = m_gv_timer s"
  "m_graphic_sel (check_io_counter_restore s) = m_graphic_sel s"
  by (simp_all add: check_io_counter_restore_def Let_def)

lemma advance_io_counter_fields [simp]:
  "m_gv_fsm_state (advance_io_counter s) = m_gv_fsm_state s"
  "m_gv_gr_en (advance_io_counter s) = m_gv_gr_en s"
  "m_gv_cmd (advance_io_counter s) = m_gv_cmd s"
  "m_graphic_mem (advance_io_counter s) = m_graphic_mem s"
  "m_gv_timer (advance_io_counter s) = m_gv_timer s"
  "m_graphic_sel (advance_io_counter s) = m_graphic_sel s"
  by (simp_all add: advance_io_counter_def Let_def)

lemma gv_load_param_fields [simp]:
  "m_gv_fsm_state (gv_load_param s) = m_gv_fsm_state s"
  "m_gv_gr_en (gv_load_param s) = m_gv_gr_en s"
  "m_gv_cmd (gv_load_param s) = m_gv_cmd s"
  "m_graphic_mem (gv_load_param s) = m_graphic_mem s"
  "m_gv_timer (gv_load_param s) = m_gv_timer s"
  by (simp_all add: gv_load_param_def Let_def logerror_def)

text \<open>What a pass of the colour loop can do to the state variable.\<close>

lemma gv_fsm_step_state:
  assumes "gv_fsm_step e ds t s = Some (s1, go)"
  shows "if go then gv_state_valid (m_gv_fsm_state s1)
         else (m_gv_fsm_state s = 0 \<longrightarrow> m_gv_fsm_state s1 = 2 \<or> (ds \<and> (m_gv_fsm_state s1 = 1 \<or> m_gv_fsm_state s1 = 5))) \<and>
              (m_gv_fsm_state s = 1 \<longrightarrow> m_gv_fsm_state s1 = 4) \<and>
              (m_gv_fsm_state s = 2 \<longrightarrow> m_gv_fsm_state s1 = 3) \<and>
              (m_gv_fsm_state s = 3 \<longrightarrow> ds \<and> m_gv_fsm_state s1 = 2) \<and>
              (m_gv_fsm_state s = 4 \<longrightarrow> ds \<and> m_gv_fsm_state s1 = 5) \<and>
              (m_gv_fsm_state s = 5 \<longrightarrow> m_gv_fsm_state s1 = 7 \<or> m_gv_fsm_state s1 = 0 \<or>
                 m_gv_fsm_state s1 = 6 \<or> m_gv_fsm_state s1 = 5) \<and>
              (m_gv_fsm_state s = 6 \<longrightarrow> m_gv_fsm_state s1 = 4) \<and>
              (m_gv_fsm_state s = 7 \<longrightarrow> m_gv_fsm_state s1 = 0) \<and>
              (\<not> gv_state_valid (m_gv_fsm_state s) \<longrightarrow> m_gv_fsm_state s1 = 0)"
proof (cases "m_gv_fsm_state s" rule: gv_state_cases)
  case 9
  with assms show ?thesis by (auto simp add: gv_fsm_step_invalid gv_state_valid_def)
qed (use assms in \<open>auto simp add: gv_fsm_step_def Let_def gv_state_valid_def split: if_splits option.splits\<close>)

lemma gv_fsm_loop_last_step:
  assumes "gv_fsm_loop e ds t s = Some s'"
  shows "\<exists>ds0 t0 s0. gv_fsm_step e ds0 t0 s0 = Some (s', True)"
  using assms
proof (induction e ds t s s' rule: gv_fsm_loop.raw_induct [rotated 1, consumes 1])
  case (1 loop e ds t s s')
  show ?case
  proof (cases "gv_fsm_step e ds t s")
    case None
    with 1(2) show ?thesis by simp
  next
    case (Some p)
    obtain s1 go where p: "p = (s1, go)" by (cases p)
    show ?thesis
    proof (cases go)
      case True
      with Some p 1(2) show ?thesis by auto
    next
      case False
      with Some p 1(2) have "loop e False False s1 = Some s'" by simp
      then show ?thesis by (rule 1(1))
    qed
  qed
qed

lemma gv_fsm_loop_valid:
  assumes "gv_fsm_loop e ds t s = Some s'"
  shows "gv_state_valid (m_gv_fsm_state s')"
proof -
  from gv_fsm_loop_last_step [OF assms] obtain ds0 t0 s0
    where "gv_fsm_step e ds0 t0 s0 = Some (s', True)" by blast
  from gv_fsm_step_state [OF this] show ?thesis by simp
qed

lemma gv_fsm_step_wait_ds:
  "m_gv_fsm_state s = 3 \<or> m_gv_fsm_state s = 4 \<Longrightarrow> gv_fsm_step e False t s = Some (s, True)"
  by (erule disjE) (simp_all add: gv_fsm_step_def Let_def)

lemma gv_fsm_step_wait_mem_0:
  "m_gv_fsm_state s = 2 \<Longrightarrow>
   gv_fsm_step e ds t s =
     (if time_to_gv_mem_availability e s = 0 then
        Some ((advance_io_counter
                 (s\<lparr>m_gv_data_r := m_graphic_mem s (unat (m_gv_plane s)) (unat (m_gv_io_counter s))\<rparr>))
                \<lparr>m_gv_fsm_state := GV_STAT_WAIT_DS_1\<rparr>, False)
      else Some (s\<lparr>m_gv_timer := Some (time_to_gv_mem_availability e s)\<rparr>, True))"
  by (simp add: gv_fsm_step_def Let_def)

lemma gv_fsm_step_wait_ds_0_idle:
  "m_gv_fsm_state s = 0 \<Longrightarrow>
   gv_fsm_step e False t s =
     (if m_gv_cmd s = 1 then
        Some ((check_io_counter_restore s)\<lparr>m_gv_fsm_state := GV_STAT_WAIT_MEM_0, m_gv_last_cmd := m_gv_cmd s\<rparr>, False)
      else Some (s, True))"
  by (simp add: gv_fsm_step_def Let_def)

lemma time_to_gv_mem_availability_cong:
  "m_graphic_sel s' = m_graphic_sel s \<Longrightarrow> time_to_gv_mem_availability e s' = time_to_gv_mem_availability e s"
  by (simp add: time_to_gv_mem_availability_def)

text \<open>The loop entered in the initial state without data strobe: what it returns.\<close>

lemma gv_fsm_loop_from_reset:
  assumes "m_gv_fsm_state s = 0"
  shows "gv_fsm_loop e False t s =
     Some (if m_gv_cmd s = 1 then
             (let s1 = (check_io_counter_restore s)\<lparr>m_gv_fsm_state := GV_STAT_WAIT_MEM_0, m_gv_last_cmd := m_gv_cmd s\<rparr>
              in if time_to_gv_mem_availability e s = 0 then
                   (advance_io_counter
                      (s1\<lparr>m_gv_data_r := m_graphic_mem s1 (unat (m_gv_plane s1)) (unat (m_gv_io_counter s1))\<rparr>))
                     \<lparr>m_gv_fsm_state := GV_STAT_WAIT_DS_1\<rparr>
                 else s1\<lparr>m_gv_timer := Some (time_to_gv_mem_availability e s)\<rparr>)
           else s)" (is "_ = ?rhs")
proof (cases "m_gv_cmd s = 1")
  case False
  with assms show ?thesis by (simp add: gv_fsm_loop_out gv_fsm_step_wait_ds_0_idle)
next
  case True
  define s1 where "s1 = (check_io_counter_restore s)\<lparr>m_gv_fsm_state := GV_STAT_WAIT_MEM_0, m_gv_last_cmd := m_gv_cmd s\<rparr>"
  have t: "time_to_gv_mem_availability e s1 = time_to_gv_mem_availability e s"
    by (rule time_to_gv_mem_availability_cong) (simp add: s1_def)
  have 1: "gv_fsm_loop e False t s = gv_fsm_loop e False False s1"
    using assms True by (simp add: gv_fsm_loop_next gv_fsm_step_wait_ds_0_idle s1_def)
  have st: "m_gv_fsm_state s1 = 2" by (simp add: s1_def)
  show ?thesis
  proof (cases "time_to_gv_mem_availability e s = 0")
    case False
    have "gv_fsm_loop e False False s1 = Some (s1\<lparr>m_gv_timer := Some (time_to_gv_mem_availability e s)\<rparr>)"
      using st t False by (simp add: gv_fsm_loop_out gv_fsm_step_wait_mem_0)
    then have "gv_fsm_loop e False t s = Some (s1\<lparr>m_gv_timer := Some (time_to_gv_mem_availability e s)\<rparr>)"
      using 1 by (rule_tac trans)
    moreover have "?rhs = Some (s1\<lparr>m_gv_timer := Some (time_to_gv_mem_availability e s)\<rparr>)"
      using True False by (simp add: Let_def s1_def)
    ultimately show ?thesis by (rule_tac trans [OF _ sym])
  next
    case av: True
    define s2 where "s2 = (advance_io_counter
                      (s1\<lparr>m_gv_data_r := m_graphic_mem s1 (unat (m_gv_plane s1)) (unat (m_gv_io_counter s1))\<rparr>))
                     \<lparr>m_gv_fsm_state := GV_STAT_WAIT_DS_1\<rparr>"
    have "gv_fsm_loop e False False s1 = gv_fsm_loop e False False s2"
      using st t av by (simp add: gv_fsm_loop_next gv_fsm_step_wait_mem_0 s2_def)
    also have "\<dots> = Some s2"
      by (rule gv_fsm_loop_out, rule gv_fsm_step_wait_ds) (simp add: s2_def)
    finally have "gv_fsm_loop e False False s1 = Some s2" .
    then have "gv_fsm_loop e False t s = Some s2"
      using 1 by (rule_tac trans)
    moreover have "?rhs = Some s2"
      using True av by (simp add: Let_def s1_def s2_def)
    ultimately show ?thesis by (rule_tac trans [OF _ sym])
  qed
qed

lemma gv_fsm_loop_from_invalid:
  assumes "\<not> gv_state_valid (m_gv_fsm_state s)"
  shows "gv_fsm_loop e ds t s =
           gv_fsm_loop e False False
             ((logerror (Invalid_state_reached (m_gv_fsm_state s)) s)\<lparr>m_gv_fsm_state := GV_STAT_RESET\<rparr>)"
  by (rule gv_fsm_loop_next, rule gv_fsm_step_invalid, rule assms)

lemma advance_gv_fsm_from_invalid:
  assumes "\<not> gv_state_valid (m_gv_fsm_state s)" and "m_gv_gr_en s"
  shows "\<exists>s'. advance_gv_fsm e ds t s = Some s' \<and> gv_state_valid (m_gv_fsm_state s')"
proof -
  define s0 where "s0 = (logerror (Invalid_state_reached (m_gv_fsm_state s)) s)\<lparr>m_gv_fsm_state := GV_STAT_RESET\<rparr>"
  have "m_gv_fsm_state s0 = 0" by (simp add: s0_def)
  from gv_fsm_loop_from_reset [OF this, of e False]
  obtain s1 where s1: "gv_fsm_loop e False False s0 = Some s1" by blast
  then have "gv_fsm_loop e ds t s = Some s1"
    using gv_fsm_loop_from_invalid [OF assms(1), of e ds t] by (simp add: s0_def)
  with gv_fsm_loop_valid [OF this] assms(2) show ?thesis
    by (simp add: advance_gv_fsm_def)
qed

lemma advance_gv_fsm_valid:
  assumes "m_gv_gr_en s" and "advance_gv_fsm e ds t s = Some s'"
  shows "gv_state_valid (m_gv_fsm_state s')"
proof -
  from assms obtain s1 where "gv_fsm_loop e ds t s = Some s1" and "s' = update_graphic_bits s1"
    by (cases "gv_fsm_loop e ds t s") (simp_all add: advance_gv_fsm_def)
  with gv_fsm_loop_valid [of e ds t s s1] show ?thesis by simp
qed

lemma advance_gv_fsm_disabled:
  "\<not> m_gv_gr_en s \<Longrightarrow> advance_gv_fsm e ds t s = Some s"
  by (simp add: advance_gv_fsm_def)

lemmas draw_line_loop_induct =
  draw_line_loop.raw_induct [where xa = "((((((((((plotf, x1), y1), dx), dy), sx), sy), x), y), err), s)",
    simplified, rotated 1, consumes 1] for plotf x1 y1 dx dy sx sy x y err s

lemmas pattern_fill_cols_induct =
  pattern_fill_cols.raw_induct [where xa = "(((((plotf, fill_mask), xmax), y), x), s)",
    simplified, rotated 1, consumes 1] for plotf fill_mask xmax y x s

lemmas pattern_fill_rows_induct =
  pattern_fill_rows.raw_induct [where xa = "(((((plotf, xmax), ymax), y), x), s)",
    simplified, rotated 1, consumes 1] for plotf xmax ymax y x s

lemma draw_line_loop_inv:
  assumes "draw_line_loop plotf x1 y1 dx dy sx sy x y err s = Some s'"
    and "P s"
    and "\<And>x y d s. P s \<Longrightarrow> P (plotf x y d s)"
    and "\<And>s. P s \<Longrightarrow> P (update_line_pattern s)"
  shows "P s'"
  using assms
proof (induction rule: draw_line_loop_induct)
  case (1 loop plotf x1 y1 dx dy sx sy x y err s s')
  let ?s2 = "update_line_pattern (plotf (word_of_int x) (word_of_int y) (bit (m_gv_line_type_mask s) 15) s)"
  have P2: "P ?s2" using 1(3,4,5) by simp
  show ?case
  proof (cases "(word_of_int x :: 32 word) = x1 \<and> (word_of_int y :: 32 word) = y1")
    case True
    with 1(2) P2 show ?thesis by (simp add: Let_def)
  next
    case False
    with 1(2) have "loop plotf x1 y1 dx dy sx sy
       (if err > - dx then x + sx else x)
       (if err < dy then y + sy else y)
       (if err < dy then (if err > - dx then err - dy else err) + dx
        else (if err > - dx then err - dy else err)) ?s2 = Some s'"
      by (auto simp add: Let_def)
    then show ?thesis using P2 1(4,5) by (rule 1(1))
  qed
qed

lemma draw_line_inv:
  assumes "draw_line plotf x0 y0 x1 y1 s = Some s'"
    and "P s"
    and "\<And>x y d s. P s \<Longrightarrow> P (plotf x y d s)"
    and "\<And>s. P s \<Longrightarrow> P (update_line_pattern s)"
  shows "P s'"
  using assms(1) unfolding draw_line_def Let_def
  by (rule draw_line_loop_inv) (fact assms)+

lemma pattern_fill_cols_inv:
  assumes "pattern_fill_cols plotf fill_mask xmax y x s = Some r"
    and "P s"
    and "\<And>x y d s. P s \<Longrightarrow> P (plotf x y d s)"
  shows "P (snd r)"
  using assms
proof (induction rule: pattern_fill_cols_induct)
  case (1 loop plotf fill_mask xmax y x s r)
  show ?case
  proof (cases "x \<le> xmax")
    case True
    with 1(2) have "loop plotf fill_mask xmax y (x + 1)
        (plotf x y ((drop_bit (unat x mod 16) 0x8000 AND fill_mask) \<noteq> 0) s) = Some r"
      by (simp add: Let_def)
    moreover have "P (plotf x y ((drop_bit (unat x mod 16) 0x8000 AND fill_mask) \<noteq> 0) s)"
      using 1(3,4) by simp
    ultimately show ?thesis using 1(4) by (rule 1(1))
  next
    case False
    with 1(2,3) show ?thesis by auto
  qed
qed

lemma pattern_fill_rows_inv:
  assumes "pattern_fill_rows plotf xmax ymax y x s = Some s'"
    and "P s"
    and "\<And>x y d s. P s \<Longrightarrow> P (plotf x y d s)"
  shows "P s'"
  using assms
proof (induction rule: pattern_fill_rows_induct)
  case (1 loop plotf xmax ymax y x s s')
  show ?case
  proof (cases "y \<le> ymax")
    case False
    with 1(2,3) show ?thesis by simp
  next
    case True
    with 1(2) obtain x1 s1 where
      c: "pattern_fill_cols plotf (fill_mask_of (m_gv_line_type_area_fill s) y) xmax y x s = Some (x1, s1)"
      and l: "loop plotf xmax ymax (y + 1) x1 s1 = Some s'"
      by (auto simp add: Let_def split: option.splits)
    have "P (snd (x1, s1))" using c 1(3,4) by (rule pattern_fill_cols_inv)
    then have "P s1" by simp
    with l show ?thesis using 1(4) by (rule 1(1))
  qed
qed

lemma pattern_fill_inv:
  assumes "pattern_fill plotf x0 y0 x1 y1 s = Some s'"
    and "P s"
    and "\<And>x y d s. P s \<Longrightarrow> P (plotf x y d s)"
  shows "P s'"
  using assms(1) unfolding pattern_fill_def Let_def
  by (rule pattern_fill_rows_inv) (fact assms)+

lemma gv_fsm_loop_inv:
  assumes "gv_fsm_loop e ds t s = Some s'"
    and "P s"
    and "\<And>ds t s s1 go. P s \<Longrightarrow> gv_fsm_step e ds t s = Some (s1, go) \<Longrightarrow> P s1"
  shows "P s'"
  using assms
proof (induction e ds t s s' rule: gv_fsm_loop.raw_induct [rotated 1, consumes 1])
  case (1 loop e ds t s s')
  show ?case
  proof (cases "gv_fsm_step e ds t s")
    case None
    with 1(2) show ?thesis by simp
  next
    case (Some p)
    obtain s1 go where p: "p = (s1, go)" by (cases p)
    have P1: "P s1" using 1(3) Some p 1(4) by blast
    show ?thesis
    proof (cases go)
      case True
      with Some p 1(2) P1 show ?thesis by auto
    next
      case False
      with Some p 1(2) have "loop e False False s1 = Some s'" by simp
      then show ?thesis using P1 1(4) by (rule 1(1))
    qed
  qed
qed

text \<open>Members that \<open>plot\<close> and the pattern update leave alone.\<close>

lemma plot_frame:
  "m_gv_gr_en (plot x y d s) = m_gv_gr_en s"
  "m_gv_plane (plot x y d s) = m_gv_plane s"
  "m_gv_io_counter (plot x y d s) = m_gv_io_counter s"
  by (simp_all add: plot_def plot_plane_def Let_def)

lemma update_line_pattern_frame:
  "m_gv_gr_en (update_line_pattern s) = m_gv_gr_en s"
  "m_gv_plane (update_line_pattern s) = m_gv_plane s"
  "m_gv_io_counter (update_line_pattern s) = m_gv_io_counter s"
  by (simp_all add: update_line_pattern_def Let_def)

lemma gv_vector_call_inv:
  assumes "gv_vector_call s = Some s'"
    and "P s"
    and "\<And>x y d s. P s \<Longrightarrow> P (plot x y d s)"
    and "\<And>s. P s \<Longrightarrow> P (update_line_pattern s)"
  shows "P s'"
proof (cases "bit (m_gv_line_type_area_fill s) 4")
  case False
  with assms(1) have "pattern_fill plot (m_gv_xpt s) (m_gv_ypt s) (m_gv_last_xpt s) (m_gv_last_ypt s) s = Some s'"
    by (simp add: gv_vector_call_def)
  then show ?thesis using assms(2,3) by (rule pattern_fill_inv)
next
  case True
  with assms(1) obtain x0 y0 x1 y1 where "draw_line plot x0 y0 x1 y1 s = Some s'"
    by (auto simp add: gv_vector_call_def split: if_splits)
  then show ?thesis using assms(2,3,4) by (rule draw_line_inv)
qed

lemma gv_fsm_step_wait_mem_2:
  "m_gv_fsm_state s = 7 \<Longrightarrow>
   gv_fsm_step e ds t s =
     (if time_to_gv_mem_availability e s = 0 then
        (case gv_vector_call s of
           None \<Rightarrow> None
         | Some s1 \<Rightarrow> Some (s1\<lparr>m_gv_last_xpt := m_gv_xpt s1, m_gv_last_ypt := m_gv_ypt s1,
                                m_gv_fsm_state := GV_STAT_WAIT_DS_0\<rparr>, False))
      else Some (s\<lparr>m_gv_timer := Some (time_to_gv_mem_availability e s)\<rparr>, True))"
  by (simp add: gv_fsm_step_def gv_vector_call_def Let_def)

lemma gv_fsm_step_gr_en:
  assumes "gv_fsm_step e ds t s = Some (s1, go)"
  shows "m_gv_gr_en s1 = m_gv_gr_en s"
proof (cases "m_gv_fsm_state s" rule: gv_state_cases)
  case 8
  show ?thesis
  proof (cases "time_to_gv_mem_availability e s = 0")
    case False
    with assms 8 show ?thesis by (auto simp add: gv_fsm_step_wait_mem_2)
  next
    case True
    with assms 8 obtain s2 where v: "gv_vector_call s = Some s2"
      and s1: "s1 = s2\<lparr>m_gv_last_xpt := m_gv_xpt s2, m_gv_last_ypt := m_gv_ypt s2,
                                m_gv_fsm_state := GV_STAT_WAIT_DS_0\<rparr>"
      by (auto simp add: gv_fsm_step_wait_mem_2 split: option.splits)
    have "m_gv_gr_en s2 = m_gv_gr_en s"
      using v by (rule gv_vector_call_inv) (simp_all add: plot_frame update_line_pattern_frame)
    then show ?thesis by (simp add: s1)
  qed
next
  case 9
  with assms show ?thesis by (auto simp add: gv_fsm_step_invalid logerror_def)
qed (use assms in \<open>auto simp add: gv_fsm_step_def Let_def split: if_splits\<close>)

lemma gv_fsm_loop_gr_en:
  assumes "gv_fsm_loop e ds t s = Some s'"
  shows "m_gv_gr_en s' = m_gv_gr_en s"
  using assms by (rule gv_fsm_loop_inv) (simp_all add: gv_fsm_step_gr_en)

lemma lp_r5_w_fields [simp]:
  "m_gv_fsm_state (lp_r5_w d s) = m_gv_fsm_state s"
  "m_gv_timer (lp_r5_w d s) = m_gv_timer s"
  "m_gv_cmd (lp_r5_w d s) = m_gv_cmd s"
  "m_gv_gr_en (lp_r5_w d s) = m_gv_gr_en s"
  "hp9845ct_state.more (lp_r5_w d s) = hp9845ct_state.more s"
  by (simp_all add: lp_r5_w_def Let_def)

lemma c_more_fields [simp]:
  "m_graphic_mem (update_graphic_bits s) = m_graphic_mem s"
  "m_gv_plane (update_graphic_bits s) = m_gv_plane s"
  "m_gv_plane_wrap (update_graphic_bits s) = m_gv_plane_wrap s"
  "m_graphic_mem (lp_r5_w d s) = m_graphic_mem s"
  by (simp_all add: update_graphic_bits_def lp_r5_w_def line_defs)

text \<open>
  C4, as amended. Monochrome controller: every call of \<open>advance_gv_fsm\<close> returns, and
  then the flag line (bit 13 of \<open>m_flg_status\<close>) is asserted exactly when the state is
  WAIT_DS_0, WAIT_DS_1 or WAIT_DS_2. Colour controller: after a call made with graphics
  enabled (\<open>m_gv_gr_en\<close>) that returns, the flag line is asserted exactly when a
  light-pen service request is pending and enabled (\<open>m_gv_lp_int_en\<close> and
  \<open>m_gv_lp_status\<close>) or the state is WAIT_DS_0, WAIT_TRIG_0, WAIT_DS_1, WAIT_DS_2 or
  WAIT_TRIG_1; a call made with graphics disabled returns at once and leaves the lines
  as they are. On both controllers the interrupt request (bit 5 of \<open>m_irh_pending\<close>)
  that the call computes is: flag asserted, interrupts enabled and DMA not enabled.
\<close>

theorem ready_and_irq_after_advance:
  "(\<exists>sb'. advance_gv_fsm_b e ds t sb = Some sb' \<and>
      (bit (m_flg_status sb') 13 \<longleftrightarrow>
         m_gv_fsm_state sb' = GV_STAT_WAIT_DS_0 \<or> m_gv_fsm_state sb' = GV_STAT_WAIT_DS_1 \<or>
         m_gv_fsm_state sb' = GV_STAT_WAIT_DS_2) \<and>
      (bit (m_irh_pending sb') 5 \<longleftrightarrow>
         bit (m_flg_status sb') 13 \<and> m_gv_int_en sb' \<and> \<not> m_gv_dma_en sb')) \<and>
   (m_gv_gr_en sc \<longrightarrow> advance_gv_fsm e ds t sc = Some sc' \<longrightarrow>
      (bit (m_flg_status sc') 13 \<longleftrightarrow>
         (m_gv_lp_int_en sc' \<and> m_gv_lp_status sc') \<or>
         m_gv_fsm_state sc' = GV_STAT_WAIT_DS_0 \<or> m_gv_fsm_state sc' = GV_STAT_WAIT_TRIG_0 \<or>
         m_gv_fsm_state sc' = GV_STAT_WAIT_DS_1 \<or> m_gv_fsm_state sc' = GV_STAT_WAIT_DS_2 \<or>
         m_gv_fsm_state sc' = GV_STAT_WAIT_TRIG_1) \<and>
      (bit (m_irh_pending sc') 5 \<longleftrightarrow>
         bit (m_flg_status sc') 13 \<and> m_gv_int_en sc' \<and> \<not> m_gv_dma_en sc')) \<and>
   (\<not> m_gv_gr_en sd \<longrightarrow> advance_gv_fsm e ds t sd = Some sd)"
proof (intro conjI impI)
  obtain s1 where s1: "gv_fsm_loop_b e ds t sb = Some s1"
    using gv_fsm_loop_b_terminates by blast
  show "\<exists>sb'. advance_gv_fsm_b e ds t sb = Some sb' \<and>
      (bit (m_flg_status sb') 13 \<longleftrightarrow>
         m_gv_fsm_state sb' = GV_STAT_WAIT_DS_0 \<or> m_gv_fsm_state sb' = GV_STAT_WAIT_DS_1 \<or>
         m_gv_fsm_state sb' = GV_STAT_WAIT_DS_2) \<and>
      (bit (m_irh_pending sb') 5 \<longleftrightarrow>
         bit (m_flg_status sb') 13 \<and> m_gv_int_en sb' \<and> \<not> m_gv_dma_en sb')"
    using s1 by (simp add: advance_gv_fsm_b_def update_graphic_bits_b_ready update_graphic_bits_b_irq)
next
  assume en: "m_gv_gr_en sc" and adv: "advance_gv_fsm e ds t sc = Some sc'"
  then obtain s1 where s1: "gv_fsm_loop e ds t sc = Some s1" and sc': "sc' = update_graphic_bits s1"
    by (cases "gv_fsm_loop e ds t sc") (simp_all add: advance_gv_fsm_def)
  have "m_gv_gr_en s1" using gv_fsm_loop_gr_en [OF s1] en by simp
  show "bit (m_flg_status sc') 13 \<longleftrightarrow>
         (m_gv_lp_int_en sc' \<and> m_gv_lp_status sc') \<or>
         m_gv_fsm_state sc' = GV_STAT_WAIT_DS_0 \<or> m_gv_fsm_state sc' = GV_STAT_WAIT_TRIG_0 \<or>
         m_gv_fsm_state sc' = GV_STAT_WAIT_DS_1 \<or> m_gv_fsm_state sc' = GV_STAT_WAIT_DS_2 \<or>
         m_gv_fsm_state sc' = GV_STAT_WAIT_TRIG_1"
    using \<open>m_gv_gr_en s1\<close> by (simp add: sc' update_graphic_bits_ready)
  show "bit (m_irh_pending sc') 5 \<longleftrightarrow>
         bit (m_flg_status sc') 13 \<and> m_gv_int_en sc' \<and> \<not> m_gv_dma_en sc'"
    by (simp add: sc' update_graphic_bits_irq)
next
  assume "\<not> m_gv_gr_en sd"
  then show "advance_gv_fsm e ds t sd = Some sd" by (rule advance_gv_fsm_disabled)
qed


lemma zero_c_loop_idle:
  "m_gv_fsm_state s = 0 \<Longrightarrow> m_gv_cmd s \<noteq> 1 \<Longrightarrow> gv_fsm_loop e False t s = Some s"
  by (simp add: gv_fsm_loop_from_reset)

theorem ready_and_irq_after_advance_witness:
  "m_gv_gr_en (zero_c\<lparr>m_gv_gr_en := True\<rparr>) \<and>
   advance_gv_fsm (const_env 0 0) False False (zero_c\<lparr>m_gv_gr_en := True\<rparr>) =
     Some (update_graphic_bits (zero_c\<lparr>m_gv_gr_en := True\<rparr>)) \<and>
   bit (m_flg_status (update_graphic_bits (zero_c\<lparr>m_gv_gr_en := True\<rparr>))) 13 \<and>
   \<not> m_gv_gr_en zero_c \<and>
   advance_gv_fsm (const_env 0 0) False False zero_c = Some zero_c"
proof -
  have 1: "m_gv_gr_en (zero_c\<lparr>m_gv_gr_en := True\<rparr>)" by simp
  have 2: "advance_gv_fsm (const_env 0 0) False False (zero_c\<lparr>m_gv_gr_en := True\<rparr>) =
     Some (update_graphic_bits (zero_c\<lparr>m_gv_gr_en := True\<rparr>))"
    by (simp add: advance_gv_fsm_def zero_c_loop_idle zero_c_def)
  have 3: "\<not> m_gv_gr_en zero_c" by (simp add: zero_c_def)
  from ready_and_irq_after_advance [of "const_env 0 0" False False zero_b
      "zero_c\<lparr>m_gv_gr_en := True\<rparr>" "update_graphic_bits (zero_c\<lparr>m_gv_gr_en := True\<rparr>)" zero_c]
    1 2 3
  show ?thesis by (simp add: zero_c_def)
qed

text \<open>
  The claim as stated fails on the colour controller: with a light-pen request pending,
  a call that leaves the state machine waiting for the memory in WAIT_MEM_1 asserts the
  flag line (\<open>0x2000\<close> is bit 13).
\<close>

theorem ready_without_ready_state_counterexample:
  "map_option m_gv_fsm_state (advance_gv_fsm (const_env 0 100) False False lp_request_pending) =
     Some GV_STAT_WAIT_MEM_1 \<and>
   map_option m_flg_status (advance_gv_fsm (const_env 0 100) False False lp_request_pending) =
     Some 0x2000"
proof -
  have "gv_fsm_step (const_env 0 100) False False lp_request_pending =
          Some (lp_request_pending\<lparr>m_gv_timer := Some 5\<rparr>, True)"
    by (simp add: gv_fsm_step_def lp_request_pending_def zero_c_def Let_def
          time_to_gv_mem_availability_def const_env_def)
  then have "gv_fsm_loop (const_env 0 100) False False lp_request_pending =
          Some (lp_request_pending\<lparr>m_gv_timer := Some 5\<rparr>)"
    by (rule gv_fsm_loop_out)
  then show ?thesis
    by (simp add: advance_gv_fsm_def lp_request_pending_def zero_c_def update_graphic_bits_def
          line_defs bit_assign_def)
qed

text \<open>
  C6, as amended. On both controllers a pass through the \<open>switch\<close> that finds a state
  value outside the enumeration logs "Invalid state reached" and sets the state to RESET,
  without leaving the loop. On the monochrome controller every call of
  \<open>advance_gv_fsm\<close> returns with a state of the enumeration. On the colour controller
  this holds for every call made with graphics enabled (\<open>m_gv_gr_en\<close>): such a call
  returns whenever it starts from a value outside the enumeration, and whenever it
  returns the state is one of the enumeration. A call made with graphics disabled returns
  at once, without looking at the state or changing it.
\<close>

theorem invalid_state_forced_to_reset:
  "(\<not> gv_state_valid (m_gv_fsm_state sb) \<longrightarrow>
      gv_fsm_step_b e ds t sb =
        ((logerror (Invalid_state_reached (m_gv_fsm_state sb)) sb)\<lparr>m_gv_fsm_state := GV_STAT_RESET\<rparr>, False)) \<and>
   (\<exists>sb'. advance_gv_fsm_b e ds t sb = Some sb' \<and> gv_state_valid (m_gv_fsm_state sb')) \<and>
   (\<not> gv_state_valid (m_gv_fsm_state sc) \<longrightarrow>
      gv_fsm_step e ds t sc =
        Some ((logerror (Invalid_state_reached (m_gv_fsm_state sc)) sc)\<lparr>m_gv_fsm_state := GV_STAT_RESET\<rparr>, False)) \<and>
   (m_gv_gr_en sc \<longrightarrow> \<not> gv_state_valid (m_gv_fsm_state sc) \<longrightarrow>
      (\<exists>sc'. advance_gv_fsm e ds t sc = Some sc' \<and> gv_state_valid (m_gv_fsm_state sc'))) \<and>
   (m_gv_gr_en sc \<longrightarrow> advance_gv_fsm e ds t sc = Some sc' \<longrightarrow> gv_state_valid (m_gv_fsm_state sc')) \<and>
   (\<not> m_gv_gr_en sd \<longrightarrow> advance_gv_fsm e ds t sd = Some sd)"
  using gv_fsm_step_b_invalid [of sb e ds t] advance_gv_fsm_b_total [of e ds t sb]
    gv_fsm_step_invalid [of sc e ds t] advance_gv_fsm_from_invalid [of sc e ds t]
    advance_gv_fsm_valid [of sc e ds t sc'] advance_gv_fsm_disabled [of sd e ds t]
  by blast

theorem invalid_state_forced_to_reset_witness:
  "\<not> gv_state_valid (m_gv_fsm_state (zero_b\<lparr>m_gv_fsm_state := 99\<rparr>)) \<and>
   \<not> gv_state_valid (m_gv_fsm_state (zero_c\<lparr>m_gv_fsm_state := 99, m_gv_gr_en := True\<rparr>)) \<and>
   m_gv_gr_en (zero_c\<lparr>m_gv_fsm_state := 99, m_gv_gr_en := True\<rparr>) \<and>
   advance_gv_fsm (const_env 0 0) True False (zero_c\<lparr>m_gv_fsm_state := 99, m_gv_gr_en := True\<rparr>) =
     Some (update_graphic_bits
             ((logerror (Invalid_state_reached 99) (zero_c\<lparr>m_gv_fsm_state := 99, m_gv_gr_en := True\<rparr>))
                \<lparr>m_gv_fsm_state := GV_STAT_RESET\<rparr>)) \<and>
   gv_state_valid (m_gv_fsm_state (update_graphic_bits
             ((logerror (Invalid_state_reached 99) (zero_c\<lparr>m_gv_fsm_state := 99, m_gv_gr_en := True\<rparr>))
                \<lparr>m_gv_fsm_state := GV_STAT_RESET\<rparr>))) \<and>
   \<not> m_gv_gr_en (zero_c\<lparr>m_gv_fsm_state := 99\<rparr>) \<and>
   advance_gv_fsm (const_env 0 0) True False (zero_c\<lparr>m_gv_fsm_state := 99\<rparr>) =
     Some (zero_c\<lparr>m_gv_fsm_state := 99\<rparr>)"
proof -
  let ?sc = "zero_c\<lparr>m_gv_fsm_state := 99, m_gv_gr_en := True\<rparr>"
  let ?s0 = "(logerror (Invalid_state_reached 99) ?sc)\<lparr>m_gv_fsm_state := GV_STAT_RESET\<rparr>"
  have h1: "\<not> gv_state_valid (m_gv_fsm_state (zero_b\<lparr>m_gv_fsm_state := 99\<rparr>))"
    by (simp add: gv_state_valid_def)
  have h2: "\<not> gv_state_valid (m_gv_fsm_state ?sc)" by (simp add: gv_state_valid_def)
  have h3: "m_gv_gr_en ?sc" by simp
  have "gv_fsm_loop (const_env 0 0) True False ?sc = gv_fsm_loop (const_env 0 0) False False ?s0"
    using gv_fsm_loop_from_invalid [OF h2, of "const_env 0 0" True False] by simp
  also have "\<dots> = Some ?s0"
    by (rule zero_c_loop_idle) (simp_all add: logerror_def zero_c_def)
  finally have h4: "advance_gv_fsm (const_env 0 0) True False ?sc = Some (update_graphic_bits ?s0)"
    by (simp add: advance_gv_fsm_def)
  have h5: "\<not> m_gv_gr_en (zero_c\<lparr>m_gv_fsm_state := 99\<rparr>)" by (simp add: zero_c_def)
  from invalid_state_forced_to_reset [of "zero_b\<lparr>m_gv_fsm_state := 99\<rparr>" "const_env 0 0" True False
      ?sc "update_graphic_bits ?s0" "zero_c\<lparr>m_gv_fsm_state := 99\<rparr>"] h1 h2 h3 h4 h5
  show ?thesis by simp
qed

text \<open>
  The claim as stated fails on the colour controller with graphics disabled: the value 99
  is still there after the call.
\<close>

theorem invalid_state_kept_counterexample:
  "map_option m_gv_fsm_state
     (advance_gv_fsm (const_env 0 0) False False (zero_c\<lparr>m_gv_fsm_state := 99\<rparr>)) = Some 99 \<and>
   \<not> gv_state_valid 99"
  by (simp add: advance_gv_fsm_def zero_c_def gv_state_valid_def)

lemma gv_fsm_step_b_wait_ds:
  "m_gv_fsm_state s = 3 \<Longrightarrow> gv_fsm_step_b e False t s = (s, True)"
  by (simp add: gv_fsm_step_b_def Let_def)

lemma gv_fsm_step_b_wait_mem_0:
  "m_gv_fsm_state s = 2 \<Longrightarrow>
   gv_fsm_step_b e ds t s =
     (if time_to_gv_mem_availability e s = 0 then
        (s\<lparr>m_gv_data_r := m_graphic_mem_b s (unat (m_gv_io_counter s)),
           m_gv_io_counter := (m_gv_io_counter s + 1) AND GVIDEO_ADDR_MASK,
           m_gv_fsm_state := GV_STAT_WAIT_DS_1\<rparr>, False)
      else (s\<lparr>m_gv_timer := Some (time_to_gv_mem_availability e s)\<rparr>, True))"
  by (simp add: gv_fsm_step_b_def Let_def)

lemma gv_fsm_step_b_wait_ds_0_idle:
  "m_gv_fsm_state s = 0 \<Longrightarrow>
   gv_fsm_step_b e False t s =
     (if m_gv_cmd s AND 0xc = 0xc then (s\<lparr>m_gv_fsm_state := GV_STAT_WAIT_MEM_0\<rparr>, False)
      else (s, True))"
  by (simp add: gv_fsm_step_b_def Let_def)

lemma gv_fsm_loop_b_from_reset:
  assumes "m_gv_fsm_state s = 0"
  shows "gv_fsm_loop_b e False t s =
     Some (if m_gv_cmd s AND 0xc = 0xc then
             (if time_to_gv_mem_availability e s = 0 then
                s\<lparr>m_gv_data_r := m_graphic_mem_b s (unat (m_gv_io_counter s)),
                   m_gv_io_counter := (m_gv_io_counter s + 1) AND GVIDEO_ADDR_MASK,
                   m_gv_fsm_state := GV_STAT_WAIT_DS_1\<rparr>
              else s\<lparr>m_gv_fsm_state := GV_STAT_WAIT_MEM_0,
                     m_gv_timer := Some (time_to_gv_mem_availability e s)\<rparr>)
           else s)" (is "_ = ?rhs")
proof (cases "m_gv_cmd s AND 0xc = 0xc")
  case False
  with assms have "gv_fsm_step_b e False t s = (s, True)" by (simp add: gv_fsm_step_b_wait_ds_0_idle)
  then have "gv_fsm_loop_b e False t s = Some s" by (rule gv_fsm_loop_b_out)
  with False show ?thesis by simp
next
  case True
  define s1 where "s1 = s\<lparr>m_gv_fsm_state := GV_STAT_WAIT_MEM_0\<rparr>"
  have t: "time_to_gv_mem_availability e s1 = time_to_gv_mem_availability e s"
    by (rule time_to_gv_mem_availability_cong) (simp add: s1_def)
  have "gv_fsm_step_b e False t s = (s1, False)"
    using assms True by (simp add: gv_fsm_step_b_wait_ds_0_idle s1_def)
  then have 1: "gv_fsm_loop_b e False t s = gv_fsm_loop_b e False False s1" by (rule gv_fsm_loop_b_next)
  have st: "m_gv_fsm_state s1 = 2" by (simp add: s1_def)
  show ?thesis
  proof (cases "time_to_gv_mem_availability e s = 0")
    case False
    have "gv_fsm_step_b e False False s1 = (s1\<lparr>m_gv_timer := Some (time_to_gv_mem_availability e s)\<rparr>, True)"
      using st t False by (simp add: gv_fsm_step_b_wait_mem_0)
    then have "gv_fsm_loop_b e False False s1 = Some (s1\<lparr>m_gv_timer := Some (time_to_gv_mem_availability e s)\<rparr>)"
      by (rule gv_fsm_loop_b_out)
    then have "gv_fsm_loop_b e False t s = Some (s1\<lparr>m_gv_timer := Some (time_to_gv_mem_availability e s)\<rparr>)"
      using 1 by (rule_tac trans)
    moreover have "?rhs = Some (s1\<lparr>m_gv_timer := Some (time_to_gv_mem_availability e s)\<rparr>)"
      using True False by (simp add: s1_def)
    ultimately show ?thesis by (rule_tac trans [OF _ sym])
  next
    case av: True
    define s2 where "s2 = s1\<lparr>m_gv_data_r := m_graphic_mem_b s1 (unat (m_gv_io_counter s1)),
           m_gv_io_counter := (m_gv_io_counter s1 + 1) AND GVIDEO_ADDR_MASK,
           m_gv_fsm_state := GV_STAT_WAIT_DS_1\<rparr>"
    have "gv_fsm_step_b e False False s1 = (s2, False)"
      using st t av by (simp add: gv_fsm_step_b_wait_mem_0 s2_def)
    then have "gv_fsm_loop_b e False False s1 = gv_fsm_loop_b e False False s2"
      by (rule gv_fsm_loop_b_next)
    also have "\<dots> = Some s2"
      by (rule gv_fsm_loop_b_out, rule gv_fsm_step_b_wait_ds) (simp add: s2_def)
    finally have "gv_fsm_loop_b e False False s1 = Some s2" .
    then have "gv_fsm_loop_b e False t s = Some s2"
      using 1 by (rule_tac trans)
    moreover have "?rhs = Some s2"
      using True av by (simp add: s1_def s2_def)
    ultimately show ?thesis by (rule_tac trans [OF _ sym])
  qed
qed

lemma reset_write_c:
  assumes "bit data 5"
  shows "\<exists>s'. graphic_w e 1 data s = Some s' \<and>
           m_graphic_mem s' = m_graphic_mem s \<and>
           (m_gv_timer s \<noteq> None \<longrightarrow> m_gv_timer s' \<noteq> None) \<and>
           (m_gv_fsm_state s' \<noteq> GV_STAT_WAIT_MEM_0 \<longrightarrow> m_gv_timer s' = m_gv_timer s) \<and>
           (if m_gv_gr_en s' \<and> m_gv_cmd s' = 1
            then m_gv_fsm_state s' = GV_STAT_WAIT_MEM_0 \<or> m_gv_fsm_state s' = GV_STAT_WAIT_DS_1
            else m_gv_fsm_state s' = GV_STAT_RESET)"
proof -
  define s2 where "s2 = s\<lparr>m_gv_cmd := ucast (data AND 0xf),
                     m_gv_dma_en := bit data 6,
                     m_gv_int_en := bit data 7,
                     m_gv_gr_en := bit data 8,
                     m_gv_sk_en := bit data 9,
                     m_gv_opt_en := bit data 11,
                     m_gv_dsa_en := bit data 12,
                     m_gv_fsm_state := GV_STAT_RESET\<rparr>"
  have gw: "graphic_w e 1 data s = map_option (lp_r5_w data) (advance_gv_fsm e False False s2)"
    using assms by (simp add: graphic_w_def Let_def s2_def)
  have st: "m_gv_fsm_state s2 = 0" by (simp add: s2_def)
  have s2: "m_graphic_mem s2 = m_graphic_mem s" "m_gv_timer s2 = m_gv_timer s" by (simp_all add: s2_def)
  obtain l where l: "gv_fsm_loop e False False s2 = Some l"
    and lm: "m_graphic_mem l = m_graphic_mem s2"
    and lt: "m_gv_timer s2 \<noteq> None \<longrightarrow> m_gv_timer l \<noteq> None"
    and lt': "m_gv_fsm_state l \<noteq> GV_STAT_WAIT_MEM_0 \<longrightarrow> m_gv_timer l = m_gv_timer s2"
    and lg: "m_gv_gr_en l = m_gv_gr_en s2" and lc: "m_gv_cmd l = m_gv_cmd s2"
    and ls: "if m_gv_cmd s2 = 1
            then m_gv_fsm_state l = GV_STAT_WAIT_MEM_0 \<or> m_gv_fsm_state l = GV_STAT_WAIT_DS_1
            else m_gv_fsm_state l = GV_STAT_RESET"
    using st by (simp add: gv_fsm_loop_from_reset [OF st] Let_def)
  show ?thesis
  proof (cases "m_gv_gr_en s2")
    case False
    then have "graphic_w e 1 data s = Some (lp_r5_w data s2)"
      unfolding gw by (simp add: advance_gv_fsm_def)
    moreover have "m_gv_fsm_state (lp_r5_w data s2) = 0" "\<not> m_gv_gr_en (lp_r5_w data s2)"
      using False st by simp_all
    ultimately show ?thesis using s2 by simp
  next
    case True
    then have "graphic_w e 1 data s = Some (lp_r5_w data (update_graphic_bits l))"
      unfolding gw by (simp add: advance_gv_fsm_def l)
    then show ?thesis using lm lt lt' lg lc ls s2 True by simp
  qed
qed

lemma update_graphic_bits_b_cmd [simp]:
  "m_gv_cmd (update_graphic_bits_b s) = m_gv_cmd s"
  by (simp add: update_graphic_bits_b_def line_defs)

lemma reset_write_b:
  assumes "bit data 5"
  shows "\<exists>s'. graphic_w_b e 1 data s = Some s' \<and>
           m_graphic_mem_b s' = m_graphic_mem_b s \<and>
           (m_gv_timer s \<noteq> None \<longrightarrow> m_gv_timer s' \<noteq> None) \<and>
           (m_gv_fsm_state s' \<noteq> GV_STAT_WAIT_MEM_0 \<longrightarrow> m_gv_timer s' = m_gv_timer s) \<and>
           (if m_gv_cmd s' AND 0xc = 0xc
            then m_gv_fsm_state s' = GV_STAT_WAIT_MEM_0 \<or> m_gv_fsm_state s' = GV_STAT_WAIT_DS_1
            else m_gv_fsm_state s' = GV_STAT_RESET)"
proof -
  define s2 where "s2 = s\<lparr>m_gv_cmd := ucast (data AND 0xf), m_gv_dma_en := bit data 6,
      m_gv_int_en := bit data 7, m_gv_fsm_state := GV_STAT_RESET\<rparr>"
  have gw: "graphic_w_b e 1 data s = advance_gv_fsm_b e False False s2"
    using assms by (simp add: graphic_w_b_def Let_def s2_def)
  have st: "m_gv_fsm_state s2 = 0" by (simp add: s2_def)
  have s2: "m_graphic_mem_b s2 = m_graphic_mem_b s" "m_gv_timer s2 = m_gv_timer s" by (simp_all add: s2_def)
  obtain l where l: "gv_fsm_loop_b e False False s2 = Some l"
    and lm: "m_graphic_mem_b l = m_graphic_mem_b s2"
    and lt: "m_gv_timer s2 \<noteq> None \<longrightarrow> m_gv_timer l \<noteq> None"
    and lt': "m_gv_fsm_state l \<noteq> GV_STAT_WAIT_MEM_0 \<longrightarrow> m_gv_timer l = m_gv_timer s2"
    and lc: "m_gv_cmd l = m_gv_cmd s2"
    and ls: "if m_gv_cmd s2 AND 0xc = 0xc
            then m_gv_fsm_state l = GV_STAT_WAIT_MEM_0 \<or> m_gv_fsm_state l = GV_STAT_WAIT_DS_1
            else m_gv_fsm_state l = GV_STAT_RESET"
    using st by (simp add: gv_fsm_loop_b_from_reset [OF st])
  have "graphic_w_b e 1 data s = Some (update_graphic_bits_b l)"
    unfolding gw by (simp add: advance_gv_fsm_b_def l)
  then show ?thesis using lm lt lt' lc ls s2 by simp
qed

lemma machine_reset_state:
  "m_gv_fsm_state (machine_reset s) = GV_STAT_RESET \<and> m_graphic_mem (machine_reset s) = m_graphic_mem s"
  by (simp add: machine_reset_def ct_machine_reset_def base_machine_reset_def set_video_mar_def line_defs)

lemma machine_reset_b_state:
  "m_gv_fsm_state (machine_reset_b s) = GV_STAT_RESET \<and> m_graphic_mem_b (machine_reset_b s) = m_graphic_mem_b s"
  by (simp add: machine_reset_b_def base_machine_reset_def set_video_mar_b_def line_defs)

text \<open>
  C7, as amended. A write to the command register R5 with the reset bit (bit 5) set
  returns on both controllers; it puts the state machine in RESET and runs it once with
  the command just written, without data strobe or trigger. Bitplane memory is as it
  was. The state machine is left in RESET, unless the command written is a read (command
  1 with graphics enabled on the colour controller, 11xx on the monochrome one), whose
  first word is then fetched (WAIT_DS_1) or waited for (WAIT_MEM_0). A pending wake-up
  timer is not cancelled: it stays armed, and it is untouched unless the read has to wait
  for the memory. The reset of the machine sets the state to RESET and leaves bitplane
  memory as it was.
\<close>

theorem reset_write_restarts_fsm:
  "(bit data 5 \<longrightarrow>
      (\<exists>s'. graphic_w e 1 data s = Some s' \<and>
           m_graphic_mem s' = m_graphic_mem s \<and>
           (m_gv_timer s \<noteq> None \<longrightarrow> m_gv_timer s' \<noteq> None) \<and>
           (m_gv_fsm_state s' \<noteq> GV_STAT_WAIT_MEM_0 \<longrightarrow> m_gv_timer s' = m_gv_timer s) \<and>
           (if m_gv_gr_en s' \<and> m_gv_cmd s' = 1
            then m_gv_fsm_state s' = GV_STAT_WAIT_MEM_0 \<or> m_gv_fsm_state s' = GV_STAT_WAIT_DS_1
            else m_gv_fsm_state s' = GV_STAT_RESET))) \<and>
   (bit data 5 \<longrightarrow>
      (\<exists>sb'. graphic_w_b e 1 data sb = Some sb' \<and>
           m_graphic_mem_b sb' = m_graphic_mem_b sb \<and>
           (m_gv_timer sb \<noteq> None \<longrightarrow> m_gv_timer sb' \<noteq> None) \<and>
           (m_gv_fsm_state sb' \<noteq> GV_STAT_WAIT_MEM_0 \<longrightarrow> m_gv_timer sb' = m_gv_timer sb) \<and>
           (if m_gv_cmd sb' AND 0xc = 0xc
            then m_gv_fsm_state sb' = GV_STAT_WAIT_MEM_0 \<or> m_gv_fsm_state sb' = GV_STAT_WAIT_DS_1
            else m_gv_fsm_state sb' = GV_STAT_RESET))) \<and>
   m_gv_fsm_state (machine_reset s) = GV_STAT_RESET \<and>
   m_graphic_mem (machine_reset s) = m_graphic_mem s \<and>
   m_gv_fsm_state (machine_reset_b sb) = GV_STAT_RESET \<and>
   m_graphic_mem_b (machine_reset_b sb) = m_graphic_mem_b sb"
  using reset_write_c [of data e s] reset_write_b [of data e sb]
    machine_reset_state [of s] machine_reset_b_state [of sb]
  by blast

theorem reset_write_restarts_fsm_witness:
  "bit (0x120 :: 16 word) 5 \<and>
   (\<exists>s'. graphic_w (const_env 0 100) 1 0x120 write_waiting_for_memory = Some s' \<and>
         m_graphic_mem s' = m_graphic_mem write_waiting_for_memory \<and> m_gv_timer s' \<noteq> None)"
proof -
  have h: "bit (0x120 :: 16 word) 5" by simp
  have t: "m_gv_timer write_waiting_for_memory \<noteq> None"
    by (simp add: write_waiting_for_memory_def)
  from reset_write_restarts_fsm [of "0x120" "const_env 0 100" write_waiting_for_memory zero_b] h t
  show ?thesis by blast
qed

text \<open>
  The claim as stated fails: a write transfer waits for the memory with the wake-up timer
  armed (5 time units), R5 is written with the reset bit and graphics enabled
  (\<open>0x120\<close>), and the timer is still armed afterwards.
\<close>

theorem reset_write_keeps_timer_counterexample:
  "map_option m_gv_timer (graphic_w (const_env 0 100) 1 0x120 write_waiting_for_memory) = Some (Some 5)"
proof -
  let ?s2 = "write_waiting_for_memory\<lparr>m_gv_cmd := 0, m_gv_dma_en := False, m_gv_int_en := False,
      m_gv_gr_en := True, m_gv_sk_en := False, m_gv_opt_en := False, m_gv_dsa_en := False,
      m_gv_fsm_state := GV_STAT_RESET\<rparr>"
  have gw: "graphic_w (const_env 0 100) 1 0x120 write_waiting_for_memory =
      map_option (lp_r5_w 0x120) (advance_gv_fsm (const_env 0 100) False False ?s2)"
    by (simp add: graphic_w_def Let_def)
  have "gv_fsm_loop (const_env 0 100) False False ?s2 = Some ?s2"
    by (rule zero_c_loop_idle) simp_all
  then have "advance_gv_fsm (const_env 0 100) False False ?s2 = Some (update_graphic_bits ?s2)"
    by (simp add: advance_gv_fsm_def)
  then show ?thesis unfolding gw by (simp add: write_waiting_for_memory_def)
qed

subsection \<open>The I/O cursor of the colour controller\<close>

lemma get_gv_mem_addr_le: "get_gv_mem_addr x y \<le> GVIDEO_ADDR_MASK"
proof -
  let ?w = "(x + y * 35) AND (0x3fff :: 32 word)"
  have "unat ?w \<le> unat (0x3fff :: 32 word)"
    using word_and_le1 [of "x + y * 35" "0x3fff :: 32 word"] by (simp add: word_le_nat_alt)
  then have le: "unat ?w \<le> 0x3fff" by simp
  have "unat (ucast ?w :: 16 word) = take_bit 16 (unat ?w)"
    by (simp add: unsigned_ucast_eq)
  also have "\<dots> \<le> unat ?w" by (rule take_bit_nat_less_eq_self)
  finally have "unat (ucast ?w :: 16 word) \<le> 0x3fff" using le by simp
  then show ?thesis
    by (simp add: get_gv_mem_addr_def GVIDEO_ADDR_MASK_def word_le_nat_alt)
qed

lemma advance_io_counter_ok:
  assumes "io_counter_ok s"
  shows "io_counter_ok (advance_io_counter s)"
proof -
  from assms have p: "m_gv_plane s = 0 \<or> m_gv_plane s = 1 \<or> m_gv_plane s = 2"
    unfolding io_counter_ok_def by (auto simp add: word_le_nat_alt) unat_arith
  have c: "m_gv_io_counter s < GVIDEO_ADDR_MASK \<Longrightarrow> m_gv_io_counter s + 1 \<le> GVIDEO_ADDR_MASK"
    unfolding GVIDEO_ADDR_MASK_def by unat_arith
  from p c assms show ?thesis
    by (auto simp add: io_counter_ok_def advance_io_counter_def Let_def word_less_nat_alt)
qed

lemma advance_io_counter_saturates:
  assumes "m_gv_io_counter s = GVIDEO_ADDR_MASK"
  shows "m_gv_io_counter (advance_io_counter s) = GVIDEO_ADDR_MASK"
    and "m_gv_plane s = 2 \<Longrightarrow> m_gv_plane (advance_io_counter s) = 2"
  using assms by (simp_all add: advance_io_counter_def Let_def word_less_nat_alt)

lemma check_io_counter_restore_ok:
  assumes "io_counter_ok s"
  shows "io_counter_ok (check_io_counter_restore s)"
proof -
  have "m_gv_plane s \<le> 2 \<Longrightarrow> 0 < m_gv_plane s \<Longrightarrow> m_gv_plane s - 1 \<le> 2" by unat_arith
  with assms show ?thesis
    by (auto simp add: io_counter_ok_def check_io_counter_restore_def Let_def get_gv_mem_addr_le)
qed

lemma gv_load_param_ok:
  assumes "io_counter_ok s"
  shows "io_counter_ok (gv_load_param s)"
  using assms
  by (auto simp add: io_counter_ok_def gv_load_param_def Let_def get_gv_mem_addr_le logerror_def)

lemma gv_load_param_xy_ok:
  assumes "m_gv_cmd s = 8 \<or> m_gv_cmd s = 9"
  shows "io_counter_ok (gv_load_param s)"
  using assms
  by (auto simp add: io_counter_ok_def gv_load_param_def Let_def get_gv_mem_addr_le)

lemma gv_vector_call_io_counter_ok:
  assumes "gv_vector_call s = Some s'" and "io_counter_ok s"
  shows "io_counter_ok s'"
  using assms
  by (rule gv_vector_call_inv)
     (simp_all add: io_counter_ok_def plot_frame update_line_pattern_frame)

lemma gv_fsm_step_io_counter_ok:
  assumes "gv_fsm_step e ds t s = Some (s1, go)" and ok: "io_counter_ok s"
  shows "io_counter_ok s1"
proof (cases "m_gv_fsm_state s" rule: gv_state_cases)
  case 1
  from ok have "io_counter_ok (check_io_counter_restore s)" by (rule check_io_counter_restore_ok)
  with assms 1 show ?thesis
    by (auto simp add: gv_fsm_step_def Let_def io_counter_ok_def split: if_splits)
next
  case 2
  from ok have "io_counter_ok (gv_load_param s)" by (rule gv_load_param_ok)
  with assms 2 show ?thesis
    by (auto simp add: gv_fsm_step_def Let_def io_counter_ok_def split: if_splits)
next
  case 3
  have "io_counter_ok (advance_io_counter
      (s\<lparr>m_gv_data_r := m_graphic_mem s (unat (m_gv_plane s)) (unat (m_gv_io_counter s))\<rparr>))"
    using ok by (intro advance_io_counter_ok) (simp add: io_counter_ok_def)
  with assms 3 show ?thesis
    by (auto simp add: gv_fsm_step_wait_mem_0 io_counter_ok_def split: if_splits)
next
  case 4
  with assms show ?thesis
    by (auto simp add: gv_fsm_step_def Let_def io_counter_ok_def split: if_splits)
next
  case 5
  with assms show ?thesis
    by (auto simp add: gv_fsm_step_def Let_def io_counter_ok_def split: if_splits)
next
  case 6
  with assms show ?thesis
    by (auto simp add: gv_fsm_step_def Let_def io_counter_ok_def split: if_splits)
next
  case 7
  have "io_counter_ok (advance_io_counter
      (if m_gv_cmd s = 0x0 \<or> bit (m_gv_memory_control s) (unat (m_gv_plane s)) then
         s\<lparr>m_graphic_mem := (m_graphic_mem s)
              (unat (m_gv_plane s) :=
                 (m_graphic_mem s (unat (m_gv_plane s)))
                   (unat (m_gv_io_counter s) := m_gv_data_w s))\<rparr>
       else s))"
    using ok by (intro advance_io_counter_ok) (simp add: io_counter_ok_def)
  with assms 7 show ?thesis
    by (auto simp add: gv_fsm_step_def Let_def io_counter_ok_def split: if_splits)
next
  case 8
  show ?thesis
  proof (cases "time_to_gv_mem_availability e s = 0")
    case False
    with assms 8 show ?thesis by (auto simp add: gv_fsm_step_wait_mem_2 io_counter_ok_def)
  next
    case True
    with assms 8 obtain s2 where v: "gv_vector_call s = Some s2"
      and s1: "s1 = s2\<lparr>m_gv_last_xpt := m_gv_xpt s2, m_gv_last_ypt := m_gv_ypt s2,
                                m_gv_fsm_state := GV_STAT_WAIT_DS_0\<rparr>"
      by (auto simp add: gv_fsm_step_wait_mem_2 split: option.splits)
    from v ok have "io_counter_ok s2" by (rule gv_vector_call_io_counter_ok)
    then show ?thesis by (simp add: s1 io_counter_ok_def)
  qed
next
  case 9
  with assms show ?thesis by (auto simp add: gv_fsm_step_invalid logerror_def io_counter_ok_def)
qed

lemma advance_gv_fsm_io_counter_ok:
  assumes "advance_gv_fsm e ds t s = Some s'" and ok: "io_counter_ok s"
  shows "io_counter_ok s'"
proof (cases "m_gv_gr_en s")
  case False
  with assms show ?thesis by (simp add: advance_gv_fsm_def)
next
  case True
  with assms obtain s1 where s1: "gv_fsm_loop e ds t s = Some s1" and s': "s' = update_graphic_bits s1"
    by (cases "gv_fsm_loop e ds t s") (simp_all add: advance_gv_fsm_def)
  from s1 ok have "io_counter_ok s1"
    by (rule gv_fsm_loop_inv) (rule gv_fsm_step_io_counter_ok)
  then show ?thesis by (simp add: s' io_counter_ok_def)
qed

lemma lp_frame [simp]:
  "m_gv_plane (lp_r4_w d s) = m_gv_plane s"
  "m_gv_io_counter (lp_r4_w d s) = m_gv_io_counter s"
  "m_gv_plane (lp_r5_w d s) = m_gv_plane s"
  "m_gv_io_counter (lp_r5_w d s) = m_gv_io_counter s"
  "m_gv_plane (snd (lp_r4_r s)) = m_gv_plane s"
  "m_gv_io_counter (snd (lp_r4_r s)) = m_gv_io_counter s"
  by (simp_all add: lp_r4_w_def lp_r5_w_def lp_r4_r_def logerror_def Let_def)

lemma graphic_w_io_counter_ok:
  assumes "graphic_w e offset data s = Some s'" and ok: "io_counter_ok s"
  shows "io_counter_ok s'"
proof -
  have upd: "io_counter_ok (f s1)"
    if "advance_gv_fsm e ds t s0 = Some s1" "io_counter_ok s0"
       "m_gv_plane (f s1) = m_gv_plane s1" "m_gv_io_counter (f s1) = m_gv_io_counter s1"
    for f :: "'a hp9845c_state_scheme \<Rightarrow> 'a hp9845c_state_scheme" and ds t s0 s1
    using advance_gv_fsm_io_counter_ok [OF that(1,2)] that(3,4) by (simp add: io_counter_ok_def)
  consider "offset = 0" | "offset = 1" | "offset = 2" | "offset = 3" | "offset > 3" by linarith
  then show ?thesis
  proof cases
    case 1
    with assms(1) obtain s1 where a: "advance_gv_fsm e True False (s\<lparr>m_gv_data_w := data\<rparr>) = Some s1"
      and s': "s' = lp_r4_w data s1"
      by (auto simp add: graphic_w_def)
    have "io_counter_ok (s\<lparr>m_gv_data_w := data\<rparr>)" using ok by (simp add: io_counter_ok_def)
    from upd [OF a this, of "lp_r4_w data"] show ?thesis by (simp add: s')
  next
    case 2
    define s2 where "s2 = (let s1 = s\<lparr>m_gv_cmd := ucast (data AND 0xf),
                     m_gv_dma_en := bit data 6,
                     m_gv_int_en := bit data 7,
                     m_gv_gr_en := bit data 8,
                     m_gv_sk_en := bit data 9,
                     m_gv_opt_en := bit data 11,
                     m_gv_dsa_en := bit data 12\<rparr>
         in if bit data 5 then s1\<lparr>m_gv_fsm_state := GV_STAT_RESET\<rparr> else s1)"
    from 2 assms(1) obtain s1 where a: "advance_gv_fsm e False False s2 = Some s1"
      and s': "s' = lp_r5_w data s1"
      by (auto simp add: graphic_w_def s2_def Let_def)
    have "io_counter_ok s2" using ok by (simp add: io_counter_ok_def s2_def Let_def)
    from upd [OF a this, of "lp_r5_w data"] show ?thesis by (simp add: s')
  next
    case 3
    with assms(1) obtain s1 where
      a: "advance_gv_fsm e True False (s\<lparr>m_gv_dma_en := False, m_gv_data_w := data\<rparr>) = Some s1"
      and s': "s' = lp_r4_w data s1"
      by (auto simp add: graphic_w_def)
    have "io_counter_ok (s\<lparr>m_gv_dma_en := False, m_gv_data_w := data\<rparr>)"
      using ok by (simp add: io_counter_ok_def)
    from upd [OF a this, of "lp_r4_w data"] show ?thesis by (simp add: s')
  next
    case 4
    with assms(1) have "advance_gv_fsm e False True s = Some s'" by (simp add: graphic_w_def)
    then show ?thesis using ok by (rule advance_gv_fsm_io_counter_ok)
  next
    case 5
    with assms show ?thesis by (simp add: graphic_w_def)
  qed
qed

lemma machine_reset_io_counter:
  "m_gv_plane (machine_reset s) = 0" "m_gv_io_counter (machine_reset s) = m_gv_io_counter s"
  by (simp_all add: machine_reset_def ct_machine_reset_def base_machine_reset_def set_video_mar_def
        update_graphic_bits_def line_defs)

lemma machine_reset_io_counter_ok:
  "io_counter_ok s \<Longrightarrow> io_counter_ok (machine_reset s)"
  by (simp add: io_counter_ok_def machine_reset_io_counter)

lemma zero_c_io_counter_ok: "io_counter_ok zero_c"
  by (simp add: io_counter_ok_def zero_c_def GVIDEO_ADDR_MASK_def)

text \<open>
  C9. The I/O cursor of the colour controller keeps its plane index in \<open>{0, 1, 2}\<close> and
  its word address within the address mask: this holds for the device as allocated and
  is kept by the machine reset, by \<open>advance_io_counter\<close>, by
  \<open>check_io_counter_restore\<close>, by the parameter commands (the load X and load Y I/O
  address commands establish it from any state), by every call of \<open>advance_gv_fsm\<close>
  that returns and by every register write that returns. At the last word address
  \<open>advance_io_counter\<close> leaves the address where it is, and the plane index at 2 once it
  is 2: it does not wrap to address 0.
\<close>

theorem io_counter_invariant:
  "io_counter_ok zero_c \<and>
   (io_counter_ok s \<longrightarrow> io_counter_ok (machine_reset s)) \<and>
   (io_counter_ok s \<longrightarrow> io_counter_ok (advance_io_counter s)) \<and>
   (io_counter_ok s \<longrightarrow> io_counter_ok (check_io_counter_restore s)) \<and>
   (io_counter_ok s \<longrightarrow> io_counter_ok (gv_load_param s)) \<and>
   (m_gv_cmd s = 8 \<or> m_gv_cmd s = 9 \<longrightarrow> io_counter_ok (gv_load_param s)) \<and>
   (io_counter_ok s \<longrightarrow> advance_gv_fsm e ds t s = Some s' \<longrightarrow> io_counter_ok s') \<and>
   (io_counter_ok s \<longrightarrow> graphic_w e offset data s = Some s'' \<longrightarrow> io_counter_ok s'') \<and>
   (m_gv_io_counter s = GVIDEO_ADDR_MASK \<longrightarrow>
      m_gv_io_counter (advance_io_counter s) = GVIDEO_ADDR_MASK) \<and>
   (m_gv_io_counter s = GVIDEO_ADDR_MASK \<longrightarrow> m_gv_plane s = 2 \<longrightarrow>
      m_gv_plane (advance_io_counter s) = 2)"
  using zero_c_io_counter_ok machine_reset_io_counter_ok [of s] advance_io_counter_ok [of s]
    check_io_counter_restore_ok [of s] gv_load_param_ok [of s] gv_load_param_xy_ok [of s]
    advance_gv_fsm_io_counter_ok [of e ds t s s'] graphic_w_io_counter_ok [of e offset data s s'']
    advance_io_counter_saturates [of s]
  by blast

theorem io_counter_invariant_witness:
  "io_counter_ok io_counter_at_end \<and>
   (m_gv_cmd io_counter_at_end = 8 \<or> m_gv_cmd io_counter_at_end = 9) \<and>
   advance_gv_fsm (const_env 0 0) False False io_counter_at_end = Some io_counter_at_end \<and>
   graphic_w (const_env 0 0) 3 0 io_counter_at_end = Some io_counter_at_end \<and>
   m_gv_io_counter io_counter_at_end = GVIDEO_ADDR_MASK \<and>
   m_gv_plane io_counter_at_end = 2 \<and>
   io_counter_ok (advance_io_counter io_counter_at_end) \<and>
   io_counter_ok (gv_load_param io_counter_at_end) \<and>
   m_gv_io_counter (advance_io_counter io_counter_at_end) = GVIDEO_ADDR_MASK \<and>
   m_gv_plane (advance_io_counter io_counter_at_end) = 2"
proof -
  have h1: "io_counter_ok io_counter_at_end"
    by (simp add: io_counter_ok_def io_counter_at_end_def GVIDEO_ADDR_MASK_def)
  have h2: "m_gv_cmd io_counter_at_end = 8 \<or> m_gv_cmd io_counter_at_end = 9"
    by (simp add: io_counter_at_end_def)
  have h3: "advance_gv_fsm (const_env 0 0) False False io_counter_at_end = Some io_counter_at_end"
    by (simp add: advance_gv_fsm_def io_counter_at_end_def zero_c_def)
  have h4: "graphic_w (const_env 0 0) 3 0 io_counter_at_end = Some io_counter_at_end"
    by (simp add: graphic_w_def advance_gv_fsm_def io_counter_at_end_def zero_c_def)
  have h5: "m_gv_io_counter io_counter_at_end = GVIDEO_ADDR_MASK"
    by (simp add: io_counter_at_end_def GVIDEO_ADDR_MASK_def)
  have h6: "m_gv_plane io_counter_at_end = 2" by (simp add: io_counter_at_end_def)
  from io_counter_invariant [of io_counter_at_end "const_env 0 0" False False io_counter_at_end
      3 0 io_counter_at_end] h1 h2 h3 h4 h5 h6
  show ?thesis by blast
qed

subsection \<open>Alpha buffer fetch and scanline rendering\<close>

text \<open>The last pass of the fetch loop, and what holds through all passes.\<close>

lemma video_fill_loop_last_pass:
  assumes "P char_idx iters s"
    and "\<And>c i s s' c' i'. P c i s \<Longrightarrow> video_fill_step e b c i s = ((s', c', i'), False) \<Longrightarrow> P c' i' s'"
  shows "\<exists>c0 i0 s0. P c0 i0 s0 \<and>
           video_fill_step e b c0 i0 s0 = (video_fill_loop e b char_idx iters s, True)"
  using assms
proof (induction e b char_idx iters s rule: video_fill_loop.induct)
  case (1 e buff_idx char_idx iters s)
  obtain s' c' i' brk where st: "video_fill_step e buff_idx char_idx iters s = ((s', c', i'), brk)"
    by (metis prod.exhaust)
  show ?case
  proof (cases brk)
    case True
    with st have "video_fill_loop e buff_idx char_idx iters s = (s', c', i')"
      by (subst video_fill_loop.simps) simp
    with st True "1.prems"(1) show ?thesis by auto
  next
    case False
    with st have eq: "video_fill_loop e buff_idx char_idx iters s = video_fill_loop e buff_idx c' i' s'"
      by (subst video_fill_loop.simps) simp
    from st False have st': "video_fill_step e buff_idx char_idx iters s = ((s', c', i'), False)"
      by simp
    have "P c' i' s'" using "1.prems"(1) st' by (rule "1.prems"(2))
    with "1.IH" [OF st [symmetric] refl refl False] "1.prems"(2) show ?thesis
      unfolding eq by blast
  qed
qed

lemma video_fill_loop_b_last_pass:
  assumes "P char_idx iters s"
    and "\<And>c i s s' c' i'. P c i s \<Longrightarrow> video_fill_step_b e b c i s = ((s', c', i'), False) \<Longrightarrow> P c' i' s'"
  shows "\<exists>c0 i0 s0. P c0 i0 s0 \<and>
           video_fill_step_b e b c0 i0 s0 = (video_fill_loop_b e b char_idx iters s, True)"
  using assms
proof (induction e b char_idx iters s rule: video_fill_loop_b.induct)
  case (1 e buff_idx char_idx iters s)
  obtain s' c' i' brk where st: "video_fill_step_b e buff_idx char_idx iters s = ((s', c', i'), brk)"
    by (metis prod.exhaust)
  show ?case
  proof (cases brk)
    case True
    with st have "video_fill_loop_b e buff_idx char_idx iters s = (s', c', i')"
      by (subst video_fill_loop_b.simps) simp
    with st True "1.prems"(1) show ?thesis by auto
  next
    case False
    with st have eq: "video_fill_loop_b e buff_idx char_idx iters s = video_fill_loop_b e buff_idx c' i' s'"
      by (subst video_fill_loop_b.simps) simp
    from st False have st': "video_fill_step_b e buff_idx char_idx iters s = ((s', c', i'), False)"
      by simp
    have "P c' i' s'" using "1.prems"(1) st' by (rule "1.prems"(2))
    with "1.IH" [OF st [symmetric] refl refl False] "1.prems"(2) show ?thesis
      unfolding eq by blast
  qed
qed



text \<open>What a pass of the colour fetch loop does to the locals and to the full flag.\<close>

lemma video_fill_step_full:
  assumes "video_fill_step e b c i s = ((s', c', i'), brk)"
  shows "full (m_video_buff s' b) = (if brk \<and> i' = i + 1 \<and> i < MAX_WORD_PER_ROW
                                      then True else full (m_video_buff s b))"
    and "\<not> brk \<Longrightarrow> i' = i + 1 \<and> i < MAX_WORD_PER_ROW"
    and "c < 80 \<Longrightarrow> if brk then c' = 80 \<longrightarrow> full (m_video_buff s' b) else c' < 80"
    and "i \<le> MAX_WORD_PER_ROW \<Longrightarrow> i' = Suc MAX_WORD_PER_ROW \<Longrightarrow> brk \<and> i = MAX_WORD_PER_ROW"
  using assms
  by (auto simp add: video_fill_step_def Let_def upd_buff_def fill_rest_def put_cell_def
        set_video_mar_def set_graphic_mode_def split: if_splits)

lemma video_fill_step_b_char_idx:
  assumes "video_fill_step_b e b c i s = ((s', c', i'), brk)" and "c < 80"
  shows "if brk then c' = 80 \<longrightarrow> full (m_video_buff s' b) else c' < 80"
  using assms
  by (auto simp add: video_fill_step_b_def video_parse_byte_b_def Let_def upd_buff_def
        fill_rest_def put_cell_def split: if_splits)

lemma video_fill_loop_80_full:
  assumes "fst (snd (video_fill_loop e b 0 0 s)) = 80"
  shows "full (m_video_buff (fst (video_fill_loop e b 0 0 s)) b)"
proof -
  have "\<exists>c0 i0 s0. c0 < 80 \<and> video_fill_step e b c0 i0 s0 = (video_fill_loop e b 0 0 s, True)"
  proof (rule video_fill_loop_last_pass [where P = "\<lambda>c i s. c < 80"])
    show "(0::nat) < 80" by simp
  next
    fix c i s s' c' i'
    assume "c < 80" and "video_fill_step e b c i s = ((s', c', i'), False)"
    from video_fill_step_full(3) [OF this(2,1)] show "c' < 80" by simp
  qed
  then obtain c0 i0 s0 where c0: "c0 < 80"
    and st: "video_fill_step e b c0 i0 s0 = (video_fill_loop e b 0 0 s, True)" by blast
  obtain s' c' i' where r: "video_fill_loop e b 0 0 s = (s', c', i')" by (metis prod.exhaust)
  from video_fill_step_full(3) [OF st [unfolded r] c0] assms r show ?thesis by simp
qed

lemma video_fill_loop_b_80_full:
  assumes "fst (snd (video_fill_loop_b e b 0 0 s)) = 80"
  shows "full (m_video_buff (fst (video_fill_loop_b e b 0 0 s)) b)"
proof -
  have "\<exists>c0 i0 s0. c0 < 80 \<and> video_fill_step_b e b c0 i0 s0 = (video_fill_loop_b e b 0 0 s, True)"
  proof (rule video_fill_loop_b_last_pass [where P = "\<lambda>c i s. c < 80"])
    show "(0::nat) < 80" by simp
  next
    fix c i s s' c' i'
    assume "c < 80" and "video_fill_step_b e b c i s = ((s', c', i'), False)"
    from video_fill_step_b_char_idx [OF this(2,1)] show "c' < 80" by simp
  qed
  then obtain c0 i0 s0 where c0: "c0 < 80"
    and st: "video_fill_step_b e b c0 i0 s0 = (video_fill_loop_b e b 0 0 s, True)" by blast
  obtain s' c' i' where r: "video_fill_loop_b e b 0 0 s = (s', c', i')" by (metis prod.exhaust)
  from video_fill_step_b_char_idx [OF st [unfolded r] c0] assms r show ?thesis by simp
qed

text \<open>
  C10. On both controllers: when \<open>video_fill_buff\<close> leaves its loop with \<open>char_idx\<close> at
  80, that is when 80 character cells have been stored before any end-of-line marker and
  before the fetch budget ran out, the row buffer it has filled is marked full.
\<close>

theorem eighty_cells_mark_buffer_full:
  "(fst (snd (video_fill_loop e b 0 0 (upd_buff b (\<lambda>b. b\<lparr>full := False\<rparr>) s))) = 80 \<longrightarrow>
      full (m_video_buff (video_fill_buff e b s) b)) \<and>
   (fst (snd (video_fill_loop_b e b 0 0 (upd_buff b (\<lambda>b. b\<lparr>full := False\<rparr>) sb))) = 80 \<longrightarrow>
      full (m_video_buff (video_fill_buff_b e b sb) b))"
  using video_fill_loop_80_full [of e b "upd_buff b (\<lambda>b. b\<lparr>full := False\<rparr>) s"]
    video_fill_loop_b_80_full [of e b "upd_buff b (\<lambda>b. b\<lparr>full := False\<rparr>) sb"]
  by (simp add: video_fill_buff_def video_fill_buff_b_def)

theorem eighty_cells_mark_buffer_full_witness:
  "fst (snd (video_fill_loop (const_env 0x4141 0) False 0 0
               (upd_buff False (\<lambda>b. b\<lparr>full := False\<rparr>) zero_c))) = 80 \<and>
   full (m_video_buff (video_fill_buff (const_env 0x4141 0) False zero_c) False) \<and>
   fst (snd (video_fill_loop_b (const_env 0x4141 0) False 0 0
               (upd_buff False (\<lambda>b. b\<lparr>full := False\<rparr>) zero_b))) = 80 \<and>
   full (m_video_buff (video_fill_buff_b (const_env 0x4141 0) False zero_b) False)"
proof -
  have c: "fst (snd (video_fill_loop (const_env 0x4141 0) False 0 0
               (upd_buff False (\<lambda>b. b\<lparr>full := False\<rparr>) zero_c))) = 80"
    by code_simp
  have m: "fst (snd (video_fill_loop_b (const_env 0x4141 0) False 0 0
               (upd_buff False (\<lambda>b. b\<lparr>full := False\<rparr>) zero_b))) = 80"
    by code_simp
  from eighty_cells_mark_buffer_full [of "const_env 0x4141 0" False zero_c zero_b] c m
  show ?thesis by simp
qed

lemma selftest_word:
  "(word_of_int (NOT (uint w + k) AND m) :: 16 word) = NOT (w + word_of_int k) AND word_of_int m"
  by (simp add: of_int_and_eq of_int_not_eq)

lemma video_fill_loop_state_inv:
  assumes "P s"
    and "\<And>c i s s' c' i' brk. P s \<Longrightarrow> video_fill_step e b c i s = ((s', c', i'), brk) \<Longrightarrow> P s'"
  shows "P (fst (video_fill_loop e b char_idx iters s))"
proof -
  have "\<exists>c0 i0 s0. P s0 \<and> video_fill_step e b c0 i0 s0 = (video_fill_loop e b char_idx iters s, True)"
    by (rule video_fill_loop_last_pass [where P = "\<lambda>c i s. P s"]) (use assms in blast)+
  then obtain c0 i0 s0 where p: "P s0"
    and st: "video_fill_step e b c0 i0 s0 = (video_fill_loop e b char_idx iters s, True)" by blast
  obtain s' c' i' where r: "video_fill_loop e b char_idx iters s = (s', c', i')" by (metis prod.exhaust)
  from assms(2) [OF p st [unfolded r]] r show ?thesis by simp
qed

text \<open>Members that a pass of the fetch loop leaves alone.\<close>

lemma video_fill_step_frame:
  assumes "video_fill_step e b c i s = ((s', c', i'), brk)"
  shows "m_gv_lp_selftest s' = m_gv_lp_selftest s"
    and "m_gv_lp_cursor_x s' = m_gv_lp_cursor_x s"
    and "m_gv_lp_cursor_y s' = m_gv_lp_cursor_y s"
    and "m_gv_lp_data s' = m_gv_lp_data s"
    and "m_video_blanked s' = m_video_blanked s"
    and "m_video_buff_idx s' = m_video_buff_idx s"
    and "m_bitmap s' = m_bitmap s"
    and "m_video_buff s' (\<not> b) = m_video_buff s (\<not> b)"
  using assms
  by (auto simp add: video_fill_step_def Let_def upd_buff_def set_video_mar_def
        set_graphic_mode_def split: if_splits)

lemma video_fill_buff_frame:
  "m_gv_lp_selftest (video_fill_buff e b s) = m_gv_lp_selftest s"
  "m_gv_lp_cursor_x (video_fill_buff e b s) = m_gv_lp_cursor_x s"
  "m_gv_lp_cursor_y (video_fill_buff e b s) = m_gv_lp_cursor_y s"
  "m_gv_lp_data (video_fill_buff e b s) = m_gv_lp_data s"
  "m_video_blanked (video_fill_buff e b s) = m_video_blanked s"
  "m_video_buff_idx (video_fill_buff e b s) = m_video_buff_idx s"
  "m_bitmap (video_fill_buff e b s) = m_bitmap s"
  "m_video_buff (video_fill_buff e b s) (\<not> b) = m_video_buff s (\<not> b)"
  unfolding video_fill_buff_def
  by (rule video_fill_loop_state_inv; simp add: upd_buff_def video_fill_step_frame)+

lemma compute_lp_data_selftest:
  assumes "m_gv_lp_selftest s"
  shows "m_gv_lp_data (compute_lp_data s) =
           (m_gv_lp_data s)
             (0 := NOT (m_gv_lp_cursor_y s + 16) AND 0x1ff,
              1 := NOT (m_gv_lp_cursor_x s - 23) AND 0x3ff,
              2 := NOT (m_gv_lp_cursor_y s + 32) AND 0x1ff)"
  using assms by (simp add: compute_lp_data_def Let_def selftest_word)

lemma update_graphic_bits_lp_data: "m_gv_lp_data (update_graphic_bits s) = m_gv_lp_data s"
  by (simp add: update_graphic_bits_def flg_w_def irq_w_def update_flg_sts_def update_irq_def Let_def)

lemma vblank_w_selftest:
  assumes "m_gv_lp_selftest s"
  shows "m_gv_lp_data (vblank_w e True s) =
           (m_gv_lp_data s)
             (0 := NOT (m_gv_lp_cursor_y s + 16) AND 0x1ff,
              1 := NOT (m_gv_lp_cursor_x s - 23) AND 0x3ff,
              2 := NOT (m_gv_lp_cursor_y s + 32) AND 0x1ff)"
  using assms
  by (simp add: vblank_w_def Let_def update_graphic_bits_lp_data compute_lp_data_selftest
        video_fill_buff_frame set_video_mar_def)

text \<open>
  C8. In light-pen self-test mode the three hit registers that the vertical blank computes
  are fixed offsets from the light-pen cursor, YHI from \<open>y + 16\<close>, XLEFT from \<open>x - 23\<close>
  and YLO from \<open>y + 32\<close> (complemented and masked to 9, 10 and 9 bits, no flag bit set);
  they do not depend on the pointer: changing the pointer's x, y and button in the
  environment gives the same registers.
\<close>

theorem selftest_hit_registers:
  assumes "m_gv_lp_selftest s"
  shows "m_gv_lp_data (vblank_w e True s) 0 = NOT (m_gv_lp_cursor_y s + 16) AND 0x1ff \<and>
         m_gv_lp_data (vblank_w e True s) 1 = NOT (m_gv_lp_cursor_x s - 23) AND 0x3ff \<and>
         m_gv_lp_data (vblank_w e True s) 2 = NOT (m_gv_lp_cursor_y s + 32) AND 0x1ff \<and>
         m_gv_lp_data (vblank_w (e\<lparr>lightpen_x := px, lightpen_y := py, lightpen_sw := sw\<rparr>) True s) =
           m_gv_lp_data (vblank_w e True s)"
  using assms by (simp add: vblank_w_selftest)

theorem selftest_hit_registers_witness:
  "m_gv_lp_selftest (zero_c\<lparr>m_gv_lp_selftest := True, m_gv_lp_cursor_x := 100, m_gv_lp_cursor_y := 50\<rparr>) \<and>
   m_gv_lp_data (vblank_w (const_env 0x8020 0) True
      (zero_c\<lparr>m_gv_lp_selftest := True, m_gv_lp_cursor_x := 100, m_gv_lp_cursor_y := 50\<rparr>)) 0 = 0x1bd \<and>
   m_gv_lp_data (vblank_w (const_env 0x8020 0) True
      (zero_c\<lparr>m_gv_lp_selftest := True, m_gv_lp_cursor_x := 100, m_gv_lp_cursor_y := 50\<rparr>)) 1 = 0x3b2 \<and>
   m_gv_lp_data (vblank_w (const_env 0x8020 0) True
      (zero_c\<lparr>m_gv_lp_selftest := True, m_gv_lp_cursor_x := 100, m_gv_lp_cursor_y := 50\<rparr>)) 2 = 0x1ad \<and>
   m_gv_lp_data (vblank_w ((const_env 0x8020 0)\<lparr>lightpen_x := 300, lightpen_y := 200, lightpen_sw := 1\<rparr>) True
      (zero_c\<lparr>m_gv_lp_selftest := True, m_gv_lp_cursor_x := 100, m_gv_lp_cursor_y := 50\<rparr>)) =
   m_gv_lp_data (vblank_w (const_env 0x8020 0) True
      (zero_c\<lparr>m_gv_lp_selftest := True, m_gv_lp_cursor_x := 100, m_gv_lp_cursor_y := 50\<rparr>))"
  using selftest_hit_registers [where s = "zero_c\<lparr>m_gv_lp_selftest := True, m_gv_lp_cursor_x := 100, m_gv_lp_cursor_y := 50\<rparr>"
      and e = "const_env 0x8020 0" and px = 300 and py = 200 and sw = 1]
  by simp

text \<open>A fetch that uses up its budget leaves the buffer not full.\<close>

lemma video_fill_loop_budget:
  assumes "snd (snd (video_fill_loop e b 0 0 (upd_buff b (\<lambda>b. b\<lparr>full := False\<rparr>) s))) = Suc MAX_WORD_PER_ROW"
  shows "\<not> full (m_video_buff (video_fill_buff e b s) b)"
proof -
  let ?s0 = "upd_buff b (\<lambda>b. b\<lparr>full := False\<rparr>) s"
  let ?P = "\<lambda>(c::nat) i s. \<not> full (m_video_buff s b) \<and> i \<le> MAX_WORD_PER_ROW"
  have "\<exists>c0 i0 s0. ?P c0 i0 s0 \<and> video_fill_step e b c0 i0 s0 = (video_fill_loop e b 0 0 ?s0, True)"
  proof (rule video_fill_loop_last_pass [where P = ?P])
    show "?P 0 0 ?s0" by (simp add: upd_buff_def)
  next
    fix c i s s' c' i'
    assume p: "?P c i s" and st: "video_fill_step e b c i s = ((s', c', i'), False)"
    from video_fill_step_full(1) [OF st] video_fill_step_full(2) [OF st] p
    show "?P c' i' s'" by simp
  qed
  then obtain c0 i0 s0 where p: "?P c0 i0 s0"
    and st: "video_fill_step e b c0 i0 s0 = (video_fill_loop e b 0 0 ?s0, True)" by blast
  obtain s' c' i' where r: "video_fill_loop e b 0 0 ?s0 = (s', c', i')" by (metis prod.exhaust)
  from assms r have i': "i' = Suc MAX_WORD_PER_ROW" by simp
  from st r have st': "video_fill_step e b c0 i0 s0 = ((s', c', i'), True)" by simp
  from video_fill_step_full(4) [OF st' _ i'] p have "i0 = MAX_WORD_PER_ROW" by simp
  with video_fill_step_full(1) [OF st'] p have "\<not> full (m_video_buff s' b)" by simp
  with r show ?thesis by (simp add: video_fill_buff_def)
qed

text \<open>Folds that write pixels.\<close>

lemma fold_set_pix:
  "fold (\<lambda>i. set_pix y i v) [a..<b] s =
     s\<lparr>m_bitmap := (m_bitmap s)(y := (\<lambda>x. if a \<le> x \<and> x < b then v else m_bitmap s y x))\<rparr>"
proof (induction b)
  case 0
  show ?case by simp
next
  case (Suc b)
  show ?case
  proof (cases "a \<le> b")
    case True
    then show ?thesis by (simp add: Suc) (simp add: set_pix_def fun_eq_iff)
  next
    case False
    then show ?thesis by (simp add: fun_eq_iff)
  qed
qed

lemma fold_inv:
  assumes "P s" and "\<And>x s. P s \<Longrightarrow> P (f x s)"
  shows "P (fold f xs s)"
  using assms(1) by (induction xs arbitrary: s) (simp_all add: assms(2))

lemma set_pix_bitmap: "\<exists>bm'. set_pix y x p (s\<lparr>m_bitmap := bm\<rparr>) = s\<lparr>m_bitmap := bm'\<rparr>"
  unfolding set_pix_def by (rule exI [where x = "bm(y := (bm y)(x := p))"]) simp

lemma graphic_video_render_bitmap:
  "\<exists>bm. graphic_video_render e v s = s\<lparr>m_bitmap := bm\<rparr>"
  unfolding graphic_video_render_def Let_def
proof (rule fold_inv [where P = "\<lambda>s'. \<exists>bm. s' = s\<lparr>m_bitmap := bm\<rparr>"], goal_cases)
  case 1
  have "s = s\<lparr>m_bitmap := m_bitmap s\<rparr>" by simp
  then show ?case by blast
next
  case (2 n s')
  show ?case
  proof (rule fold_inv [where P = "\<lambda>s'. \<exists>bm. s' = s\<lparr>m_bitmap := bm\<rparr>"], goal_cases)
    case 1
    show ?case by (rule 2)
  next
    case (2 k s'')
    then obtain bm where s'': "s'' = s\<lparr>m_bitmap := bm\<rparr>" by blast
    show ?case unfolding s'' by (rule set_pix_bitmap)
  qed
qed

lemma graphic_video_render_frame:
  "m_video_blanked (graphic_video_render e v s) = m_video_blanked s"
  "m_video_buff (graphic_video_render e v s) = m_video_buff s"
  "m_video_buff_idx (graphic_video_render e v s) = m_video_buff_idx s"
  "m_graphic_sel (graphic_video_render e v s) = m_graphic_sel s"
  using graphic_video_render_bitmap [of e v s] by auto

text \<open>The blank branch of \<open>video_render_buff\<close>.\<close>

lemma video_render_buff_blank:
  assumes "m_video_blanked s \<or> \<not> full (m_video_buff s b)"
  shows "m_video_blanked (video_render_buff e v l b s)"
    and "m_video_buff (video_render_buff e v l b s) = m_video_buff s"
    and "m_video_buff_idx (video_render_buff e v l b s) = m_video_buff_idx s"
    and "m_graphic_sel (video_render_buff e v l b s) = m_graphic_sel s"
    and "alpha_blank_line (m_bitmap s) (m_graphic_sel s) (m_bitmap (video_render_buff e v l b s)) v"
  using assms
  by (auto simp add: video_render_buff_def Let_def fold_set_pix alpha_blank_line_def
        list_all_iff pen_alpha_def simp del: upt_rec_numeral)

lemma render_cell_frame:
  "m_video_buff (render_cell e v l b i s) = m_video_buff s"
  "m_video_buff_idx (render_cell e v l b i s) = m_video_buff_idx s"
  unfolding render_cell_def Let_def
  by (rule fold_inv; simp add: set_pix_def)+

lemma fold_render_cell_frame:
  "m_video_buff (fold (render_cell e v l b) xs s) = m_video_buff s"
  "m_video_buff_idx (fold (render_cell e v l b) xs s) = m_video_buff_idx s"
  by (rule fold_inv; simp add: render_cell_frame)+

lemma video_render_buff_frame:
  "m_video_buff (video_render_buff e v l b s) = m_video_buff s"
  "m_video_buff_idx (video_render_buff e v l b s) = m_video_buff_idx s"
  by (simp_all add: video_render_buff_def Let_def fold_set_pix fold_render_cell_frame
        del: upt_rec_numeral)

text \<open>A scanline timer event.\<close>

lemma line_in_row:
  "(v - VIDEO_770_VBEND) - (v - VIDEO_770_VBEND) div VIDEO_CHAR_HEIGHT * VIDEO_CHAR_HEIGHT =
   v mod VIDEO_CHAR_HEIGHT"
  by (simp add: minus_div_mult_eq_mod)

lemma scanline_timer_hidden:
  assumes "\<not> v < VIDEO_770_VBSTART"
  shows "scanline_timer e v s = s"
  using assms by (simp add: scanline_timer_def)

lemma scanline_timer_blanked:
  assumes "m_video_blanked t"
  shows "m_video_blanked (scanline_timer e v t)"
    and "v < VIDEO_770_VBSTART \<Longrightarrow>
           alpha_blank_line (m_bitmap (if m_graphic_sel t then graphic_video_render e v t else t))
             (m_graphic_sel (scanline_timer e v t)) (m_bitmap (scanline_timer e v t)) v"
proof -
  define s1 where "s1 = (if m_graphic_sel t then graphic_video_render e v t else t)"
  define s2 where "s2 = (if v mod VIDEO_CHAR_HEIGHT = 0 then
                           video_fill_buff e (m_video_buff_idx s1) (s1\<lparr>m_video_buff_idx := (\<not> m_video_buff_idx s1)\<rparr>)
                         else s1)"
  have b1: "m_video_blanked s1" using assms by (simp add: s1_def graphic_video_render_frame)
  have b2: "m_video_blanked s2" using b1 by (simp add: s2_def video_fill_buff_frame)
  have bm: "m_bitmap s2 = m_bitmap s1" by (simp add: s2_def video_fill_buff_frame)
  have r: "v < VIDEO_770_VBSTART \<Longrightarrow>
             scanline_timer e v t = video_render_buff e v (v mod VIDEO_CHAR_HEIGHT) (m_video_buff_idx s2) s2"
    unfolding scanline_timer_def Let_def line_in_row s1_def s2_def by simp
  from b2 have blank: "m_video_blanked s2 \<or> \<not> full (m_video_buff s2 (m_video_buff_idx s2))" by simp
  show "m_video_blanked (scanline_timer e v t)"
  proof (cases "v < VIDEO_770_VBSTART")
    case True
    with r video_render_buff_blank(1) [OF blank] show ?thesis by simp
  next
    case False
    with assms show ?thesis by (simp add: scanline_timer_hidden)
  qed
  show "alpha_blank_line (m_bitmap (if m_graphic_sel t then graphic_video_render e v t else t))
          (m_graphic_sel (scanline_timer e v t)) (m_bitmap (scanline_timer e v t)) v"
    if "v < VIDEO_770_VBSTART"
    using r [OF that] video_render_buff_blank(4,5) [OF blank, where e = e and v = v and l = "v mod VIDEO_CHAR_HEIGHT"] bm
    by (simp add: s1_def)
qed

lemma scanline_timer_row_start:
  assumes "\<not> full (m_video_buff t (\<not> m_video_buff_idx t))"
    and "v < VIDEO_770_VBSTART" and "v mod VIDEO_CHAR_HEIGHT = 0"
  shows "m_video_blanked (scanline_timer e v t)"
    and "alpha_blank_line (m_bitmap (if m_graphic_sel t then graphic_video_render e v t else t))
           (m_graphic_sel (scanline_timer e v t)) (m_bitmap (scanline_timer e v t)) v"
proof -
  define s1 where "s1 = (if m_graphic_sel t then graphic_video_render e v t else t)"
  define s2 where "s2 = video_fill_buff e (m_video_buff_idx s1) (s1\<lparr>m_video_buff_idx := (\<not> m_video_buff_idx s1)\<rparr>)"
  have i1: "m_video_buff_idx s1 = m_video_buff_idx t" and f1: "m_video_buff s1 = m_video_buff t"
    by (simp_all add: s1_def graphic_video_render_frame)
  have i2: "m_video_buff_idx s2 = (\<not> m_video_buff_idx t)"
    by (simp add: s2_def video_fill_buff_frame i1)
  have "m_video_buff s2 (\<not> m_video_buff_idx s1) =
        m_video_buff (s1\<lparr>m_video_buff_idx := (\<not> m_video_buff_idx s1)\<rparr>) (\<not> m_video_buff_idx s1)"
    unfolding s2_def by (rule video_fill_buff_frame)
  then have f2: "m_video_buff s2 (\<not> m_video_buff_idx t) = m_video_buff t (\<not> m_video_buff_idx t)"
    by (simp add: i1 f1)
  have bm: "m_bitmap s2 = m_bitmap s1" by (simp add: s2_def video_fill_buff_frame)
  have r: "scanline_timer e v t = video_render_buff e v 0 (m_video_buff_idx s2) s2"
    using assms(2,3) unfolding scanline_timer_def Let_def line_in_row s1_def s2_def by simp
  from assms(1) f2 i2
  have blank: "m_video_blanked s2 \<or> \<not> full (m_video_buff s2 (m_video_buff_idx s2))" by simp
  from r video_render_buff_blank(1) [OF blank] show "m_video_blanked (scanline_timer e v t)" by simp
  from r video_render_buff_blank(4,5) [OF blank, where e = e and v = v and l = 0] bm
  show "alpha_blank_line (m_bitmap (if m_graphic_sel t then graphic_video_render e v t else t))
          (m_graphic_sel (scanline_timer e v t)) (m_bitmap (scanline_timer e v t)) v"
    by (simp add: s1_def)
qed

lemma scanline_timer_same_row:
  assumes "\<not> (v < VIDEO_770_VBSTART \<and> v mod VIDEO_CHAR_HEIGHT = 0)"
  shows "m_video_buff (scanline_timer e v t) = m_video_buff t"
    and "m_video_buff_idx (scanline_timer e v t) = m_video_buff_idx t"
  using assms unfolding scanline_timer_def Let_def line_in_row
  by (auto simp add: video_render_buff_frame graphic_video_render_frame)

lemma blanked_until_vblank:
  assumes "m_video_blanked t"
  shows "blank_until_vblank evs t"
  using assms
proof (induction evs arbitrary: t)
  case Nil
  show ?case by simp
next
  case (Cons ev evs)
  obtain e v where ev: "ev = (e, v)" by (cases ev)
  from scanline_timer_blanked [OF Cons.prems, where e = e and v = v] Cons.IH [of "scanline_timer e v t"]
  show ?case by (simp add: ev Let_def)
qed

lemma compute_lp_data_blanked: "m_video_blanked (compute_lp_data s) = m_video_blanked s"
  by (simp add: compute_lp_data_def Let_def)

lemma update_graphic_bits_blanked: "m_video_blanked (update_graphic_bits s) = m_video_blanked s"
  by (simp add: update_graphic_bits_def flg_w_def irq_w_def update_flg_sts_def update_irq_def Let_def)

lemma vblank_w_unblanks: "\<not> m_video_blanked (vblank_w e True s)"
  by (simp add: vblank_w_def Let_def update_graphic_bits_blanked compute_lp_data_blanked
        video_fill_buff_frame set_video_mar_def)

text \<open>
  C5. A fetch that uses up its budget of 220 words (the loop is left with \<open>iters\<close> at 221,
  which only the budget test does) leaves the buffer it fills not full. While the buffer
  that the next row will show is not full, scanline events inside the current row leave it
  so; the first scanline of the next row swaps the buffers, finds the buffer not full, sets
  \<open>m_video_blanked\<close> and comes out blank, and so does every scanline event after it,
  whatever the memory holds then. Once \<open>m_video_blanked\<close> is set every scanline event
  renders a blank alpha scanline, and only the rising edge of the vertical blank clears
  the flag.
\<close>

theorem underrun_blanks_until_vblank:
  "(snd (snd (video_fill_loop e b 0 0 (upd_buff b (\<lambda>b. b\<lparr>full := False\<rparr>) s))) = Suc MAX_WORD_PER_ROW \<longrightarrow>
      \<not> full (m_video_buff (video_fill_buff e b s) b)) \<and>
   (\<not> full (m_video_buff ta (\<not> m_video_buff_idx ta)) \<and>
    \<not> (va < VIDEO_770_VBSTART \<and> va mod VIDEO_CHAR_HEIGHT = 0) \<longrightarrow>
      \<not> full (m_video_buff (scanline_timer ea va ta) (\<not> m_video_buff_idx (scanline_timer ea va ta)))) \<and>
   (\<not> full (m_video_buff tb (\<not> m_video_buff_idx tb)) \<and>
    vb < VIDEO_770_VBSTART \<and> vb mod VIDEO_CHAR_HEIGHT = 0 \<longrightarrow>
      m_video_blanked (scanline_timer eb vb tb) \<and> blank_until_vblank ((eb, vb) # evs) tb) \<and>
   (m_video_blanked tc \<longrightarrow> blank_until_vblank evc tc) \<and>
   \<not> m_video_blanked (vblank_w ec True u)"
proof (intro conjI impI)
  assume "snd (snd (video_fill_loop e b 0 0 (upd_buff b (\<lambda>b. b\<lparr>full := False\<rparr>) s))) = Suc MAX_WORD_PER_ROW"
  then show "\<not> full (m_video_buff (video_fill_buff e b s) b)" by (rule video_fill_loop_budget)
next
  assume "\<not> full (m_video_buff ta (\<not> m_video_buff_idx ta)) \<and>
          \<not> (va < VIDEO_770_VBSTART \<and> va mod VIDEO_CHAR_HEIGHT = 0)"
  then show "\<not> full (m_video_buff (scanline_timer ea va ta) (\<not> m_video_buff_idx (scanline_timer ea va ta)))"
    by (simp only: scanline_timer_same_row not_False_eq_True)
next
  assume a: "\<not> full (m_video_buff tb (\<not> m_video_buff_idx tb)) \<and>
             vb < VIDEO_770_VBSTART \<and> vb mod VIDEO_CHAR_HEIGHT = 0"
  then show b: "m_video_blanked (scanline_timer eb vb tb)" by (simp add: scanline_timer_row_start)
  from a have "alpha_blank_line (m_bitmap (if m_graphic_sel tb then graphic_video_render eb vb tb else tb))
           (m_graphic_sel (scanline_timer eb vb tb)) (m_bitmap (scanline_timer eb vb tb)) vb"
    by (intro scanline_timer_row_start) simp_all
  with blanked_until_vblank [OF b, of evs] show "blank_until_vblank ((eb, vb) # evs) tb"
    by (simp add: Let_def)
next
  assume "m_video_blanked tc"
  then show "blank_until_vblank evc tc" by (rule blanked_until_vblank)
next
  show "\<not> m_video_blanked (vblank_w ec True u)" by (rule vblank_w_unblanks)
qed

theorem underrun_blanks_until_vblank_witness:
  "snd (snd (video_fill_loop (const_env 0xffff 0) False 0 0
               (upd_buff False (\<lambda>b. b\<lparr>full := False\<rparr>) zero_c))) = Suc MAX_WORD_PER_ROW \<and>
   \<not> full (m_video_buff zero_c (\<not> m_video_buff_idx zero_c)) \<and>
   \<not> ((1::nat) < VIDEO_770_VBSTART \<and> (1::nat) mod VIDEO_CHAR_HEIGHT = 0) \<and>
   (15::nat) < VIDEO_770_VBSTART \<and> (15::nat) mod VIDEO_CHAR_HEIGHT = 0 \<and>
   m_video_blanked (zero_c\<lparr>m_video_blanked := True\<rparr>) \<and>
   \<not> full (m_video_buff (video_fill_buff (const_env 0xffff 0) False zero_c) False) \<and>
   \<not> full (m_video_buff (scanline_timer (const_env 0x4141 0) 1 zero_c)
             (\<not> m_video_buff_idx (scanline_timer (const_env 0x4141 0) 1 zero_c))) \<and>
   m_video_blanked (scanline_timer (const_env 0x4141 0) 15 zero_c) \<and>
   blank_until_vblank [(const_env 0x4141 0, 15), (const_env 0x4141 0, 16), (const_env 0x8020 0, 30)] zero_c \<and>
   blank_until_vblank [(const_env 0x4141 0, 16), (const_env 0x8020 0, 30)] (zero_c\<lparr>m_video_blanked := True\<rparr>) \<and>
   \<not> m_video_blanked (vblank_w (const_env 0x4141 0) True (zero_c\<lparr>m_video_blanked := True\<rparr>))"
proof -
  have h1: "snd (snd (video_fill_loop (const_env 0xffff 0) False 0 0
               (upd_buff False (\<lambda>b. b\<lparr>full := False\<rparr>) zero_c))) = Suc MAX_WORD_PER_ROW"
    by code_simp
  have h2: "\<not> full (m_video_buff zero_c (\<not> m_video_buff_idx zero_c))"
    by (simp add: zero_c_def)
  have h3: "m_video_blanked (zero_c\<lparr>m_video_blanked := True\<rparr>)" by simp
  from underrun_blanks_until_vblank [where e = "const_env 0xffff 0" and b = False and s = zero_c
      and ta = zero_c and va = 1 and ea = "const_env 0x4141 0"
      and tb = zero_c and vb = 15 and eb = "const_env 0x4141 0"
      and evs = "[(const_env 0x4141 0, 16), (const_env 0x8020 0, 30)]"
      and tc = "zero_c\<lparr>m_video_blanked := True\<rparr>"
      and evc = "[(const_env 0x4141 0, 16), (const_env 0x8020 0, 30)]"
      and ec = "const_env 0x4141 0" and u = "zero_c\<lparr>m_video_blanked := True\<rparr>"]
    h1 h2 h3
  show ?thesis by (simp del: blank_until_vblank.simps)
qed

end
